theory Spec2Isabelle
  imports Complex_Main "HOL-Library.Sublist" "HOL-Library.Word"
begin

section \<open>Text\<close>

text \<open>
  Strings are lists of characters with the code points 0 to 255. Case folding acts on
  the letters A to Z only; the folding a database locale applies to other characters is
  outside this model.
\<close>

definition upper_letters :: string where
  "upper_letters = ''ABCDEFGHIJKLMNOPQRSTUVWXYZ''"

definition lower_letters :: string where
  "lower_letters = ''abcdefghijklmnopqrstuvwxyz''"

definition to_lower :: "char \<Rightarrow> char" where
  "to_lower c = (case map_of (zip upper_letters lower_letters) c of Some l \<Rightarrow> l | None \<Rightarrow> c)"

definition lower_case :: "string \<Rightarrow> string" where
  "lower_case s = map to_lower s"

definition digits :: string where
  "digits = ''0123456789''"

definition digit_char :: "nat \<Rightarrow> char" where
  "digit_char d = digits ! (d mod 10)"

text \<open>Decimal rendering of a number, as a JavaScript template literal interpolates it.\<close>

function show_nat :: "nat \<Rightarrow> string" where
  "show_nat n = (if n < 10 then [digit_char n] else show_nat (n div 10) @ [digit_char n])"
  by pat_completeness auto
termination
  by (relation "measure id") auto

declare show_nat.simps [simp del]

function show_digits :: "int \<Rightarrow> string" where
  "show_digits n =
     (if n < 10 then [digit_char (nat n)] else show_digits (n div 10) @ [digit_char (nat (n mod 10))])"
  by pat_completeness auto
termination
  by (relation "measure nat") auto

declare show_digits.simps [simp del]

definition show_int :: "int \<Rightarrow> string" where
  "show_int i = (if i < 0 then ''-'' @ show_digits (- i) else show_digits i)"

definition digit_value :: "char \<Rightarrow> nat option" where
  "digit_value c = map_of (zip digits [0 ..< 10]) c"

fun digits_value :: "int \<Rightarrow> string \<Rightarrow> int option" where
  "digits_value acc [] = Some acc"
| "digits_value acc (c # cs) =
     (case digit_value c of None \<Rightarrow> None | Some d \<Rightarrow> digits_value (10 * acc + int d) cs)"

text \<open>An optional sign followed by one or more decimal digits, and the integer it denotes.\<close>

definition parse_int :: "string \<Rightarrow> int option" where
  "parse_int s =
     (case s of
        [] \<Rightarrow> None
      | c # cs \<Rightarrow>
          if c = CHR ''-'' then (if cs = [] then None else map_option uminus (digits_value 0 cs))
          else if c = CHR ''+'' then (if cs = [] then None else digits_value 0 cs)
          else digits_value 0 s)"

text \<open>
  White space as JavaScript has it (the class \<open>\s\<close> of a regular expression, and what
  \<open>parseInt\<close> skips): among the code points below 256 these are the six of ASCII and the
  no-break space U+00A0.
\<close>

definition is_space :: "char \<Rightarrow> bool" where
  "is_space c =
     (c \<in> set [CHR '' '', CHR 0x09, CHR 0x0A, CHR 0x0B, CHR 0x0C, CHR 0x0D, CHR 0xA0])"

text \<open>The \<open>trim\<close> sanitizer: white space removed at both ends.\<close>

definition trim :: "string \<Rightarrow> string" where
  "trim s = rev (dropWhile is_space (rev (dropWhile is_space s)))"

text \<open>
  White space as the input functions of the database have it: the six characters of
  ASCII only.
\<close>

definition pg_space :: "char \<Rightarrow> bool" where
  "pg_space c = (c \<in> set [CHR '' '', CHR 0x09, CHR 0x0A, CHR 0x0B, CHR 0x0C, CHR 0x0D])"

definition pg_trim :: "string \<Rightarrow> string" where
  "pg_trim s = rev (dropWhile pg_space (rev (dropWhile pg_space s)))"

text \<open>The character U+0000, which the database accepts in no text.\<close>

definition nul :: char where
  "nul = CHR 0x00"

subsection \<open>LIKE patterns\<close>

text \<open>
  The pattern language of the database's LIKE operator: \<open>%\<close> stands for any run of
  characters, \<open>_\<close> for any one character, and a backslash takes the next pattern
  character literally. A pattern that ends in a lone backslash matches nothing here.
\<close>

definition backslash :: char where
  "backslash = CHR 0x5C"

fun like_match :: "string \<Rightarrow> string \<Rightarrow> bool" where
  "like_match [] t = (t = [])"
| "like_match (p # ps) [] = (p = CHR ''%'' \<and> like_match ps [])"
| "like_match (p # ps) (c # cs) =
     (if p = CHR ''%'' then like_match ps (c # cs) \<or> like_match (p # ps) cs
      else if p = CHR ''_'' then like_match ps cs
      else if p = backslash then (case ps of [] \<Rightarrow> False | q # qs \<Rightarrow> c = q \<and> like_match qs cs)
      else c = p \<and> like_match ps cs)"

text \<open>\<open>t ILIKE p\<close>: LIKE after folding the case of both sides.\<close>

definition ilike :: "string \<Rightarrow> string \<Rightarrow> bool" where
  "ilike t p = like_match (lower_case p) (lower_case t)"

section \<open>Numbers\<close>

text \<open>
  A JavaScript number is an IEEE 754 double. The numbers that the handlers compute are
  integers, infinite, or not a number: \<open>Fin n\<close> is the double whose value is the
  integer \<open>n\<close>. The sign of zero is not kept; no result below depends on it.
\<close>

datatype number = Fin int | PInf | NInf | NaN

text \<open>The number of binary digits of a positive integer.\<close>

function bit_length :: "int \<Rightarrow> nat" where
  "bit_length n = (if n \<le> 0 then 0 else Suc (bit_length (n div 2)))"
  by pat_completeness auto
termination
  by (relation "measure nat") auto

declare bit_length.simps [simp del]

text \<open>
  The double nearest to an integer, ties to the even significand: exact up to
  \<open>2 ^ 53\<close>, rounded to 53 significant bits beyond, infinite from \<open>2 ^ 1024\<close> on.
  This is the value of a decimal text under \<open>Number\<close> and under \<open>parseInt\<close>, and of
  an exact sum or product that is stored as a double.
\<close>

definition to_double :: "int \<Rightarrow> number" where
  "to_double n =
     (let m = \<bar>n\<bar> in
      if m \<le> 2 ^ 53 then Fin n
      else
        (let sh = bit_length m - 53;
             q = m div 2 ^ sh;
             r = m mod 2 ^ sh;
             q' = (if 2 ^ (sh - 1) < r \<or> (r = 2 ^ (sh - 1) \<and> odd q) then q + 1 else q);
             v = q' * 2 ^ sh
         in if 2 ^ 1024 \<le> v then (if n < 0 then NInf else PInf)
            else Fin (if n < 0 then - v else v)))"

text \<open>\<open>x - 1\<close> and \<open>x * y\<close> on doubles.\<close>

fun js_minus_one :: "number \<Rightarrow> number" where
  "js_minus_one (Fin a) = to_double (a - 1)"
| "js_minus_one PInf = PInf"
| "js_minus_one NInf = NInf"
| "js_minus_one NaN = NaN"

fun negative :: "number \<Rightarrow> bool" where
  "negative (Fin a) = (a < 0)"
| "negative NInf = True"
| "negative PInf = False"
| "negative NaN = False"

definition js_times :: "number \<Rightarrow> number \<Rightarrow> number" where
  "js_times x y =
     (case (x, y) of
        (Fin a, Fin b) \<Rightarrow> to_double (a * b)
      | _ \<Rightarrow> if x = NaN \<or> y = NaN \<or> x = Fin 0 \<or> y = Fin 0 then NaN
             else if negative x = negative y then PInf else NInf)"

text \<open>A number as JSON writes it: what is not finite becomes null.\<close>

fun json_number :: "number \<Rightarrow> int option" where
  "json_number (Fin n) = Some n"
| "json_number PInf = None"
| "json_number NInf = None"
| "json_number NaN = None"

section \<open>Values and rows\<close>

text \<open>
  The JavaScript values that travel in request bodies and in the parameter arrays handed
  to the database driver. Arrays and objects are not modelled, nor numbers with a
  fraction.
\<close>

datatype js = JNull | JBool bool | JNum number | JStr string

type_synonym timestamp = int

text \<open>The type \<open>integer\<close> of the database, which \<open>SERIAL\<close> gives the identifier: 32 bits, signed.\<close>

type_synonym int4 = "32 word"

text \<open>
  A row of the \<open>tasks\<close> table, one field per column; a column that may hold NULL is
  an option. The two timestamps are written by \<open>DEFAULT NOW()\<close> and the update trigger
  only.
\<close>

record task =
  task_id :: int4
  task_title :: string
  task_description :: "string option"
  task_priority :: "string option"
  task_due_date :: "timestamp option"
  task_completed :: "bool option"
  task_created_at :: timestamp
  task_updated_at :: timestamp

text \<open>An error raised by the database driver, with its \<open>code\<close> property.\<close>

datatype db_error = DbError string

section \<open>What the platform supplies\<close>

text \<open>
  What the sources do not define and this model takes as given: the database's reading
  of a text as a timestamp; the two ISO 8601 recognisers of the validation libraries;
  the text JavaScript gives a finite number of magnitude \<open>2 ^ 53\<close> or more; and the
  order in which the database returns rows that \<open>ORDER BY\<close> leaves tied, given as a
  rank on rows.
\<close>

record platform =
  timestamptz_in :: "string \<Rightarrow> timestamp option"
  joi_date_iso :: "js \<Rightarrow> bool"
  isISO8601 :: "string \<Rightarrow> bool"
  number_text :: "int \<Rightarrow> string"
  tie_rank :: "task \<Rightarrow> int"

subsection \<open>Numbers and text\<close>

text \<open>
  \<open>String(x)\<close>: an integer below \<open>2 ^ 53\<close> in magnitude is written with all its
  digits.
\<close>

fun number_to_string :: "platform \<Rightarrow> number \<Rightarrow> string" where
  "number_to_string P (Fin n) = (if \<bar>n\<bar> < 2 ^ 53 then show_int n else number_text P n)"
| "number_to_string P PInf = ''Infinity''"
| "number_to_string P NInf = ''-Infinity''"
| "number_to_string P NaN = ''NaN''"

text \<open>
  \<open>parseInt(s, 10)\<close>: leading white space is skipped, then an optional sign and the
  longest run of decimal digits are read; without a digit the result is not a number.
\<close>

definition parseInt :: "string \<Rightarrow> number" where
  "parseInt s =
     (let t = dropWhile is_space s;
          (sign, u) =
            (case t of
               [] \<Rightarrow> (1, [])
             | c # cs \<Rightarrow> if c = CHR ''-'' then (- 1, cs)
                        else if c = CHR ''+'' then (1, cs) else (1, t));
          ds = takeWhile (\<lambda>c. c \<in> set digits) u
      in case digits_value 0 ds of
           None \<Rightarrow> NaN
         | Some n \<Rightarrow> if ds = [] then NaN else to_double (sign * n))"

text \<open>
  \<open>Math.ceil(t / b)\<close> for the count \<open>t\<close> of a table, as JSON writes it. The primary
  key keeps a table below \<open>2 ^ 32\<close> rows; the rounded quotient of such a count by a finite
  divisor other than zero has the ceiling of the exact quotient. A division by zero
  gives a value that JSON writes as null.
\<close>

fun math_ceil_quotient :: "int \<Rightarrow> number \<Rightarrow> int option" where
  "math_ceil_quotient t (Fin l) = (if l = 0 then None else Some (- ((- t) div l)))"
| "math_ceil_quotient t PInf = Some 0"
| "math_ceil_quotient t NInf = Some 0"
| "math_ceil_quotient t NaN = None"

section \<open>Parameters as the database reads them\<close>

text \<open>
  The driver sends every parameter as text, and null or undefined as NULL; the database
  reads the text at the type of the place where the parameter stands.
\<close>

fun text_in :: "platform \<Rightarrow> js \<Rightarrow> string option" where
  "text_in P JNull = None"
| "text_in P (JBool b) = Some (if b then ''true'' else ''false'')"
| "text_in P (JNum x) = Some (number_to_string P x)"
| "text_in P (JStr s) = Some s"

definition parse_bool :: "string \<Rightarrow> bool option" where
  "parse_bool s =
     (let t = lower_case (pg_trim s) in
      if t \<in> set [''t'', ''tr'', ''tru'', ''true'', ''y'', ''ye'', ''yes'', ''on'', ''1''] then Some True
      else if t \<in> set [''f'', ''fa'', ''fal'', ''fals'', ''false'', ''n'', ''no'', ''of'', ''off'', ''0'']
        then Some False
      else None)"

text \<open>
  An integer type with its bounds: a text that is no integer is an error (22P02), an
  integer out of the bounds another (22003).
\<close>

definition int_in :: "int \<Rightarrow> int \<Rightarrow> string \<Rightarrow> db_error + int" where
  "int_in lo hi s =
     (case parse_int (pg_trim s) of
        None \<Rightarrow> Inl (DbError ''22P02'')
      | Some n \<Rightarrow> if lo \<le> n \<and> n \<le> hi then Inr n else Inl (DbError ''22003''))"

datatype pgtype = PgText | PgBool | PgTimestamptz | PgInt4 | PgInt8

datatype colval =
    VText "string option"
  | VTime "timestamp option"
  | VBool "bool option"
  | VInt "int option"

fun null_of :: "pgtype \<Rightarrow> colval" where
  "null_of PgText = VText None"
| "null_of PgBool = VBool None"
| "null_of PgTimestamptz = VTime None"
| "null_of PgInt4 = VInt None"
| "null_of PgInt8 = VInt None"

fun read_at :: "platform \<Rightarrow> pgtype \<Rightarrow> string \<Rightarrow> db_error + colval" where
  "read_at P PgText s = Inr (VText (Some s))"
| "read_at P PgBool s =
     (case parse_bool s of None \<Rightarrow> Inl (DbError ''22P02'') | Some b \<Rightarrow> Inr (VBool (Some b)))"
| "read_at P PgTimestamptz s =
     (case timestamptz_in P s of None \<Rightarrow> Inl (DbError ''22007'') | Some t \<Rightarrow> Inr (VTime (Some t)))"
| "read_at P PgInt4 s =
     (case int_in (- 2147483648) 2147483647 s of Inl e \<Rightarrow> Inl e | Inr n \<Rightarrow> Inr (VInt (Some n)))"
| "read_at P PgInt8 s =
     (case int_in (- 9223372036854775808) 9223372036854775807 s of
        Inl e \<Rightarrow> Inl e
      | Inr n \<Rightarrow> Inr (VInt (Some n)))"

text \<open>
  Reading one parameter at a type. A text that holds the character U+0000 is refused
  whatever the type (22021).
\<close>

definition pg_input :: "platform \<Rightarrow> pgtype \<Rightarrow> js \<Rightarrow> db_error + colval" where
  "pg_input P ty v =
     (case text_in P v of
        None \<Rightarrow> Inr (null_of ty)
      | Some s \<Rightarrow> if nul \<in> set s then Inl (DbError ''22021'') else read_at P ty s)"

text \<open>The value bound to \<open>$n\<close>.\<close>

definition bound :: "'a list \<Rightarrow> nat \<Rightarrow> 'a option" where
  "bound ps n = (if 1 \<le> n \<and> n \<le> length ps then Some (ps ! (n - 1)) else None)"

text \<open>
  A statement is accepted when the placeholders it mentions are exactly
  \<open>$1 .. $k\<close> for the \<open>k\<close> values supplied.
\<close>

definition binds_all :: "nat list \<Rightarrow> js list \<Rightarrow> bool" where
  "binds_all phs ps = (set phs = {1 ..< Suc (length ps)})"

text \<open>
  The parameters are read in their order, from \<open>$n\<close> on, each at the type the statement
  gives its placeholder; the first that cannot be read is the error of the statement.
\<close>

fun bind_params :: "platform \<Rightarrow> (nat \<times> pgtype) list \<Rightarrow> nat \<Rightarrow> js list \<Rightarrow> db_error + colval list" where
  "bind_params P tys n [] = Inr []"
| "bind_params P tys n (v # vs) =
     (case map_of tys n of
        None \<Rightarrow> Inl (DbError ''42P18'')
      | Some ty \<Rightarrow>
          (case pg_input P ty v of
             Inl e \<Rightarrow> Inl e
           | Inr x \<Rightarrow> (case bind_params P tys (Suc n) vs of
                         Inl e \<Rightarrow> Inl e
                       | Inr xs \<Rightarrow> Inr (x # xs))))"

section \<open>The list queries as the database sees them\<close>

text \<open>
  A predicate appended to \<open>WHERE 1=1\<close>; the numbers are the positional placeholders
  \<open>$n\<close> it mentions.
\<close>

datatype cond = PriorityEq nat | CompletedEq nat | SearchILike nat nat

fun cond_text :: "cond \<Rightarrow> string" where
  "cond_text (PriorityEq n) = '' AND priority = $'' @ show_nat n"
| "cond_text (CompletedEq n) = '' AND completed = $'' @ show_nat n"
| "cond_text (SearchILike n m) =
     '' AND (title ILIKE $'' @ show_nat n @ '' OR description ILIKE $'' @ show_nat m @ '')''"

fun cond_placeholders :: "cond \<Rightarrow> nat list" where
  "cond_placeholders (PriorityEq n) = [n]"
| "cond_placeholders (CompletedEq n) = [n]"
| "cond_placeholders (SearchILike n m) = [n, m]"

fun cond_types :: "cond \<Rightarrow> (nat \<times> pgtype) list" where
  "cond_types (PriorityEq n) = [(n, PgText)]"
| "cond_types (CompletedEq n) = [(n, PgBool)]"
| "cond_types (SearchILike n m) = [(n, PgText), (m, PgText)]"

text \<open>The data query: its predicates and the placeholders of LIMIT and OFFSET.\<close>

record data_query =
  dq_where :: "cond list"
  dq_limit :: nat
  dq_offset :: nat

definition data_query_text :: "data_query \<Rightarrow> string" where
  "data_query_text q =
     ''SELECT * FROM tasks WHERE 1=1'' @ concat (map cond_text (dq_where q)) @
     '' ORDER BY created_at DESC LIMIT $'' @ show_nat (dq_limit q) @
     '' OFFSET $'' @ show_nat (dq_offset q)"

definition count_query_text :: "cond list \<Rightarrow> string" where
  "count_query_text cs = ''SELECT COUNT(*) FROM tasks WHERE 1=1'' @ concat (map cond_text cs)"

definition data_query_placeholders :: "data_query \<Rightarrow> nat list" where
  "data_query_placeholders q =
     concat (map cond_placeholders (dq_where q)) @ [dq_limit q, dq_offset q]"

definition count_query_placeholders :: "cond list \<Rightarrow> nat list" where
  "count_query_placeholders cs = concat (map cond_placeholders cs)"

text \<open>The types of the placeholders; LIMIT and OFFSET take a \<open>bigint\<close>.\<close>

definition count_query_types :: "cond list \<Rightarrow> (nat \<times> pgtype) list" where
  "count_query_types cs = concat (map cond_types cs)"

definition data_query_types :: "data_query \<Rightarrow> (nat \<times> pgtype) list" where
  "data_query_types q =
     concat (map cond_types (dq_where q)) @ [(dq_limit q, PgInt8), (dq_offset q, PgInt8)]"

subsection \<open>Executing them\<close>

text \<open>
  One predicate on one row. A comparison with a NULL column is unknown, which under
  \<open>OR\<close> and \<open>AND\<close> selects the row exactly when the other side decides it, so it
  counts as false. A value of the wrong shape selects nothing.
\<close>

fun cond_holds :: "js list \<Rightarrow> task \<Rightarrow> cond \<Rightarrow> bool" where
  "cond_holds ps r (PriorityEq n) =
     (case bound ps n of Some (JStr p) \<Rightarrow> task_priority r = Some p | _ \<Rightarrow> False)"
| "cond_holds ps r (CompletedEq n) =
     (case bound ps n of Some (JBool b) \<Rightarrow> task_completed r = Some b | _ \<Rightarrow> False)"
| "cond_holds ps r (SearchILike n m) =
     ((case bound ps n of Some (JStr p) \<Rightarrow> ilike (task_title r) p | _ \<Rightarrow> False) \<or>
      (case bound ps m of
         Some (JStr p) \<Rightarrow> (case task_description r of None \<Rightarrow> False | Some d \<Rightarrow> ilike d p)
       | _ \<Rightarrow> False))"

definition where_holds :: "js list \<Rightarrow> cond list \<Rightarrow> task \<Rightarrow> bool" where
  "where_holds ps cs r = list_all (cond_holds ps r) cs"

text \<open>
  \<open>ORDER BY created_at DESC\<close>. Rows created at the same instant come in the order of
  their rank, which is the platform's; rows that the rank does not part keep their
  table order.
\<close>

definition order_by_created_desc :: "platform \<Rightarrow> task list \<Rightarrow> task list" where
  "order_by_created_desc P rs = sort_key (\<lambda>r. - task_created_at r) (sort_key (tie_rank P) rs)"

text \<open>\<open>OFFSET\<close> and \<open>LIMIT\<close> on the rows of a result; NULL is no offset and no limit.\<close>

fun offset_rows :: "int option \<Rightarrow> 'a list \<Rightarrow> 'a list" where
  "offset_rows None rs = rs"
| "offset_rows (Some n) rs = drop (nat n) rs"

fun limit_rows :: "int option \<Rightarrow> 'a list \<Rightarrow> 'a list" where
  "limit_rows None rs = rs"
| "limit_rows (Some n) rs = take (nat n) rs"

fun is_negative :: "int option \<Rightarrow> bool" where
  "is_negative None = False"
| "is_negative (Some n) = (n < 0)"

text \<open>
  The data query on a table. The parameters are read first; then the database rejects
  a negative OFFSET (code 2201X) and a negative LIMIT (code 2201W), in this order.
\<close>

definition select_tasks ::
  "platform \<Rightarrow> task list \<Rightarrow> data_query \<Rightarrow> js list \<Rightarrow> db_error + task list" where
  "select_tasks P tbl q ps =
     (if \<not> binds_all (data_query_placeholders q) ps then Inl (DbError ''08P01'')
      else case bind_params P (data_query_types q) 1 ps of
        Inl e \<Rightarrow> Inl e
      | Inr xs \<Rightarrow>
          (case (bound xs (dq_limit q), bound xs (dq_offset q)) of
             (Some (VInt l), Some (VInt off)) \<Rightarrow>
               if is_negative off then Inl (DbError ''2201X'')
               else if is_negative l then Inl (DbError ''2201W'')
               else Inr (limit_rows l (offset_rows off
                      (order_by_created_desc P (filter (where_holds ps (dq_where q)) tbl))))
           | _ \<Rightarrow> Inl (DbError ''42804'')))"

text \<open>The count query on a table.\<close>

definition count_tasks :: "platform \<Rightarrow> task list \<Rightarrow> cond list \<Rightarrow> js list \<Rightarrow> db_error + int" where
  "count_tasks P tbl cs ps =
     (if \<not> binds_all (count_query_placeholders cs) ps then Inl (DbError ''08P01'')
      else case bind_params P (count_query_types cs) 1 ps of
        Inl e \<Rightarrow> Inl e
      | Inr xs \<Rightarrow> Inr (int (length (filter (where_holds ps cs) tbl))))"

section \<open>GET /tasks\<close>

text \<open>
  The query string of a list request. \<open>page\<close> and \<open>limit\<close> carry the integer that
  their decimal text denotes; other texts are outside this model. The filters are the
  raw strings, absent when the parameter is not given.
\<close>

record list_query =
  q_page :: "int option"
  q_limit :: "int option"
  q_priority :: "string option"
  q_completed :: "string option"
  q_search :: "string option"

text \<open>\<open>if (s)\<close> on a string that may be undefined: defined and not empty.\<close>

fun truthy_string :: "string option \<Rightarrow> bool" where
  "truthy_string None = False"
| "truthy_string (Some s) = (s \<noteq> [])"

text \<open>
  \<open>page\<close> and \<open>limit\<close> as numbers, with their defaults 1 and 10. The arithmetic
  coercion of \<open>page - 1\<close> and \<open>... * limit\<close> and the call \<open>parseInt(limit, 10)\<close> read the
  same double from a decimal text.
\<close>

definition page_of :: "list_query \<Rightarrow> number" where
  "page_of rq = (case q_page rq of None \<Rightarrow> Fin 1 | Some p \<Rightarrow> to_double p)"

definition limit_of :: "list_query \<Rightarrow> number" where
  "limit_of rq = (case q_limit rq of None \<Rightarrow> Fin 10 | Some l \<Rightarrow> to_double l)"

text \<open>\<open>offset = (page - 1) * limit\<close>\<close>

definition offset_of :: "list_query \<Rightarrow> number" where
  "offset_of rq = js_times (js_minus_one (page_of rq)) (limit_of rq)"

text \<open>
  The builder of the data query: \<open>query\<close>, \<open>queryParams\<close> and \<open>paramCount\<close>,
  extended filter by filter, then by LIMIT and OFFSET. \<open>parseInt(offset, 10)\<close> reads the
  text of the number \<open>offset\<close>.
\<close>

definition build_query :: "platform \<Rightarrow> list_query \<Rightarrow> data_query \<times> js list" where
  "build_query P rq =
     (let (query, queryParams, paramCount) = ([], [], 0 :: nat);
          (query, queryParams, paramCount) =
            (case q_priority rq of
               Some priority \<Rightarrow>
                 if priority \<noteq> [] then
                   (query @ [PriorityEq (paramCount + 1)], queryParams @ [JStr priority], paramCount + 1)
                 else (query, queryParams, paramCount)
             | None \<Rightarrow> (query, queryParams, paramCount));
          (query, queryParams, paramCount) =
            (case q_completed rq of
               Some completed \<Rightarrow>
                 (query @ [CompletedEq (paramCount + 1)],
                  queryParams @ [JBool (completed = ''true'')], paramCount + 1)
             | None \<Rightarrow> (query, queryParams, paramCount));
          (query, queryParams, paramCount) =
            (case q_search rq of
               Some search \<Rightarrow>
                 if search \<noteq> [] then
                   (query @ [SearchILike (paramCount + 1) (paramCount + 2)],
                    queryParams @ [JStr (''%'' @ search @ ''%''), JStr (''%'' @ search @ ''%'')],
                    paramCount + 2)
                 else (query, queryParams, paramCount)
             | None \<Rightarrow> (query, queryParams, paramCount))
      in (\<lparr>dq_where = query, dq_limit = paramCount + 1, dq_offset = paramCount + 2\<rparr>,
          queryParams @
            [JNum (limit_of rq), JNum (parseInt (number_to_string P (offset_of rq)))]))"

text \<open>The builder of the count query, with its own counter.\<close>

definition build_count_query :: "list_query \<Rightarrow> cond list \<times> js list" where
  "build_count_query rq =
     (let (countQuery, countParams, countParamCount) = ([], [], 0 :: nat);
          (countQuery, countParams, countParamCount) =
            (case q_priority rq of
               Some priority \<Rightarrow>
                 if priority \<noteq> [] then
                   (countQuery @ [PriorityEq (countParamCount + 1)],
                    countParams @ [JStr priority], countParamCount + 1)
                 else (countQuery, countParams, countParamCount)
             | None \<Rightarrow> (countQuery, countParams, countParamCount));
          (countQuery, countParams, countParamCount) =
            (case q_completed rq of
               Some completed \<Rightarrow>
                 (countQuery @ [CompletedEq (countParamCount + 1)],
                  countParams @ [JBool (completed = ''true'')], countParamCount + 1)
             | None \<Rightarrow> (countQuery, countParams, countParamCount));
          (countQuery, countParams, countParamCount) =
            (case q_search rq of
               Some search \<Rightarrow>
                 if search \<noteq> [] then
                   (countQuery @ [SearchILike (countParamCount + 1) (countParamCount + 2)],
                    countParams @ [JStr (''%'' @ search @ ''%''), JStr (''%'' @ search @ ''%'')],
                    countParamCount + 2)
                 else (countQuery, countParams, countParamCount)
             | None \<Rightarrow> (countQuery, countParams, countParamCount))
      in (countQuery, countParams))"

text \<open>
  The pagination object and the envelope of the response, as JSON carries them: a
  number that is not finite is written as null.
\<close>

record pagination =
  pagination_page :: "int option"
  pagination_limit :: "int option"
  pagination_total :: "int option"
  pagination_pages :: "int option"

record envelope =
  env_tasks :: "task list"
  env_pagination :: pagination

text \<open>
  What a handler does with a request: it sends a response, or passes an error on with
  \<open>next(error)\<close>.
\<close>

datatype detail = Message string | JoiMessage string

datatype resp_body =
    ListJson envelope
  | TaskJson task
  | ErrorJson string
  | ValidationJson "detail list"
  | EmptyObjectJson
  | NoBody

record response =
  status :: nat
  body :: resp_body

datatype outcome = Responded response | Forwarded db_error

text \<open>
  The handler. The database returns the count as the text of a \<open>bigint\<close>, which
  \<open>parseInt\<close> reads; the count of a table is below \<open>2 ^ 32\<close> and so exact as a number.
\<close>

definition list_tasks :: "platform \<Rightarrow> task list \<Rightarrow> list_query \<Rightarrow> outcome" where
  "list_tasks P tbl rq =
     (let (query, queryParams) = build_query P rq in
      case select_tasks P tbl query queryParams of
        Inl error \<Rightarrow> Forwarded error
      | Inr rows \<Rightarrow>
          (let (countQuery, countParams) = build_count_query rq in
           case count_tasks P tbl countQuery countParams of
             Inl error \<Rightarrow> Forwarded error
           | Inr totalCount \<Rightarrow>
               Responded \<lparr>status = 200, body = ListJson
                 \<lparr>env_tasks = rows,
                  env_pagination =
                    \<lparr>pagination_page = json_number (page_of rq),
                     pagination_limit = json_number (limit_of rq),
                     pagination_total = Some totalCount,
                     pagination_pages = math_ceil_quotient totalCount (limit_of rq)\<rparr>\<rparr>\<rparr>))"

section \<open>The table and its statements\<close>

text \<open>
  The table together with the sequence behind \<open>id SERIAL\<close>: \<open>db_next_id\<close> is the value
  the sequence gives next. The sequence runs from 1 to 2147483647 and is exhausted
  beyond.
\<close>

record db =
  db_tasks :: "task list"
  db_next_id :: int

datatype column = Title | Description | Priority | DueDate | Completed

fun column_type :: "column \<Rightarrow> pgtype" where
  "column_type Title = PgText"
| "column_type Description = PgText"
| "column_type Priority = PgText"
| "column_type DueDate = PgTimestamptz"
| "column_type Completed = PgBool"

text \<open>Reading a parameter at the type of a column; a text that cannot be read is an error.\<close>

definition convert :: "platform \<Rightarrow> column \<Rightarrow> js \<Rightarrow> db_error + colval" where
  "convert P c v = pg_input P (column_type c) v"

text \<open>
  \<open>VARCHAR(n)\<close>: a longer text is an error (22001) unless only spaces run over, which
  are cut off.
\<close>

definition varchar :: "nat \<Rightarrow> string \<Rightarrow> db_error + string" where
  "varchar n s =
     (if length s \<le> n then Inr s
      else if list_all (\<lambda>c. c = CHR '' '') (drop n s) then Inr (take n s)
      else Inl (DbError ''22001''))"

text \<open>
  Writing a value to a column of a row, under the constraints of the table:
  \<open>title VARCHAR(255) NOT NULL\<close> (23502),
  \<open>priority VARCHAR(20) CHECK (priority IN ('low', 'medium', 'high'))\<close> (23514).
\<close>

fun store :: "column \<Rightarrow> colval \<Rightarrow> task \<Rightarrow> db_error + task" where
  "store Title (VText None) r = Inl (DbError ''23502'')"
| "store Title (VText (Some s)) r =
     (case varchar 255 s of Inl e \<Rightarrow> Inl e | Inr t \<Rightarrow> Inr (r\<lparr>task_title := t\<rparr>))"
| "store Description (VText d) r = Inr (r\<lparr>task_description := d\<rparr>)"
| "store Priority (VText None) r = Inr (r\<lparr>task_priority := None\<rparr>)"
| "store Priority (VText (Some s)) r =
     (case varchar 20 s of
        Inl e \<Rightarrow> Inl e
      | Inr p \<Rightarrow> if p \<in> set [''low'', ''medium'', ''high''] then Inr (r\<lparr>task_priority := Some p\<rparr>)
                else Inl (DbError ''23514''))"
| "store DueDate (VTime t) r = Inr (r\<lparr>task_due_date := t\<rparr>)"
| "store Completed (VBool b) r = Inr (r\<lparr>task_completed := b\<rparr>)"
| "store _ _ r = Inl (DbError ''42804'')"

fun convert_all :: "platform \<Rightarrow> (column \<times> js) list \<Rightarrow> db_error + (column \<times> colval) list" where
  "convert_all P [] = Inr []"
| "convert_all P ((c, v) # cvs) =
     (case convert P c v of
        Inl e \<Rightarrow> Inl e
      | Inr x \<Rightarrow> (case convert_all P cvs of Inl e \<Rightarrow> Inl e | Inr xs \<Rightarrow> Inr ((c, x) # xs)))"

fun store_all :: "(column \<times> colval) list \<Rightarrow> task \<Rightarrow> db_error + task" where
  "store_all [] r = Inr r"
| "store_all ((c, x) # cxs) r =
     (case store c x r of Inl e \<Rightarrow> Inl e | Inr r' \<Rightarrow> store_all cxs r')"

text \<open>
  The parameter of \<open>WHERE id = $n\<close>, read at the type of the column: an integer that
  does not fit its 32 bits is an error (22003).
\<close>

definition id_in :: "platform \<Rightarrow> js \<Rightarrow> db_error + int4 option" where
  "id_in P v =
     (case pg_input P PgInt4 v of
        Inl e \<Rightarrow> Inl e
      | Inr (VInt i) \<Rightarrow> Inr (map_option of_int i)
      | Inr _ \<Rightarrow> Inl (DbError ''42804''))"

definition id_is :: "int4 option \<Rightarrow> task \<Rightarrow> bool" where
  "id_is i r = (i = Some (task_id r))"

text \<open>\<open>SELECT * FROM tasks WHERE id = $1\<close>\<close>

definition select_by_id :: "platform \<Rightarrow> task list \<Rightarrow> js list \<Rightarrow> db_error + task list" where
  "select_by_id P tbl ps =
     (case ps of
        [v] \<Rightarrow> (case id_in P v of Inl e \<Rightarrow> Inl e | Inr i \<Rightarrow> Inr (filter (id_is i) tbl))
      | _ \<Rightarrow> Inl (DbError ''08P01''))"


text \<open>
  \<open>INSERT INTO tasks (title, description, priority, due_date, completed)
  VALUES ($1, $2, $3, $4, $5) RETURNING *\<close>:
  the identifier comes from the sequence, both timestamps from \<open>DEFAULT NOW()\<close>.
  The parameters are read first. Then the sequence gives its value, or the error 2200H
  when it is exhausted; a value once given is not given again, whether or not the row
  is stored. A row whose identifier is in the table already violates the primary key
  (23505).
\<close>

definition insert_task ::
  "platform \<Rightarrow> db \<Rightarrow> timestamp \<Rightarrow> js list \<Rightarrow> (db_error + task list) \<times> db" where
  "insert_task P d now ps =
     (case ps of
        [v1, v2, v3, v4, v5] \<Rightarrow>
          (case convert_all P
                  [(Title, v1), (Description, v2), (Priority, v3), (DueDate, v4), (Completed, v5)] of
             Inl e \<Rightarrow> (Inl e, d)
           | Inr xs \<Rightarrow>
               if db_next_id d < 1 \<or> 2147483647 < db_next_id d then (Inl (DbError ''2200H''), d)
               else
                 (let d' = d\<lparr>db_next_id := db_next_id d + 1\<rparr> in
                  case store_all xs
                         \<lparr>task_id = of_int (db_next_id d), task_title = [], task_description = None,
                          task_priority = None, task_due_date = None, task_completed = None,
                          task_created_at = now, task_updated_at = now\<rparr> of
                    Inl e \<Rightarrow> (Inl e, d')
                  | Inr r \<Rightarrow>
                      if list_ex (\<lambda>x. task_id x = task_id r) (db_tasks d)
                      then (Inl (DbError ''23505''), d')
                      else (Inr [r], d'\<lparr>db_tasks := db_tasks d @ [r]\<rparr>)))
      | _ \<Rightarrow> (Inl (DbError ''08P01''), d))"

text \<open>
  \<open>UPDATE tasks SET ... WHERE id = $k RETURNING *\<close>: an entry of the SET list is a
  column bound to a placeholder, or \<open>updated_at = NOW()\<close>.
\<close>

datatype assignment = SetParam column nat | SetUpdatedNow

fun column_name :: "column \<Rightarrow> string" where
  "column_name Title = ''title''"
| "column_name Description = ''description''"
| "column_name Priority = ''priority''"
| "column_name DueDate = ''due_date''"
| "column_name Completed = ''completed''"

fun assignment_text :: "assignment \<Rightarrow> string" where
  "assignment_text (SetParam c n) = column_name c @ '' = $'' @ show_nat n"
| "assignment_text SetUpdatedNow = ''updated_at = NOW()''"

fun join :: "string \<Rightarrow> string list \<Rightarrow> string" where
  "join sep [] = []"
| "join sep [x] = x"
| "join sep (x # y # ys) = x @ sep @ join sep (y # ys)"

record update_stmt =
  us_set :: "assignment list"
  us_id :: nat

definition update_text :: "update_stmt \<Rightarrow> string" where
  "update_text u =
     ''UPDATE tasks SET '' @ join '', '' (map assignment_text (us_set u)) @
     '' WHERE id = $'' @ show_nat (us_id u) @ '' RETURNING *''"

fun assignment_placeholders :: "assignment \<Rightarrow> nat list" where
  "assignment_placeholders (SetParam c n) = [n]"
| "assignment_placeholders SetUpdatedNow = []"

definition update_placeholders :: "update_stmt \<Rightarrow> nat list" where
  "update_placeholders u = concat (map assignment_placeholders (us_set u)) @ [us_id u]"

fun bound_sets :: "js list \<Rightarrow> assignment list \<Rightarrow> (column \<times> js) list" where
  "bound_sets ps [] = []"
| "bound_sets ps (SetParam c n # as) =
     (case bound ps n of None \<Rightarrow> bound_sets ps as | Some v \<Rightarrow> (c, v) # bound_sets ps as)"
| "bound_sets ps (SetUpdatedNow # as) = bound_sets ps as"

text \<open>
  The new version of one row. The trigger \<open>update_tasks_updated_at\<close> sets
  \<open>updated_at\<close> to \<open>NOW()\<close> on every update, as the SET list itself does.
\<close>

definition update_row :: "(column \<times> colval) list \<Rightarrow> timestamp \<Rightarrow> task \<Rightarrow> db_error + task" where
  "update_row xs now r =
     (case store_all xs r of Inl e \<Rightarrow> Inl e | Inr r' \<Rightarrow> Inr (r'\<lparr>task_updated_at := now\<rparr>))"

fun update_rows ::
  "(column \<times> colval) list \<Rightarrow> timestamp \<Rightarrow> int4 option \<Rightarrow> task list \<Rightarrow> db_error + task list" where
  "update_rows xs now i [] = Inr []"
| "update_rows xs now i (r # rs) =
     (case (if id_is i r then update_row xs now r else Inr r) of
        Inl e \<Rightarrow> Inl e
      | Inr r' \<Rightarrow> (case update_rows xs now i rs of Inl e \<Rightarrow> Inl e | Inr rs' \<Rightarrow> Inr (r' # rs')))"

text \<open>
  The statement on the table. The parameters of the SET list, which come first, are
  read before the identifier.
\<close>

definition update_tasks ::
  "platform \<Rightarrow> db \<Rightarrow> timestamp \<Rightarrow> update_stmt \<Rightarrow> js list \<Rightarrow> db_error + task list \<times> db" where
  "update_tasks P d now u ps =
     (if \<not> binds_all (update_placeholders u) ps then Inl (DbError ''08P01'')
      else case bound ps (us_id u) of
        None \<Rightarrow> Inl (DbError ''08P01'')
      | Some v \<Rightarrow>
          (case convert_all P (bound_sets ps (us_set u)) of
             Inl e \<Rightarrow> Inl e
           | Inr xs \<Rightarrow>
               (case id_in P v of
                  Inl e \<Rightarrow> Inl e
                | Inr i \<Rightarrow>
                    (case update_rows xs now i (db_tasks d) of
                       Inl e \<Rightarrow> Inl e
                     | Inr rs \<Rightarrow> Inr (filter (id_is i) rs, d\<lparr>db_tasks := rs\<rparr>)))))"

section \<open>Request bodies and their validation\<close>

text \<open>
  The parsed JSON body of a create or update request: the five fields the handlers
  read, absent when undefined, and the names of any other keys it has.
\<close>

record task_body =
  b_title :: "js option"
  b_description :: "js option"
  b_priority :: "js option"
  b_dueDate :: "js option"
  b_completed :: "js option"
  b_unknown :: "string list"

fun truthy :: "js \<Rightarrow> bool" where
  "truthy JNull = False"
| "truthy (JBool b) = b"
| "truthy (JNum x) = (x \<noteq> Fin 0 \<and> x \<noteq> NaN)"
| "truthy (JStr s) = (s \<noteq> [])"

text \<open>\<open>x || d\<close> on a field that may be undefined.\<close>

fun js_or :: "js option \<Rightarrow> js \<Rightarrow> js" where
  "js_or None d = d"
| "js_or (Some v) d = (if truthy v then v else d)"

text \<open>A field as a query parameter: the driver sends undefined as NULL.\<close>

fun js_param :: "js option \<Rightarrow> js" where
  "js_param None = JNull"
| "js_param (Some v) = v"

subsection \<open>The Joi schemas\<close>

text \<open>
  \<open>Joi.string()\<close> accepts a string that is not empty, within the length bounds given
  by \<open>min\<close> and \<open>max\<close>; no other type and not null.
\<close>

definition joi_string :: "nat option \<Rightarrow> nat option \<Rightarrow> js \<Rightarrow> bool" where
  "joi_string lo hi v =
     (case v of
        JStr s \<Rightarrow> s \<noteq> [] \<and> (case lo of None \<Rightarrow> True | Some n \<Rightarrow> n \<le> length s) \<and>
                  (case hi of None \<Rightarrow> True | Some n \<Rightarrow> length s \<le> n)
      | _ \<Rightarrow> False)"

text \<open>\<open>Joi.string().valid(...)\<close>: one of the listed strings.\<close>

definition joi_valid :: "string list \<Rightarrow> js \<Rightarrow> bool" where
  "joi_valid xs v = (case v of JStr s \<Rightarrow> s \<in> set xs | _ \<Rightarrow> False)"

text \<open>\<open>Joi.boolean()\<close>: a boolean, or the text of one in any letter case.\<close>

definition joi_boolean :: "js \<Rightarrow> bool" where
  "joi_boolean v =
     (case v of JBool b \<Rightarrow> True | JStr s \<Rightarrow> lower_case s \<in> set [''true'', ''false''] | _ \<Rightarrow> False)"

fun joi_required :: "(js \<Rightarrow> bool) \<Rightarrow> js option \<Rightarrow> bool" where
  "joi_required check None = False"
| "joi_required check (Some v) = check v"

fun joi_optional :: "(js \<Rightarrow> bool) \<Rightarrow> js option \<Rightarrow> bool" where
  "joi_optional check None = True"
| "joi_optional check (Some v) = check v"

text \<open>
  \<open>Joi.object({...}).validate\<close>: the keys are checked in the order of the schema, then
  a key the schema does not name is an error; the result is the key of the first error.
\<close>

definition joi_object :: "(string \<times> bool) list \<Rightarrow> string list \<Rightarrow> string option" where
  "joi_object checks unknown =
     (case find (\<lambda>kc. \<not> snd kc) checks of
        Some kc \<Rightarrow> Some (fst kc)
      | None \<Rightarrow> (case unknown of [] \<Rightarrow> None | k # ks \<Rightarrow> Some k))"

definition createTaskSchema :: "platform \<Rightarrow> task_body \<Rightarrow> string option" where
  "createTaskSchema P b =
     joi_object
       [(''title'', joi_required (joi_string (Some 1) (Some 255)) (b_title b)),
        (''description'', joi_optional (joi_string None (Some 1000)) (b_description b)),
        (''priority'', joi_optional (joi_valid [''low'', ''medium'', ''high'']) (b_priority b)),
        (''dueDate'', joi_optional (joi_date_iso P) (b_dueDate b)),
        (''completed'', joi_optional joi_boolean (b_completed b))]
       (b_unknown b)"

definition updateTaskSchema :: "platform \<Rightarrow> task_body \<Rightarrow> string option" where
  "updateTaskSchema P b =
     joi_object
       [(''title'', joi_optional (joi_string (Some 1) (Some 255)) (b_title b)),
        (''description'', joi_optional (joi_string None (Some 1000)) (b_description b)),
        (''priority'', joi_optional (joi_valid [''low'', ''medium'', ''high'']) (b_priority b)),
        (''dueDate'', joi_optional (joi_date_iso P) (b_dueDate b)),
        (''completed'', joi_optional joi_boolean (b_completed b))]
       (b_unknown b)"

text \<open>
  \<open>validateRequest(schema)\<close>: a 400 response when the schema reports an error,
  otherwise the request goes on to the next handler.
\<close>

definition validateRequest :: "(task_body \<Rightarrow> string option) \<Rightarrow> task_body \<Rightarrow> response option" where
  "validateRequest schema b =
     (case schema b of
        Some k \<Rightarrow> Some \<lparr>status = 400, body = ValidationJson [JoiMessage k]\<rparr>
      | None \<Rightarrow> None)"

subsection \<open>The express-validator chains\<close>

text \<open>The text on which a standard validator or sanitizer works.\<close>

fun ev_string :: "platform \<Rightarrow> js option \<Rightarrow> string" where
  "ev_string P None = []"
| "ev_string P (Some JNull) = []"
| "ev_string P (Some (JBool b)) = (if b then ''true'' else ''false'')"
| "ev_string P (Some (JNum x)) = number_to_string P x"
| "ev_string P (Some (JStr s)) = s"

text \<open>A chain on a field that must be there, and one that starts with \<open>optional()\<close>.\<close>

definition checked :: "platform \<Rightarrow> js option \<Rightarrow> (string \<Rightarrow> bool) \<Rightarrow> string \<Rightarrow> detail list" where
  "checked P v check msg = (if check (ev_string P v) then [] else [Message msg])"

fun optional :: "platform \<Rightarrow> js option \<Rightarrow> (string \<Rightarrow> bool) \<Rightarrow> string \<Rightarrow> detail list" where
  "optional P None check msg = []"
| "optional P (Some v) check msg = checked P (Some v) check msg"

definition isLength :: "nat \<Rightarrow> nat \<Rightarrow> string \<Rightarrow> bool" where
  "isLength lo hi s = (lo \<le> length s \<and> length s \<le> hi)"

definition isIn :: "string list \<Rightarrow> string \<Rightarrow> bool" where
  "isIn xs s = (s \<in> set xs)"

definition isBoolean :: "string \<Rightarrow> bool" where
  "isBoolean s = (s \<in> set [''true'', ''false'', ''1'', ''0''])"

text \<open>
  \<open>isInt\<close> with a minimum: the text is an integer, and as a number it is not below the
  minimum.
\<close>

definition isInt :: "int \<Rightarrow> string \<Rightarrow> bool" where
  "isInt lo s = (case parse_int s of None \<Rightarrow> False | Some n \<Rightarrow> lo \<le> n)"

text \<open>\<open>param('id').isInt({ min: 1 })\<close>\<close>

definition id_chain :: "string \<Rightarrow> detail list" where
  "id_chain ident = (if isInt 1 ident then [] else [Message ''Task ID must be a positive integer''])"

text \<open>
  The chains of POST /tasks: the body as the sanitizer leaves it (the title replaced by
  its trimmed text) and the messages of the failed chains.
\<close>

definition create_chains :: "platform \<Rightarrow> task_body \<Rightarrow> task_body \<times> detail list" where
  "create_chains P b =
     (let title = trim (ev_string P (b_title b)) in
      (b\<lparr>b_title := Some (JStr title)\<rparr>,
       (if isLength 1 255 title then []
        else [Message ''Title is required and must be between 1-255 characters'']) @
       optional P (b_description b) (isLength 0 1000) ''Description must be less than 1000 characters'' @
       optional P (b_priority b) (isIn [''low'', ''medium'', ''high''])
         ''Priority must be low, medium, or high'' @
       optional P (b_dueDate b) (isISO8601 P) ''Due date must be a valid ISO 8601 date'' @
       optional P (b_completed b) isBoolean ''Completed must be a boolean''))"

text \<open>The chains of PUT /tasks/:id: here the title too is optional.\<close>

definition update_chains :: "platform \<Rightarrow> string \<Rightarrow> task_body \<Rightarrow> task_body \<times> detail list" where
  "update_chains P ident b =
     (let b' = (case b_title b of
                  None \<Rightarrow> b
                | Some v \<Rightarrow> b\<lparr>b_title := Some (JStr (trim (ev_string P (Some v))))\<rparr>) in
      (b',
       id_chain ident @
       optional P (b_title b') (isLength 1 255) ''Title must be between 1-255 characters'' @
       optional P (b_description b) (isLength 0 1000) ''Description must be less than 1000 characters'' @
       optional P (b_priority b) (isIn [''low'', ''medium'', ''high''])
         ''Priority must be low, medium, or high'' @
       optional P (b_dueDate b) (isISO8601 P) ''Due date must be a valid ISO 8601 date'' @
       optional P (b_completed b) isBoolean ''Completed must be a boolean''))"

section \<open>The handlers on single tasks\<close>


text \<open>POST /tasks\<close>

definition create_task :: "platform \<Rightarrow> db \<Rightarrow> timestamp \<Rightarrow> task_body \<Rightarrow> outcome \<times> db" where
  "create_task P d now b =
     (let (b', errors) = create_chains P b in
      case validateRequest (createTaskSchema P) b' of
        Some res \<Rightarrow> (Responded res, d)
      | None \<Rightarrow>
          if errors \<noteq> [] then (Responded \<lparr>status = 400, body = ValidationJson errors\<rparr>, d)
          else case insert_task P d now
                      [js_param (b_title b'), js_or (b_description b') JNull,
                       js_or (b_priority b') (JStr ''medium''), js_or (b_dueDate b') JNull,
                       js_or (b_completed b') (JBool False)] of
            (Inl error, d') \<Rightarrow> (Forwarded error, d')
          | (Inr rows, d') \<Rightarrow>
              (case rows of
                 [] \<Rightarrow> (Responded \<lparr>status = 201, body = EmptyObjectJson\<rparr>, d')
               | r # rs \<Rightarrow> (Responded \<lparr>status = 201, body = TaskJson r\<rparr>, d')))"

text \<open>
  The dynamic update of PUT /tasks/:id: \<open>updateFields\<close>, \<open>values\<close> and
  \<open>paramCount\<close>, extended by each field of the body that is defined.
\<close>

definition build_update :: "task_body \<Rightarrow> assignment list \<times> js list \<times> nat" where
  "build_update b =
     (let (updateFields, values, paramCount) = ([], [], 0 :: nat);
          (updateFields, values, paramCount) =
            (case b_title b of
               Some title \<Rightarrow>
                 (updateFields @ [SetParam Title (paramCount + 1)], values @ [title], paramCount + 1)
             | None \<Rightarrow> (updateFields, values, paramCount));
          (updateFields, values, paramCount) =
            (case b_description b of
               Some description \<Rightarrow>
                 (updateFields @ [SetParam Description (paramCount + 1)], values @ [description],
                  paramCount + 1)
             | None \<Rightarrow> (updateFields, values, paramCount));
          (updateFields, values, paramCount) =
            (case b_priority b of
               Some priority \<Rightarrow>
                 (updateFields @ [SetParam Priority (paramCount + 1)], values @ [priority],
                  paramCount + 1)
             | None \<Rightarrow> (updateFields, values, paramCount));
          (updateFields, values, paramCount) =
            (case b_dueDate b of
               Some dueDate \<Rightarrow>
                 (updateFields @ [SetParam DueDate (paramCount + 1)], values @ [dueDate],
                  paramCount + 1)
             | None \<Rightarrow> (updateFields, values, paramCount));
          (updateFields, values, paramCount) =
            (case b_completed b of
               Some completed \<Rightarrow>
                 (updateFields @ [SetParam Completed (paramCount + 1)], values @ [completed],
                  paramCount + 1)
             | None \<Rightarrow> (updateFields, values, paramCount))
      in (updateFields, values, paramCount))"

definition update_task ::
  "platform \<Rightarrow> db \<Rightarrow> timestamp \<Rightarrow> string \<Rightarrow> task_body \<Rightarrow> outcome \<times> db" where
  "update_task P d now ident b =
     (let (b', errors) = update_chains P ident b in
      case validateRequest (updateTaskSchema P) b' of
        Some res \<Rightarrow> (Responded res, d)
      | None \<Rightarrow>
          if errors \<noteq> [] then (Responded \<lparr>status = 400, body = ValidationJson errors\<rparr>, d)
          else case select_by_id P (db_tasks d) [JStr ident] of
            Inl error \<Rightarrow> (Forwarded error, d)
          | Inr existingTask \<Rightarrow>
              if existingTask = [] then
                (Responded \<lparr>status = 404, body = ErrorJson ''Task not found''\<rparr>, d)
              else
                (let (updateFields, values, paramCount) = build_update b' in
                 if updateFields = [] then
                   (Responded \<lparr>status = 400, body = ErrorJson ''No fields to update''\<rparr>, d)
                 else case update_tasks P d now
                             \<lparr>us_set = updateFields @ [SetUpdatedNow], us_id = paramCount + 1\<rparr>
                             (values @ [JStr ident]) of
                   Inl error \<Rightarrow> (Forwarded error, d)
                 | Inr (rows, d') \<Rightarrow>
                     (case rows of
                        [] \<Rightarrow> (Responded \<lparr>status = 200, body = EmptyObjectJson\<rparr>, d')
                      | r # rs \<Rightarrow> (Responded \<lparr>status = 200, body = TaskJson r\<rparr>, d'))))"






section \<open>The error handler\<close>

text \<open>The properties of an error object that the handler reads.\<close>

record js_error =
  err_name :: string
  err_code :: "string option"
  err_statusCode :: "nat option"
  err_message :: string
  err_details :: "string option"
  err_stack :: "string option"

record error_response =
  er_error :: string
  er_statusCode :: nat
  er_timestamp :: timestamp
  er_path :: string
  er_method :: string
  er_details :: "string option"
  er_stack :: "string option"

text \<open>
  \<open>errorHandler(err, req, res, _next)\<close>, given the value of \<open>NODE_ENV\<close>, the time, and
  the path and method of the request: the status sent and the JSON body.
\<close>

definition errorHandler ::
  "string option \<Rightarrow> timestamp \<Rightarrow> string \<Rightarrow> string \<Rightarrow> js_error \<Rightarrow> nat \<times> error_response" where
  "errorHandler node_env now path method err =
     (let (statusCode, message, details) = (500 :: nat, ''Internal Server Error'', None);
          (statusCode, message, details) =
            (if err_name err = ''ValidationError'' then
               (400, ''Validation Error'',
                Some (case err_details err of
                        Some ds \<Rightarrow> if ds \<noteq> [] then ds else err_message err
                      | None \<Rightarrow> err_message err))
             else if err_name err = ''CastError'' then (400, ''Invalid ID format'', details)
             else if err_code err = Some ''23505'' then (409, ''Resource already exists'', details)
             else if err_code err = Some ''23503'' then
               (400, ''Referenced resource does not exist'', details)
             else if err_code err = Some ''23502'' then (400, ''Required field is missing'', details)
             else if err_code err = Some ''42P01'' then (500, ''Database table not found'', details)
             else if err_code err = Some ''ECONNREFUSED'' then
               (503, ''Database connection failed'', details)
             else (case err_statusCode err of
                     Some c \<Rightarrow> if c \<noteq> 0 then (c, err_message err, details)
                               else (statusCode, message, details)
                   | None \<Rightarrow> (statusCode, message, details)));
          (message, details) =
            (if node_env = Some ''production'' \<and> statusCode = 500
             then (''Internal Server Error'', None) else (message, details))
      in (statusCode,
          \<lparr>er_error = message, er_statusCode = statusCode, er_timestamp = now, er_path = path,
           er_method = method,
           er_details = (if truthy_string details then details else None),
           er_stack = (if node_env = Some ''development'' then err_stack err else None)\<rparr>))"

section \<open>Vocabulary of the properties\<close>

text \<open>
  What the WHERE clause built for a list request tests on a row: each predicate with the
  value bound to it. The priority and search predicates are there when their parameter is
  a non-empty string, the completed predicate when its parameter is present.
\<close>

definition selected :: "list_query \<Rightarrow> task \<Rightarrow> bool" where
  "selected rq r =
     ((case q_priority rq of None \<Rightarrow> True | Some p \<Rightarrow> p = [] \<or> task_priority r = Some p) \<and>
      (case q_completed rq of None \<Rightarrow> True | Some c \<Rightarrow> task_completed r = Some (c = ''true'')) \<and>
      (case q_search rq of None \<Rightarrow> True
       | Some s \<Rightarrow> s = [] \<or> ilike (task_title r) (''%'' @ s @ ''%'') \<or>
           (case task_description r of None \<Rightarrow> False | Some d \<Rightarrow> ilike d (''%'' @ s @ ''%''))))"

text \<open>The kind of filter a predicate comes from.\<close>

datatype filter_kind = ByPriority | ByCompleted | BySearch

fun cond_kind :: "cond \<Rightarrow> filter_kind" where
  "cond_kind (PriorityEq n) = ByPriority"
| "cond_kind (CompletedEq n) = ByCompleted"
| "cond_kind (SearchILike n m) = BySearch"

text \<open>The filters a request applies, in the fixed order.\<close>

definition applied_filters :: "list_query \<Rightarrow> filter_kind list" where
  "applied_filters rq =
     (if truthy_string (q_priority rq) then [ByPriority] else []) @
     (if q_completed rq \<noteq> None then [ByCompleted] else []) @
     (if truthy_string (q_search rq) then [BySearch] else [])"

text \<open>The values the applied filters bind, in the fixed order.\<close>

definition filter_values :: "list_query \<Rightarrow> js list" where
  "filter_values rq =
     (case q_priority rq of None \<Rightarrow> [] | Some p \<Rightarrow> if p \<noteq> [] then [JStr p] else []) @
     (case q_completed rq of None \<Rightarrow> [] | Some c \<Rightarrow> [JBool (c = ''true'')]) @
     (case q_search rq of None \<Rightarrow> []
      | Some s \<Rightarrow> if s \<noteq> [] then [JStr (''%'' @ s @ ''%''), JStr (''%'' @ s @ ''%'')] else [])"

text \<open>
  The characters with a meaning of their own in a LIKE pattern, and a string without
  them.
\<close>

definition wildcard :: "char \<Rightarrow> bool" where
  "wildcard c = (c = CHR ''%'' \<or> c = CHR ''_'' \<or> c = backslash)"

definition plain :: "string \<Rightarrow> bool" where
  "plain s = (\<not> list_ex wildcard s)"

text \<open>
  The string \<open>s\<close> occurs in \<open>t\<close> as a substring, letter case ignored; and it occurs in
  the title or in the description of a row.
\<close>

definition contains_ci :: "string \<Rightarrow> string \<Rightarrow> bool" where
  "contains_ci s t = sublist (lower_case s) (lower_case t)"

definition occurs_in_row :: "string \<Rightarrow> task \<Rightarrow> bool" where
  "occurs_in_row s r =
     (contains_ci s (task_title r) \<or>
      (case task_description r of None \<Rightarrow> False | Some d \<Rightarrow> contains_ci s d))"

text \<open>
  A row satisfies the filters of a list request, as the interface describes them: its
  priority is the one asked for, its completed flag is the one asked for (the parameter
  stands for true when it is the text \<open>true\<close>, for false otherwise), and the search
  string occurs in its title or description, letter case ignored. A priority or search
  parameter that is absent or empty asks for nothing, as does an absent completed
  parameter.
\<close>

definition satisfies_filters :: "list_query \<Rightarrow> task \<Rightarrow> bool" where
  "satisfies_filters rq r =
     ((case q_priority rq of None \<Rightarrow> True | Some p \<Rightarrow> p = [] \<or> task_priority r = Some p) \<and>
      (case q_completed rq of None \<Rightarrow> True | Some c \<Rightarrow> task_completed r = Some (c = ''true'')) \<and>
      (case q_search rq of None \<Rightarrow> True | Some s \<Rightarrow> s = [] \<or> occurs_in_row s r))"

text \<open>The search string of a request, if there is one, has no pattern character.\<close>

definition plain_search :: "list_query \<Rightarrow> bool" where
  "plain_search rq = (case q_search rq of None \<Rightarrow> True | Some s \<Rightarrow> plain s)"

text \<open>The page and the limit a request asks for, 1 and 10 when it does not say.\<close>

definition requested_page :: "list_query \<Rightarrow> int" where
  "requested_page rq = (case q_page rq of None \<Rightarrow> 1 | Some p \<Rightarrow> p)"

definition requested_limit :: "list_query \<Rightarrow> int" where
  "requested_limit rq = (case q_limit rq of None \<Rightarrow> 10 | Some l \<Rightarrow> l)"

text \<open>
  Page and limit are positive, and page, limit and the offset \<open>(page - 1) * limit\<close> are
  below \<open>2 ^ 53\<close>, where every integer is a number of its own.
\<close>

definition exact_range :: "list_query \<Rightarrow> bool" where
  "exact_range rq =
     (1 \<le> requested_page rq \<and> requested_page rq < 2 ^ 53 \<and>
      1 \<le> requested_limit rq \<and> requested_limit rq < 2 ^ 53 \<and>
      (requested_page rq - 1) * requested_limit rq < 2 ^ 53)"

text \<open>A filter string holds the character U+0000.\<close>

definition nul_filter :: "list_query \<Rightarrow> bool" where
  "nul_filter rq =
     ((case q_priority rq of None \<Rightarrow> False | Some p \<Rightarrow> nul \<in> set p) \<or>
      (case q_search rq of None \<Rightarrow> False | Some s \<Rightarrow> nul \<in> set s))"

text \<open>
  A platform for the examples: it reads no date, writes a large number with all its
  digits and ranks all rows alike.
\<close>

definition plain_platform :: platform where
  "plain_platform =
     \<lparr>timestamptz_in = (\<lambda>s. None), joi_date_iso = (\<lambda>v. False), isISO8601 = (\<lambda>s. False),
      number_text = show_int, tie_rank = (\<lambda>r. 0)\<rparr>"

text \<open>
  The five tasks of the integration tests, numbered and dated in the order of their
  insertion, and the list requests used as examples.
\<close>

definition seed_task :: "int \<Rightarrow> string \<Rightarrow> string \<Rightarrow> bool \<Rightarrow> task" where
  "seed_task i t p c =
     \<lparr>task_id = of_int i, task_title = t, task_description = None, task_priority = Some p,
      task_due_date = None, task_completed = Some c, task_created_at = i, task_updated_at = i\<rparr>"

definition seed_tasks :: "task list" where
  "seed_tasks =
     [seed_task 1 ''High Priority Task'' ''high'' False,
      seed_task 2 ''Medium Priority Task'' ''medium'' True,
      seed_task 3 ''Low Priority Task'' ''low'' False,
      seed_task 4 ''Another High Priority Task'' ''high'' True,
      seed_task 5 ''Completed Task'' ''medium'' True]"

definition no_filters :: list_query where
  "no_filters = \<lparr>q_page = None, q_limit = None, q_priority = None, q_completed = None, q_search = None\<rparr>"

text \<open>
  The rows LIMIT and OFFSET leave of a result, given the two values as the database has
  read them.
\<close>

fun window :: "colval \<Rightarrow> colval \<Rightarrow> task list \<Rightarrow> db_error + task list" where
  "window (VInt l) (VInt off) rs =
     (if is_negative off then Inl (DbError ''2201X'')
      else if is_negative l then Inl (DbError ''2201W'')
      else Inr (limit_rows l (offset_rows off rs)))"
| "window _ _ rs = Inl (DbError ''42804'')"

text \<open>The value bound to OFFSET.\<close>

definition offset_param :: "platform \<Rightarrow> list_query \<Rightarrow> number" where
  "offset_param P rq = parseInt (number_to_string P (offset_of rq))"

definition all_filters :: list_query where
  "all_filters =
     \<lparr>q_page = Some 2, q_limit = Some 5, q_priority = Some ''high'', q_completed = Some ''false'',
      q_search = Some ''priority''\<rparr>"

text \<open>A body with a title only, and a table without rows whose sequence starts at 1.\<close>

definition title_only :: "string \<Rightarrow> task_body" where
  "title_only t =
     \<lparr>b_title = Some (JStr t), b_description = None, b_priority = None, b_dueDate = None,
      b_completed = None, b_unknown = []\<rparr>"

definition empty_db :: db where
  "empty_db = \<lparr>db_tasks = [], db_next_id = 1\<rparr>"

text \<open>
  A title that is valid: 1 to 255 characters once white space is trimmed from its ends,
  none of them the character U+0000.
\<close>

definition title_valid :: "string \<Rightarrow> bool" where
  "title_valid t = (1 \<le> length (trim t) \<and> length (trim t) \<le> 255 \<and> nul \<notin> set (trim t))"

text \<open>
  A description that is absent, or is a string of 1 to 1000 characters without the
  character U+0000.
\<close>

fun description_valid :: "js option \<Rightarrow> bool" where
  "description_valid None = True"
| "description_valid (Some (JStr s)) = (s \<noteq> [] \<and> length s \<le> 1000 \<and> nul \<notin> set s)"
| "description_valid (Some v) = False"

text \<open>
  The other fields of a create request, each absent or valid: a priority that is one of
  the three names; a completed flag that is a boolean or the text of one; a due date
  that both validation libraries accept and the database reads as a timestamp; and no
  key besides the five.
\<close>

fun priority_valid :: "js option \<Rightarrow> bool" where
  "priority_valid None = True"
| "priority_valid (Some (JStr p)) = (p \<in> set [''low'', ''medium'', ''high''])"
| "priority_valid (Some v) = False"

fun completed_valid :: "js option \<Rightarrow> bool" where
  "completed_valid None = True"
| "completed_valid (Some (JBool c)) = True"
| "completed_valid (Some (JStr s)) = (s \<in> set [''true'', ''false''])"
| "completed_valid (Some v) = False"

fun is_time :: "db_error + colval \<Rightarrow> bool" where
  "is_time (Inr (VTime t)) = True"
| "is_time x = False"

fun due_valid :: "platform \<Rightarrow> js option \<Rightarrow> bool" where
  "due_valid P None = True"
| "due_valid P (Some v) =
     (joi_date_iso P v \<and> isISO8601 P (ev_string P (Some v)) \<and>
      is_time (convert P DueDate (js_or (Some v) JNull)))"

definition rest_valid :: "platform \<Rightarrow> task_body \<Rightarrow> bool" where
  "rest_valid P b =
     (priority_valid (b_priority b) \<and> due_valid P (b_dueDate b) \<and>
      completed_valid (b_completed b) \<and> b_unknown b = [])"

text \<open>What a valid field of a create request leaves in its column.\<close>

fun stored_description :: "js option \<Rightarrow> string option" where
  "stored_description (Some (JStr s)) = Some s"
| "stored_description v = None"

fun stored_priority :: "js option \<Rightarrow> string" where
  "stored_priority (Some (JStr p)) = p"
| "stored_priority v = ''medium''"

fun stored_completed :: "js option \<Rightarrow> bool" where
  "stored_completed (Some (JBool c)) = c"
| "stored_completed (Some (JStr s)) = (s = ''true'')"
| "stored_completed v = False"

fun time_of :: "db_error + colval \<Rightarrow> timestamp option" where
  "time_of (Inr (VTime t)) = t"
| "time_of x = None"

definition stored_due :: "platform \<Rightarrow> js option \<Rightarrow> timestamp option" where
  "stored_due P v = time_of (convert P DueDate (js_or v JNull))"

text \<open>
  The row that a create request with a valid body leaves in the table: the next value
  of the sequence, the trimmed title, the description or NULL, the priority or
  \<open>medium\<close>, the due date or NULL, the flag or false.
\<close>

definition created_row :: "platform \<Rightarrow> db \<Rightarrow> timestamp \<Rightarrow> string \<Rightarrow> task_body \<Rightarrow> task" where
  "created_row P d now t b =
     \<lparr>task_id = of_int (db_next_id d), task_title = trim t,
      task_description = stored_description (b_description b),
      task_priority = Some (stored_priority (b_priority b)),
      task_due_date = stored_due P (b_dueDate b),
      task_completed = Some (stored_completed (b_completed b)),
      task_created_at = now, task_updated_at = now\<rparr>"

text \<open>
  The table can take a new row: the sequence is not exhausted, and the value it gives
  next is not the identifier of a row.
\<close>

definition can_insert :: "db \<Rightarrow> bool" where
  "can_insert d =
     (1 \<le> db_next_id d \<and> db_next_id d \<le> 2147483647 \<and>
      list_all (\<lambda>r. task_id r \<noteq> of_int (db_next_id d)) (db_tasks d))"

text \<open>
  A signal that no branch of the handler recognises: its code is none of those looked
  up, and it carries no status code of its own.
\<close>

definition unrecognized :: "js_error \<Rightarrow> bool" where
  "unrecognized err =
     (err_code err \<notin> set [Some ''23505'', Some ''23503'', Some ''23502'', Some ''42P01'',
                           Some ''ECONNREFUSED''] \<and>
      err_statusCode err \<in> set [None, Some 0])"

text \<open>An error as the database driver raises it, with a code and no status.\<close>

definition driver_error :: "string \<Rightarrow> js_error" where
  "driver_error c =
     \<lparr>err_name = ''error'', err_code = Some c, err_statusCode = None,
      err_message = ''relation detail'', err_details = None, err_stack = Some ''at Parser''\<rparr>"


text \<open>No row of the table has the identifier.\<close>

definition absent :: "int \<Rightarrow> db \<Rightarrow> bool" where
  "absent i d = list_all (\<lambda>r. sint (task_id r) \<noteq> i) (db_tasks d)"

text \<open>An integer that the type of the identifier column holds.\<close>

definition int4_range :: "int \<Rightarrow> bool" where
  "int4_range i = (- 2147483648 \<le> i \<and> i \<le> 2147483647)"

text \<open>The value a row holds in a column.\<close>

fun column_value :: "column \<Rightarrow> task \<Rightarrow> colval" where
  "column_value Title r = VText (Some (task_title r))"
| "column_value Description r = VText (task_description r)"
| "column_value Priority r = VText (task_priority r)"
| "column_value DueDate r = VTime (task_due_date r)"
| "column_value Completed r = VBool (task_completed r)"

text \<open>
  Two versions of a row agree outside a set of columns: the same identifier, the same
  creation time, and the same value in every column not in the set.
\<close>

definition same_except :: "column set \<Rightarrow> task \<Rightarrow> task \<Rightarrow> bool" where
  "same_except S r r' =
     (task_id r' = task_id r \<and> task_created_at r' = task_created_at r \<and>
      (\<forall>c. c \<notin> S \<longrightarrow> column_value c r' = column_value c r))"

text \<open>What an update statement does to one row: rewritten when its identifier is the one sought.\<close>

definition row_updated :: "(column \<times> colval) list \<Rightarrow> timestamp \<Rightarrow> int4 option \<Rightarrow> task \<Rightarrow> task \<Rightarrow> bool" where
  "row_updated xs now i r r' = (if id_is i r then update_row xs now r = Inr r' else r' = r)"

text \<open>The columns an update statement assigns from a parameter.\<close>

definition set_columns :: "assignment list \<Rightarrow> column set" where
  "set_columns as = {c. \<exists>n. SetParam c n \<in> set as}"


text \<open>The seeded table.\<close>

definition seed_db :: db where
  "seed_db = \<lparr>db_tasks = seed_tasks, db_next_id = 6\<rparr>"

text \<open>The field of a body that goes to a column, and the columns a body specifies.\<close>

fun body_field :: "column \<Rightarrow> task_body \<Rightarrow> js option" where
  "body_field Title b = b_title b"
| "body_field Description b = b_description b"
| "body_field Priority b = b_priority b"
| "body_field DueDate b = b_dueDate b"
| "body_field Completed b = b_completed b"

definition specified :: "task_body \<Rightarrow> column set" where
  "specified b = {c. body_field c b \<noteq> None}"

text \<open>The request was answered with status 400.\<close>

fun status_400 :: "outcome \<Rightarrow> bool" where
  "status_400 (Responded res) = (status res = 400)"
| "status_400 (Forwarded e) = False"

definition empty_body :: task_body where
  "empty_body =
     \<lparr>b_title = None, b_description = None, b_priority = None, b_dueDate = None,
      b_completed = None, b_unknown = []\<rparr>"

section \<open>Proofs\<close>

subsection \<open>The list queries\<close>

lemma count_where:
  "where_holds (snd (build_count_query rq)) (fst (build_count_query rq)) r = selected rq r"
  by (auto simp: build_count_query_def selected_def where_holds_def bound_def nth_append
      split: option.splits)

lemma data_where:
  "where_holds (snd (build_query P rq)) (dq_where (fst (build_query P rq))) r = selected rq r"
  by (auto simp: build_query_def selected_def where_holds_def bound_def nth_append
      split: option.splits)

lemma count_placeholders:
  "count_query_placeholders (fst (build_count_query rq)) =
     [1 ..< Suc (length (snd (build_count_query rq)))]"
  by (cases "q_priority rq"; cases "q_completed rq"; cases "q_search rq";
      simp add: build_count_query_def count_query_placeholders_def upt_conv_Cons)

lemma data_placeholders:
  "data_query_placeholders (fst (build_query P rq)) = [1 ..< Suc (length (snd (build_query P rq)))]"
  by (cases "q_priority rq"; cases "q_completed rq"; cases "q_search rq";
      simp add: build_query_def data_query_placeholders_def upt_conv_Cons)

lemma build_same_where: "dq_where (fst (build_query P rq)) = fst (build_count_query rq)"
  by (simp add: build_query_def build_count_query_def split: option.splits)

lemma build_same_params:
  "snd (build_query P rq) =
     snd (build_count_query rq) @
       [JNum (limit_of rq), JNum (parseInt (number_to_string P (offset_of rq)))]"
  by (simp add: build_query_def build_count_query_def split: option.splits)

lemma build_kinds: "map cond_kind (fst (build_count_query rq)) = applied_filters rq"
  by (cases "q_priority rq"; cases "q_completed rq"; cases "q_search rq";
      simp add: build_count_query_def applied_filters_def)

lemma build_values: "snd (build_count_query rq) = filter_values rq"
  by (simp add: build_count_query_def filter_values_def split: option.splits)

lemma build_limit_offset:
  "dq_limit (fst (build_query P rq)) = length (snd (build_count_query rq)) + 1 \<and>
   dq_offset (fst (build_query P rq)) = length (snd (build_count_query rq)) + 2"
  by (simp add: build_query_def build_count_query_def split: option.splits)

lemma data_kinds: "map cond_kind (dq_where (fst (build_query P rq))) = applied_filters rq"
  by (simp add: build_same_where build_kinds)

subsection \<open>Numbers and their text\<close>

lemma to_double_exact: "\<bar>n\<bar> \<le> 2 ^ 53 \<Longrightarrow> to_double n = Fin n"
  by (simp add: to_double_def)

lemma digit_cases: "d < 10 \<Longrightarrow> d \<in> {0, 1, 2, 3, 4, 5, 6, 7, 8, 9::nat}"
  by auto

lemma digit_value_char: "d < 10 \<Longrightarrow> digit_value (digit_char d) = Some d"
  by (drule digit_cases) (auto simp: digit_value_def digit_char_def digits_def upt_conv_Cons)

lemma digit_char_digit: "digit_char d \<in> set digits"
proof -
  have "d mod 10 < 10" by simp
  then have "d mod 10 \<in> {0, 1, 2, 3, 4, 5, 6, 7, 8, 9::nat}" by (rule digit_cases)
  then show ?thesis by (auto simp: digit_char_def digits_def)
qed

lemma digit_char_mod: "digit_char (d mod 10) = digit_char d"
  by (simp add: digit_char_def)

lemma digits_value_append:
  "digits_value a (xs @ ys) = (case digits_value a xs of None \<Rightarrow> None | Some b \<Rightarrow> digits_value b ys)"
  by (induction xs arbitrary: a) (simp_all split: option.splits)

lemma show_digits_value:
  "0 \<le> n \<Longrightarrow> digits_value a (show_digits n) = Some (a * 10 ^ length (show_digits n) + n)"
proof (induction n arbitrary: a rule: show_digits.induct)
  case (1 n)
  show ?case
  proof (cases "n < 10")
    case True
    with 1(2) have "nat n < 10" by simp
    then have "digit_value (digit_char (nat n)) = Some (nat n)" by (rule digit_value_char)
    with True 1(2) show ?thesis by (simp add: show_digits.simps [of n])
  next
    case False
    then have d: "0 \<le> n div 10" by simp
    have "nat (n mod 10) < 10" by simp
    then have v: "digit_value (digit_char (nat (n mod 10))) = Some (nat (n mod 10))"
      by (rule digit_value_char)
    have m: "int (nat (n mod 10)) = n mod 10" by simp
    have s: "show_digits n = show_digits (n div 10) @ [digit_char (nat (n mod 10))]"
      using False by (simp add: show_digits.simps [of n])
    have "digits_value a (show_digits n) =
        Some (10 * (a * 10 ^ length (show_digits (n div 10)) + n div 10) + n mod 10)"
      by (simp only: s digits_value_append 1(1) [OF False d] option.case digits_value.simps v m)
    also have "10 * (a * 10 ^ length (show_digits (n div 10)) + n div 10) + n mod 10 =
        a * 10 ^ length (show_digits n) + n"
      by (simp add: s algebra_simps)
    finally show ?thesis .
  qed
qed

lemma show_digits_set: "set (show_digits n) \<subseteq> set digits"
proof (induction n rule: show_digits.induct)
  case (1 n)
  show ?case
  proof (cases "n < 10")
    case True
    then show ?thesis by (simp add: show_digits.simps [of n] digit_char_digit)
  next
    case False
    with 1 [OF False] show ?thesis by (simp add: show_digits.simps [of n] digit_char_digit)
  qed
qed

lemma show_digits_nonempty: "show_digits n \<noteq> []"
  by (simp add: show_digits.simps [of n])

lemma digit_plain:
  "c \<in> set digits \<Longrightarrow>
     c \<noteq> CHR ''-'' \<and> c \<noteq> CHR ''+'' \<and> c \<noteq> nul \<and> \<not> is_space c \<and> \<not> pg_space c"
  by (auto simp: digits_def nul_def is_space_def pg_space_def)

lemma show_digits_hd: "hd (show_digits n) \<in> set digits"
  using show_digits_set [of n] show_digits_nonempty [of n] by (meson hd_in_set subsetD)

lemma show_digits_last: "last (show_digits n) \<in> set digits"
  using show_digits_set [of n] show_digits_nonempty [of n] by (meson last_in_set subsetD)

lemma show_digits_parse: "0 \<le> n \<Longrightarrow> digits_value 0 (show_digits n) = Some n"
  by (simp add: show_digits_value)

lemma parse_int_digits:
  assumes "0 \<le> n"
  shows "parse_int (show_digits n) = Some n"
proof -
  obtain c cs where s: "show_digits n = c # cs"
    using show_digits_nonempty [of n] by (cases "show_digits n") auto
  with show_digits_hd [of n] have "c \<in> set digits" by simp
  then have "c \<noteq> CHR ''-''" "c \<noteq> CHR ''+''" by (simp_all add: digit_plain)
  then have "parse_int (c # cs) = digits_value 0 (c # cs)"
    by (simp add: parse_int_def del: digits_value.simps)
  then have "parse_int (show_digits n) = digits_value 0 (show_digits n)"
    by (simp only: s)
  with assms show ?thesis by (simp only: show_digits_parse)
qed

lemma parse_int_show: "parse_int (show_int n) = Some n"
proof (cases "n < 0")
  case True
  then have "digits_value 0 (show_digits (- n)) = Some (- n)" by (simp add: show_digits_parse)
  with True show ?thesis by (simp add: show_int_def parse_int_def show_digits_nonempty)
next
  case False
  then show ?thesis by (simp add: show_int_def parse_int_digits)
qed

lemma show_int_set: "set (show_int n) \<subseteq> insert CHR ''-'' (set digits)"
  using show_digits_set [of n] show_digits_set [of "- n"] by (auto simp: show_int_def)

lemma show_int_nul: "nul \<notin> set (show_int n)"
proof
  assume "nul \<in> set (show_int n)"
  with show_int_set [of n] have "nul = CHR ''-'' \<or> nul \<in> set digits" by auto
  then show False by (auto simp: nul_def digits_def)
qed

lemma drop_while_none: "xs \<noteq> [] \<Longrightarrow> \<not> P (hd xs) \<Longrightarrow> dropWhile P xs = xs"
  by (cases xs) simp_all

lemma show_int_nonempty: "show_int n \<noteq> []"
  by (simp add: show_int_def show_digits_nonempty)

lemma show_int_hd: "hd (show_int n) = CHR ''-'' \<or> hd (show_int n) \<in> set digits"
  using show_digits_hd [of n] by (simp add: show_int_def)

lemma show_int_last: "last (show_int n) \<in> set digits"
  using show_digits_last [of n] show_digits_last [of "- n"]
  by (simp add: show_int_def show_digits_nonempty)

lemma pg_trim_show: "pg_trim (show_int n) = show_int n"
proof -
  have h: "\<not> pg_space (hd (show_int n))"
    using show_int_hd [of n] by (auto simp: digit_plain) (simp add: pg_space_def)
  have l: "\<not> pg_space (hd (rev (show_int n)))"
    using show_int_last [of n] by (simp add: hd_rev digit_plain)
  have "dropWhile pg_space (show_int n) = show_int n"
    using show_int_nonempty h by (rule drop_while_none)
  moreover have "dropWhile pg_space (rev (show_int n)) = rev (show_int n)"
    using l by (intro drop_while_none) (simp_all add: show_int_nonempty)
  ultimately show ?thesis by (simp add: pg_trim_def)
qed

lemma int_in_show:
  "int_in lo hi (show_int n) = (if lo \<le> n \<and> n \<le> hi then Inr n else Inl (DbError ''22003''))"
  by (simp add: int_in_def pg_trim_show parse_int_show)

lemma pg_input_int8:
  assumes "\<bar>n\<bar> < 2 ^ 53"
  shows "pg_input P PgInt8 (JNum (Fin n)) = Inr (VInt (Some n))"
proof -
  from assms have "\<bar>n\<bar> < 9007199254740992"
    by simp
  then have "- 9223372036854775808 \<le> n \<and> n \<le> 9223372036854775807"
    by linarith
  with assms show ?thesis
    by (simp add: pg_input_def show_int_nul int_in_show)
qed

lemma take_while_all: "set xs \<subseteq> A \<Longrightarrow> takeWhile (\<lambda>c. c \<in> A) xs = xs"
  by (induction xs) simp_all

lemma parseInt_show: "parseInt (show_int n) = to_double n"
proof -
  have sp: "\<not> is_space (hd (show_int n))"
    using show_int_hd [of n] by (auto simp: digit_plain) (simp add: is_space_def)
  have d: "dropWhile is_space (show_int n) = show_int n"
    using show_int_nonempty sp by (rule drop_while_none)
  show ?thesis
  proof (cases "n < 0")
    case True
    have t: "takeWhile (\<lambda>c. c \<in> set digits) (show_digits (- n)) = show_digits (- n)"
      using show_digits_set by (rule take_while_all)
    from True have v: "digits_value 0 (show_digits (- n)) = Some (- n)"
      by (simp add: show_digits_parse)
    have s: "show_int n = CHR ''-'' # show_digits (- n)"
      using True by (simp add: show_int_def)
    show ?thesis
      unfolding parseInt_def d by (simp add: s t v show_digits_nonempty)
  next
    case False
    obtain c cs where s: "show_digits n = c # cs"
      using show_digits_nonempty [of n] by (cases "show_digits n") auto
    with show_digits_hd [of n] have "c \<in> set digits" by simp
    then have c: "c \<noteq> CHR ''-''" "c \<noteq> CHR ''+''" by (simp_all add: digit_plain)
    have t: "takeWhile (\<lambda>c. c \<in> set digits) (show_digits n) = show_digits n"
      using show_digits_set by (rule take_while_all)
    from False have v: "digits_value 0 (show_digits n) = Some n"
      by (simp add: show_digits_parse)
    have i: "show_int n = c # cs"
      using False s by (simp add: show_int_def)
    have "parseInt (c # cs) =
        (let ds = takeWhile (\<lambda>c. c \<in> set digits) (c # cs)
         in case digits_value 0 ds of None \<Rightarrow> NaN
            | Some n \<Rightarrow> if ds = [] then NaN else to_double (1 * n))"
      using d c unfolding parseInt_def i
      by (simp del: digits_value.simps takeWhile.simps)
    then have "parseInt (show_int n) =
        (let ds = takeWhile (\<lambda>c. c \<in> set digits) (show_digits n)
         in case digits_value 0 ds of None \<Rightarrow> NaN
            | Some n \<Rightarrow> if ds = [] then NaN else to_double (1 * n))"
      by (simp only: i s)
    then show ?thesis
      by (simp add: t v show_digits_nonempty)
  qed
qed

lemma parseInt_number:
  "\<bar>n\<bar> < 2 ^ 53 \<Longrightarrow> parseInt (number_to_string P (Fin n)) = Fin n"
  by (simp add: parseInt_show to_double_exact)

subsection \<open>LIKE patterns and substrings\<close>

lemma like_percent_nil [simp]: "like_match ''%'' t"
  by (induction t) auto

lemma like_percent: "like_match (CHR ''%'' # ps) t = (\<exists>pre r. t = pre @ r \<and> like_match ps r)"
proof (induction t)
  case Nil
  then show ?case by auto
next
  case (Cons c cs)
  show ?case
  proof
    assume "like_match (CHR ''%'' # ps) (c # cs)"
    then consider "like_match ps (c # cs)" | "like_match (CHR ''%'' # ps) cs" by auto
    then show "\<exists>pre r. c # cs = pre @ r \<and> like_match ps r"
    proof cases
      case 1
      have "c # cs = [] @ (c # cs)" by simp
      with 1 show ?thesis by blast
    next
      case 2
      with Cons obtain pre r where "cs = pre @ r" "like_match ps r" by auto
      then have "c # cs = (c # pre) @ r" by simp
      with \<open>like_match ps r\<close> show ?thesis by blast
    qed
  next
    assume "\<exists>pre r. c # cs = pre @ r \<and> like_match ps r"
    then obtain pre r where pr: "c # cs = pre @ r" "like_match ps r" by auto
    show "like_match (CHR ''%'' # ps) (c # cs)"
    proof (cases pre)
      case Nil
      with pr show ?thesis by auto
    next
      case (Cons a pre')
      with pr have "cs = pre' @ r" by auto
      with pr Cons.IH have "like_match (CHR ''%'' # ps) cs" by auto
      then show ?thesis by auto
    qed
  qed
qed

lemma like_plain:
  "\<not> list_ex wildcard s \<Longrightarrow> like_match (s @ ps) t = (\<exists>r. t = s @ r \<and> like_match ps r)"
proof (induction s arbitrary: t)
  case Nil
  then show ?case by simp
next
  case (Cons a s)
  from Cons.prems have wa: "\<not> wildcard a" and s: "\<not> list_ex wildcard s"
    by simp_all
  from wa have a: "a \<noteq> CHR ''%''" "a \<noteq> CHR ''_''" "a \<noteq> backslash"
    by (simp_all add: wildcard_def)
  show ?case
  proof (cases t)
    case Nil
    with a show ?thesis by simp
  next
    case (Cons c cs)
    with a Cons.IH [OF s, of cs] show ?thesis by auto
  qed
qed

lemma like_contains:
  assumes "plain s"
  shows "like_match (''%'' @ s @ ''%'') t = sublist s t"
proof -
  have "like_match (''%'' @ s @ ''%'') t = (\<exists>pre r. t = pre @ r \<and> like_match (s @ ''%'') r)"
    using like_percent [of "s @ ''%''" t] by simp
  also have "\<dots> = (\<exists>pre r. t = pre @ r \<and> (\<exists>r'. r = s @ r'))"
    using assms by (simp add: like_plain plain_def)
  also have "\<dots> = sublist s t"
    by (auto simp: sublist_def)
  finally show ?thesis .
qed

lemma to_lower_wildcard: "wildcard (to_lower c) = wildcard c"
proof (cases "map_of (zip upper_letters lower_letters) c")
  case None
  then show ?thesis by (simp add: to_lower_def)
next
  case (Some l)
  then have "(c, l) \<in> set (zip upper_letters lower_letters)" by (rule map_of_SomeD)
  then have "c \<in> set upper_letters" "l \<in> set lower_letters"
    by (auto dest: set_zip_leftD set_zip_rightD)
  then have "\<not> wildcard c" "\<not> wildcard l"
    by (auto simp: wildcard_def upper_letters_def lower_letters_def backslash_def)
  with Some show ?thesis by (simp add: to_lower_def)
qed

lemma plain_lower: "plain (lower_case s) = plain s"
  by (induction s) (simp_all add: plain_def lower_case_def to_lower_wildcard)

lemma to_lower_percent: "to_lower CHR ''%'' = CHR ''%''"
  by (simp add: to_lower_def upper_letters_def lower_letters_def)

lemma lower_case_pattern: "lower_case (''%'' @ s @ ''%'') = ''%'' @ lower_case s @ ''%''"
  by (simp add: lower_case_def to_lower_percent)

lemma ilike_contains:
  assumes "plain s"
  shows "ilike t (''%'' @ s @ ''%'') = contains_ci s t"
proof -
  from assms have "plain (lower_case s)" by (simp add: plain_lower)
  then show ?thesis
    unfolding ilike_def contains_ci_def lower_case_pattern by (rule like_contains)
qed

lemma selected_search_plain:
  assumes "q_search rq = Some s" and "s \<noteq> []" and "plain s"
  shows "selected rq r = (selected (rq\<lparr>q_search := None\<rparr>) r \<and> occurs_in_row s r)"
proof -
  have a: "ilike t (''%'' @ s @ ''%'') = contains_ci s t" for t
    using assms(3) by (rule ilike_contains)
  have b: "ilike t (CHR ''%'' # s @ ''%'') = contains_ci s t" for t
    using a [of t] by simp
  show ?thesis
    using assms(1,2)
    by (cases "task_description r") (simp_all add: selected_def occurs_in_row_def a b)
qed

lemma selected_plain:
  assumes "plain_search rq"
  shows "selected rq r = satisfies_filters rq r"
proof (cases "q_search rq")
  case None
  then show ?thesis by (simp add: selected_def satisfies_filters_def)
next
  case (Some s)
  with assms have p: "plain s" by (simp add: plain_search_def)
  have a: "ilike t (''%'' @ s @ ''%'') = contains_ci s t" for t
    using p by (rule ilike_contains)
  have b: "ilike t (CHR ''%'' # s @ ''%'') = contains_ci s t" for t
    using a [of t] by simp
  show ?thesis
    using Some
    by (cases "task_description r") (simp_all add: selected_def satisfies_filters_def occurs_in_row_def a b)
qed

lemma selected_completed:
  assumes "q_completed rq = Some c"
  shows "selected rq r =
           (selected (rq\<lparr>q_completed := None\<rparr>) r \<and> task_completed r = Some (c = ''true''))"
  using assms by (auto simp: selected_def)

subsection \<open>Executing the list queries\<close>

lemma pg_input_text:
  "pg_input P PgText (JStr s) =
     (if nul \<in> set s then Inl (DbError ''22021'') else Inr (VText (Some s)))"
  by (simp add: pg_input_def)

lemma pg_trim_true: "pg_trim ''true'' = ''true''" and pg_trim_false: "pg_trim ''false'' = ''false''"
  by (simp_all add: pg_trim_def pg_space_def)

lemma lower_true: "lower_case ''true'' = ''true''" and lower_false: "lower_case ''false'' = ''false''"
  by (simp_all add: lower_case_def to_lower_def upper_letters_def lower_letters_def)

lemma parse_bool_true: "parse_bool ''true'' = Some True"
  by (simp add: parse_bool_def pg_trim_true lower_true)

lemma parse_bool_false: "parse_bool ''false'' = Some False"
  by (simp add: parse_bool_def pg_trim_false lower_false)

lemma pg_input_bool: "pg_input P PgBool (JBool b) = Inr (VBool (Some b))"
  by (simp add: pg_input_def nul_def parse_bool_true parse_bool_false)

lemma nul_percent: "nul \<noteq> CHR ''%''"
  by (simp add: nul_def)

lemma bind_count:
  "bind_params P (count_query_types (fst (build_count_query rq))) (Suc 0) (snd (build_count_query rq)) =
     (if nul_filter rq then Inl (DbError ''22021'')
      else Inr (map (\<lambda>v. case v of JBool b \<Rightarrow> VBool (Some b) | JStr s \<Rightarrow> VText (Some s)
                                | _ \<Rightarrow> VText None)
                 (snd (build_count_query rq))))"
  by (cases "q_priority rq"; cases "q_completed rq"; cases "q_search rq")
     (simp_all add: build_count_query_def count_query_types_def nul_filter_def pg_input_text
        pg_input_bool nul_percent)

lemma count_tasks_built:
  "count_tasks P tbl (fst (build_count_query rq)) (snd (build_count_query rq)) =
     (if nul_filter rq then Inl (DbError ''22021'')
      else Inr (int (length (filter (selected rq) tbl))))"
proof -
  have w: "where_holds (snd (build_count_query rq)) (fst (build_count_query rq)) = selected rq"
    by (rule ext) (rule count_where)
  have b: "binds_all (count_query_placeholders (fst (build_count_query rq))) (snd (build_count_query rq))"
    by (simp only: binds_all_def count_placeholders set_upt)
  show ?thesis
    by (simp add: count_tasks_def b w bind_count)
qed

lemma pg_input_int8_shape: "pg_input P PgInt8 v = Inr x \<Longrightarrow> \<exists>i. x = VInt i"
  by (auto simp: pg_input_def split: option.splits if_splits sum.splits)

lemma select_tasks_built:
  "select_tasks P tbl (fst (build_query P rq)) (snd (build_query P rq)) =
     (if nul_filter rq then Inl (DbError ''22021'')
      else case pg_input P PgInt8 (JNum (limit_of rq)) of
        Inl e \<Rightarrow> Inl e
      | Inr x \<Rightarrow>
          (case pg_input P PgInt8 (JNum (offset_param P rq)) of
             Inl e \<Rightarrow> Inl e
           | Inr y \<Rightarrow> window x y (order_by_created_desc P (filter (selected rq) tbl))))"
proof -
  have w: "where_holds (snd (build_query P rq)) (dq_where (fst (build_query P rq))) = selected rq"
    by (rule ext) (rule data_where)
  have b: "binds_all (data_query_placeholders (fst (build_query P rq))) (snd (build_query P rq))"
    by (simp only: binds_all_def data_placeholders set_upt)
  have s: "select_tasks P tbl (fst (build_query P rq)) (snd (build_query P rq)) =
      (case bind_params P (data_query_types (fst (build_query P rq))) (Suc 0) (snd (build_query P rq)) of
         Inl e \<Rightarrow> Inl e
       | Inr xs \<Rightarrow>
           (case (bound xs (dq_limit (fst (build_query P rq))),
                  bound xs (dq_offset (fst (build_query P rq)))) of
              (Some x, Some y) \<Rightarrow> window x y (order_by_created_desc P (filter (selected rq) tbl))
            | _ \<Rightarrow> Inl (DbError ''42804'')))"
    by (auto simp: select_tasks_def b w split: sum.splits option.splits colval.splits)
  show ?thesis
    unfolding s
    by (cases "q_priority rq"; cases "q_completed rq"; cases "q_search rq")
       (simp_all add: build_query_def data_query_types_def nul_filter_def pg_input_text
          pg_input_bool nul_percent bound_def offset_param_def split: sum.splits)
qed

subsection \<open>The list handler\<close>

lemma list_tasks_closed:
  "list_tasks P tbl rq =
     (if nul_filter rq then Forwarded (DbError ''22021'')
      else case pg_input P PgInt8 (JNum (limit_of rq)) of
        Inl e \<Rightarrow> Forwarded e
      | Inr x \<Rightarrow>
          (case pg_input P PgInt8 (JNum (offset_param P rq)) of
             Inl e \<Rightarrow> Forwarded e
           | Inr y \<Rightarrow>
               (case window x y (order_by_created_desc P (filter (selected rq) tbl)) of
                  Inl e \<Rightarrow> Forwarded e
                | Inr rows \<Rightarrow>
                    Responded \<lparr>status = 200, body = ListJson
                      \<lparr>env_tasks = rows,
                       env_pagination =
                         \<lparr>pagination_page = json_number (page_of rq),
                          pagination_limit = json_number (limit_of rq),
                          pagination_total = Some (int (length (filter (selected rq) tbl))),
                          pagination_pages =
                            math_ceil_quotient (int (length (filter (selected rq) tbl)))
                              (limit_of rq)\<rparr>\<rparr>\<rparr>)))"
  by (simp add: list_tasks_def split_beta select_tasks_built count_tasks_built split: sum.splits)

lemma window_rows:
  "window x y rs = Inr rows \<Longrightarrow>
     \<exists>l off. x = VInt l \<and> y = VInt off \<and> \<not> is_negative l \<and> \<not> is_negative off \<and>
       rows = limit_rows l (offset_rows off rs)"
  by (cases x; cases y) (auto split: if_splits)

lemma list_tasks_envelope:
  assumes "list_tasks P tbl rq = Responded \<lparr>status = 200, body = ListJson env\<rparr>"
  shows "\<not> nul_filter rq \<and>
         (\<exists>l off. pg_input P PgInt8 (JNum (limit_of rq)) = Inr (VInt l) \<and>
            pg_input P PgInt8 (JNum (offset_param P rq)) = Inr (VInt off) \<and>
            \<not> is_negative l \<and> \<not> is_negative off \<and>
            env_tasks env =
              limit_rows l (offset_rows off (order_by_created_desc P (filter (selected rq) tbl)))) \<and>
         env_pagination env =
           \<lparr>pagination_page = json_number (page_of rq),
            pagination_limit = json_number (limit_of rq),
            pagination_total = Some (int (length (filter (selected rq) tbl))),
            pagination_pages =
              math_ceil_quotient (int (length (filter (selected rq) tbl))) (limit_of rq)\<rparr>"
proof -
  from assms have n: "\<not> nul_filter rq"
    by (auto simp: list_tasks_closed split: if_splits)
  with assms obtain x where x: "pg_input P PgInt8 (JNum (limit_of rq)) = Inr x"
    by (auto simp: list_tasks_closed split: sum.splits)
  with assms n obtain y where y: "pg_input P PgInt8 (JNum (offset_param P rq)) = Inr y"
    by (auto simp: list_tasks_closed split: sum.splits)
  with assms n x obtain rows where
    r: "window x y (order_by_created_desc P (filter (selected rq) tbl)) = Inr rows"
    by (auto simp: list_tasks_closed split: sum.splits)
  from window_rows [OF r] obtain l off where
    w: "x = VInt l" "y = VInt off" "\<not> is_negative l" "\<not> is_negative off"
       "rows = limit_rows l (offset_rows off (order_by_created_desc P (filter (selected rq) tbl)))"
    by blast
  from assms n x y r have
    "env = \<lparr>env_tasks = rows,
            env_pagination =
              \<lparr>pagination_page = json_number (page_of rq),
               pagination_limit = json_number (limit_of rq),
               pagination_total = Some (int (length (filter (selected rq) tbl))),
               pagination_pages =
                 math_ceil_quotient (int (length (filter (selected rq) tbl))) (limit_of rq)\<rparr>\<rparr>"
    by (simp add: list_tasks_closed)
  with n x y w show ?thesis by simp
qed

lemma order_set: "set (order_by_created_desc P rs) = set rs"
  by (simp add: order_by_created_desc_def)

lemma order_sorted: "sorted (map (\<lambda>r. - task_created_at r) (order_by_created_desc P rs))"
  by (simp add: order_by_created_desc_def)

lemma order_length: "length (order_by_created_desc P rs) = length rs"
  by (simp add: order_by_created_desc_def)

lemma window_subset: "set (limit_rows l (offset_rows off rs)) \<subseteq> set rs"
  by (cases l; cases off) (auto dest: in_set_takeD in_set_dropD)

lemma list_tasks_rows:
  assumes "list_tasks P tbl rq = Responded \<lparr>status = 200, body = ListJson env\<rparr>"
  shows "set (env_tasks env) \<subseteq> {r \<in> set tbl. selected rq r}"
proof -
  from list_tasks_envelope [OF assms] obtain l off where
    "env_tasks env =
       limit_rows l (offset_rows off (order_by_created_desc P (filter (selected rq) tbl)))"
    by blast
  with window_subset [of l off "order_by_created_desc P (filter (selected rq) tbl)"]
  show ?thesis by (auto simp: order_set)
qed

subsection \<open>Page and limit where numbers are exact\<close>

lemma exact_page: "exact_range rq \<Longrightarrow> page_of rq = Fin (requested_page rq)"
  by (cases "q_page rq") (simp_all add: exact_range_def page_of_def requested_page_def to_double_exact)

lemma exact_limit: "exact_range rq \<Longrightarrow> limit_of rq = Fin (requested_limit rq)"
  by (cases "q_limit rq")
     (simp_all add: exact_range_def limit_of_def requested_limit_def to_double_exact)

lemma exact_offset:
  assumes "exact_range rq"
  shows "offset_of rq = Fin ((requested_page rq - 1) * requested_limit rq)"
proof -
  from assms have p: "1 \<le> requested_page rq" "requested_page rq < 2 ^ 53"
    and l: "1 \<le> requested_limit rq"
    and o: "(requested_page rq - 1) * requested_limit rq < 2 ^ 53"
    by (simp_all add: exact_range_def)
  from p have a: "\<bar>requested_page rq - 1\<bar> \<le> 2 ^ 53" by simp
  from p l have "0 \<le> (requested_page rq - 1) * requested_limit rq" by simp
  with o have b: "\<bar>(requested_page rq - 1) * requested_limit rq\<bar> \<le> 2 ^ 53" by simp
  show ?thesis
    by (simp only: offset_of_def exact_page [OF assms] exact_limit [OF assms] js_minus_one.simps
        to_double_exact [OF a] js_times_def prod.case number.case to_double_exact [OF b])
qed

lemma exact_offset_param:
  assumes "exact_range rq"
  shows "offset_param P rq = Fin ((requested_page rq - 1) * requested_limit rq)"
proof -
  from assms have p: "1 \<le> requested_page rq" and l: "1 \<le> requested_limit rq"
    and o: "(requested_page rq - 1) * requested_limit rq < 2 ^ 53"
    by (simp_all add: exact_range_def)
  from p l have "0 \<le> (requested_page rq - 1) * requested_limit rq" by simp
  with o have "\<bar>(requested_page rq - 1) * requested_limit rq\<bar> < 2 ^ 53" by simp
  then show ?thesis
    by (simp only: offset_param_def exact_offset [OF assms] parseInt_number)
qed

lemma list_tasks_exact:
  assumes "exact_range rq" and "\<not> nul_filter rq"
  shows "list_tasks P tbl rq =
     Responded \<lparr>status = 200, body = ListJson
       \<lparr>env_tasks =
          take (nat (requested_limit rq))
            (drop (nat ((requested_page rq - 1) * requested_limit rq))
               (order_by_created_desc P (filter (selected rq) tbl))),
        env_pagination =
          \<lparr>pagination_page = Some (requested_page rq),
           pagination_limit = Some (requested_limit rq),
           pagination_total = Some (int (length (filter (selected rq) tbl))),
           pagination_pages =
             Some (- ((- int (length (filter (selected rq) tbl))) div requested_limit rq))\<rparr>\<rparr>\<rparr>"
proof -
  from assms(1) have p: "1 \<le> requested_page rq" and l: "1 \<le> requested_limit rq"
    and l': "requested_limit rq < 2 ^ 53"
    and o: "(requested_page rq - 1) * requested_limit rq < 2 ^ 53"
    by (simp_all add: exact_range_def)
  from p l have o': "0 \<le> (requested_page rq - 1) * requested_limit rq" by simp
  from l l' have "\<bar>requested_limit rq\<bar> < 2 ^ 53" by simp
  then have a: "pg_input P PgInt8 (JNum (Fin (requested_limit rq))) =
      Inr (VInt (Some (requested_limit rq)))"
    by (rule pg_input_int8)
  from o o' have "\<bar>(requested_page rq - 1) * requested_limit rq\<bar> < 2 ^ 53" by simp
  then have b: "pg_input P PgInt8 (JNum (Fin ((requested_page rq - 1) * requested_limit rq))) =
      Inr (VInt (Some ((requested_page rq - 1) * requested_limit rq)))"
    by (rule pg_input_int8)
  from l have z: "requested_limit rq \<noteq> 0" by simp
  show ?thesis
    using assms(2) l o' z
    by (simp add: list_tasks_closed exact_page [OF assms(1)] exact_limit [OF assms(1)]
        exact_offset_param [OF assms(1)] a b)
qed

lemma ceiling_quotient: "b \<noteq> 0 \<Longrightarrow> - ((- a) div b) = \<lceil>real_of_int a / real_of_int b\<rceil>"
  by (simp add: ceiling_divide_eq_div)

text \<open>
  C1 (amended). For every combination of the optional filters of GET /tasks in which the
  search string, if there is one, has none of the pattern characters \<open>%\<close>, \<open>_\<close> and
  backslash, and for every table: in every envelope the handler returns, each row of the
  page is a row of the table that satisfies all applied filters (the search filter by
  containing the string, letter case ignored), and \<open>total\<close> is the number of rows of the
  whole table that satisfy them, not the number of rows in the page; and the handler
  returns an envelope, with status 200, whenever page and limit are positive and, like
  the offset, below \<open>2 ^ 53\<close>, and no filter string holds the character U+0000.
\<close>

theorem list_rows_match_and_total:
  assumes "plain_search rq"
  shows "(\<forall>env. list_tasks P tbl rq = Responded \<lparr>status = 200, body = ListJson env\<rparr> \<longrightarrow>
            (\<forall>r \<in> set (env_tasks env). r \<in> set tbl \<and> satisfies_filters rq r) \<and>
            pagination_total (env_pagination env) =
              Some (int (length (filter (satisfies_filters rq) tbl)))) \<and>
         (exact_range rq \<and> \<not> nul_filter rq \<longrightarrow>
            (\<exists>env. list_tasks P tbl rq = Responded \<lparr>status = 200, body = ListJson env\<rparr>))"
proof (intro conjI allI impI)
  have s: "selected rq = satisfies_filters rq"
    by (rule ext) (rule selected_plain [OF assms])
  fix env
  assume e: "list_tasks P tbl rq = Responded \<lparr>status = 200, body = ListJson env\<rparr>"
  from list_tasks_rows [OF e] show "\<forall>r \<in> set (env_tasks env). r \<in> set tbl \<and> satisfies_filters rq r"
    by (auto simp: s)
  from list_tasks_envelope [OF e]
  show "pagination_total (env_pagination env) =
      Some (int (length (filter (satisfies_filters rq) tbl)))"
    by (simp add: s)
next
  assume "exact_range rq \<and> \<not> nul_filter rq"
  then show "\<exists>env. list_tasks P tbl rq = Responded \<lparr>status = 200, body = ListJson env\<rparr>"
    by (simp add: list_tasks_exact)
qed

lemma seed_high:
  "filter (satisfies_filters (no_filters\<lparr>q_limit := Some 1, q_priority := Some ''high''\<rparr>)) seed_tasks =
     [seed_task 1 ''High Priority Task'' ''high'' False,
      seed_task 4 ''Another High Priority Task'' ''high'' True]"
  by (simp add: satisfies_filters_def no_filters_def seed_tasks_def seed_task_def)

theorem list_rows_match_and_total_witness:
  "plain_search (no_filters\<lparr>q_limit := Some 1, q_priority := Some ''high''\<rparr>) \<and>
   exact_range (no_filters\<lparr>q_limit := Some 1, q_priority := Some ''high''\<rparr>) \<and>
   \<not> nul_filter (no_filters\<lparr>q_limit := Some 1, q_priority := Some ''high''\<rparr>) \<and>
   (\<exists>env. list_tasks plain_platform seed_tasks
             (no_filters\<lparr>q_limit := Some 1, q_priority := Some ''high''\<rparr>) =
             Responded \<lparr>status = 200, body = ListJson env\<rparr> \<and>
           (\<forall>r \<in> set (env_tasks env). task_priority r = Some ''high'') \<and>
           pagination_total (env_pagination env) = Some 2)"
proof -
  let ?rq = "no_filters\<lparr>q_limit := Some 1, q_priority := Some ''high''\<rparr>"
  have h: "plain_search ?rq" "exact_range ?rq" "\<not> nul_filter ?rq"
    by (simp_all add: plain_search_def exact_range_def nul_filter_def no_filters_def
        requested_page_def requested_limit_def nul_def)
  note t = list_rows_match_and_total [OF h(1), of plain_platform seed_tasks]
  with h obtain env where
    e: "list_tasks plain_platform seed_tasks ?rq = Responded \<lparr>status = 200, body = ListJson env\<rparr>"
    by blast
  with t have m: "\<forall>r \<in> set (env_tasks env). r \<in> set seed_tasks \<and> satisfies_filters ?rq r"
    and n: "pagination_total (env_pagination env) =
      Some (int (length (filter (satisfies_filters ?rq) seed_tasks)))"
    by blast+
  from m have "\<forall>r \<in> set (env_tasks env). task_priority r = Some ''high''"
    by (simp add: satisfies_filters_def no_filters_def)
  moreover from n have "pagination_total (env_pagination env) = Some 2"
    by (simp add: seed_high)
  ultimately show ?thesis using h e by blast
qed

text \<open>
  With the search string \<open>a_c\<close> and the two rows titled \<open>abc\<close> and \<open>a_c\<close>, the page holds
  both rows and \<open>total\<close> is 2, although the string occurs in the second title only: it
  is bound as a pattern, in which \<open>_\<close> stands for any character.
\<close>

theorem list_rows_wildcard_counterexample:
  "list_tasks plain_platform
     [seed_task 1 ''abc'' ''low'' False, seed_task 2 ''a_c'' ''low'' False]
     (no_filters\<lparr>q_search := Some ''a_c''\<rparr>) =
     Responded \<lparr>status = 200, body = ListJson
       \<lparr>env_tasks = [seed_task 2 ''a_c'' ''low'' False, seed_task 1 ''abc'' ''low'' False],
        env_pagination = \<lparr>pagination_page = Some 1, pagination_limit = Some 10,
                          pagination_total = Some 2, pagination_pages = Some 1\<rparr>\<rparr>\<rparr> \<and>
   \<not> satisfies_filters (no_filters\<lparr>q_search := Some ''a_c''\<rparr>) (seed_task 1 ''abc'' ''low'' False) \<and>
   length (filter (satisfies_filters (no_filters\<lparr>q_search := Some ''a_c''\<rparr>))
     [seed_task 1 ''abc'' ''low'' False, seed_task 2 ''a_c'' ''low'' False]) = 1"
proof -
  let ?rq = "no_filters\<lparr>q_search := Some ''a_c''\<rparr>"
  have h: "exact_range ?rq" "\<not> nul_filter ?rq"
    by (simp_all add: exact_range_def nul_filter_def no_filters_def requested_page_def
        requested_limit_def nul_def)
  have l: "lower_case ''abc'' = ''abc''" "lower_case ''a_c'' = ''a_c''"
    "lower_case ''%a_c%'' = ''%a_c%''"
    by (simp_all add: lower_case_def to_lower_def upper_letters_def lower_letters_def)
  have m: "selected ?rq (seed_task 1 ''abc'' ''low'' False)"
    "selected ?rq (seed_task 2 ''a_c'' ''low'' False)"
    by (simp_all add: selected_def no_filters_def seed_task_def ilike_def l backslash_def)
  have n: "\<not> satisfies_filters ?rq (seed_task 1 ''abc'' ''low'' False)"
    "satisfies_filters ?rq (seed_task 2 ''a_c'' ''low'' False)"
    by (simp_all add: satisfies_filters_def occurs_in_row_def contains_ci_def seed_task_def l
        no_filters_def sublist_code)
  have o: "order_by_created_desc plain_platform
      [seed_task 1 ''abc'' ''low'' False, seed_task 2 ''a_c'' ''low'' False] =
      [seed_task 2 ''a_c'' ''low'' False, seed_task 1 ''abc'' ''low'' False]"
    by (simp add: order_by_created_desc_def plain_platform_def seed_task_def)
  have r: "requested_page ?rq = 1" "requested_limit ?rq = 10"
    by (simp_all add: requested_page_def requested_limit_def no_filters_def)
  show ?thesis
    by (simp add: list_tasks_exact [OF h] m n o r)
qed

text \<open>
  C2. For every combination of the optional filters, the predicates of the count query
  are those of the data query, placeholder by placeholder; the values bound are the same
  and in the same order (priority, then completed, then search), the data query adding
  only LIMIT and OFFSET at the end; and the placeholders of each query, read from left
  to right, are \<open>$1, $2, ...\<close> up to the number of its own values.
\<close>

theorem count_query_mirrors_data_query:
  "fst (build_count_query rq) = dq_where (fst (build_query P rq)) \<and>
   snd (build_count_query rq) = filter_values rq \<and>
   snd (build_query P rq) =
     filter_values rq @ [JNum (limit_of rq), JNum (parseInt (number_to_string P (offset_of rq)))] \<and>
   map cond_kind (fst (build_count_query rq)) = applied_filters rq \<and>
   count_query_placeholders (fst (build_count_query rq)) =
     [1 ..< Suc (length (snd (build_count_query rq)))] \<and>
   data_query_placeholders (fst (build_query P rq)) = [1 ..< Suc (length (snd (build_query P rq)))]"
  by (simp add: build_same_where build_same_params build_values build_kinds
      count_placeholders [simplified build_values]
      data_placeholders [simplified build_same_params build_values])

lemma show_digit: "n < 10 \<Longrightarrow> show_nat n = [digits ! n]"
  by (simp add: show_nat.simps digit_char_def)

lemma build_exact:
  assumes "exact_range rq"
  shows "snd (build_query P rq) =
     filter_values rq @
       [JNum (Fin (requested_limit rq)),
        JNum (Fin ((requested_page rq - 1) * requested_limit rq))]"
  using exact_offset_param [OF assms, of P]
  by (simp add: build_same_params build_values exact_limit [OF assms] offset_param_def)

lemma all_filters_exact: "exact_range all_filters"
  by (simp add: exact_range_def all_filters_def requested_page_def requested_limit_def)

lemma all_filters_build:
  "build_query P all_filters =
     (\<lparr>dq_where = [PriorityEq 1, CompletedEq 2, SearchILike 3 4], dq_limit = 5, dq_offset = 6\<rparr>,
      [JStr ''high'', JBool False, JStr ''%priority%'', JStr ''%priority%'', JNum (Fin 5),
       JNum (Fin 5)])"
proof -
  have "fst (build_query P all_filters) =
      \<lparr>dq_where = [PriorityEq 1, CompletedEq 2, SearchILike 3 4], dq_limit = 5, dq_offset = 6\<rparr>"
    by (simp add: build_query_def all_filters_def)
  moreover have "snd (build_query P all_filters) =
      [JStr ''high'', JBool False, JStr ''%priority%'', JStr ''%priority%'', JNum (Fin 5),
       JNum (Fin 5)]"
    by (simp add: build_exact [OF all_filters_exact] filter_values_def)
       (simp add: all_filters_def requested_page_def requested_limit_def)
  ultimately show ?thesis by (simp add: prod_eq_iff)
qed

lemma all_filters_build_count:
  "build_count_query all_filters =
     ([PriorityEq 1, CompletedEq 2, SearchILike 3 4],
      [JStr ''high'', JBool False, JStr ''%priority%'', JStr ''%priority%''])"
  by (simp add: build_count_query_def all_filters_def)

lemma all_filters_text:
  "data_query_text (fst (build_query P all_filters)) =
     ''SELECT * FROM tasks WHERE 1=1 AND priority = $1 AND completed = $2 AND (title ILIKE $3 OR description ILIKE $4) ORDER BY created_at DESC LIMIT $5 OFFSET $6''"
  by (simp add: all_filters_build data_query_text_def show_digit digits_def)

lemma all_filters_count_text:
  "count_query_text (fst (build_count_query all_filters)) =
     ''SELECT COUNT(*) FROM tasks WHERE 1=1 AND priority = $1 AND completed = $2 AND (title ILIKE $3 OR description ILIKE $4)''"
  by (simp add: all_filters_build_count count_query_text_def show_digit digits_def)

theorem count_query_mirrors_data_query_witness:
  "fst (build_count_query all_filters) = [PriorityEq 1, CompletedEq 2, SearchILike 3 4] \<and>
   dq_where (fst (build_query plain_platform all_filters)) =
     [PriorityEq 1, CompletedEq 2, SearchILike 3 4] \<and>
   snd (build_count_query all_filters) =
     [JStr ''high'', JBool False, JStr ''%priority%'', JStr ''%priority%''] \<and>
   snd (build_query plain_platform all_filters) =
     [JStr ''high'', JBool False, JStr ''%priority%'', JStr ''%priority%'', JNum (Fin 5),
      JNum (Fin 5)] \<and>
   count_query_placeholders (fst (build_count_query all_filters)) = [1, 2, 3, 4] \<and>
   data_query_placeholders (fst (build_query plain_platform all_filters)) = [1, 2, 3, 4, 5, 6]"
  using count_query_mirrors_data_query [of all_filters plain_platform]
  by (simp add: all_filters_build all_filters_build_count data_query_placeholders_def
      count_query_placeholders_def)

text \<open>
  C3 (amended). For every list request whose page and limit are positive and, like the
  offset \<open>(page - 1) * limit\<close>, below \<open>2 ^ 53\<close>, and for every table: LIMIT \<open>limit\<close> and
  OFFSET \<open>(page - 1) * limit\<close> are the last two parameters of the data query and of it
  alone, the count query having the filter values only; in every envelope the handler
  returns, \<open>page\<close> and \<open>limit\<close> are those of the request, the page is the slice of that
  length at that offset of the selected rows in descending order of creation, it has at
  most \<open>limit\<close> tasks, \<open>total\<close> counts all selected rows, and
  \<open>pages = ceil(total / limit)\<close>; an envelope is returned unless a filter string holds
  the character U+0000; and with 5 selected rows, page 1 and limit 2 the pagination
  object is \<open>{page: 1, limit: 2, total: 5, pages: 3}\<close>.
\<close>

theorem pagination_envelope:
  assumes "exact_range rq"
  shows "snd (build_query P rq) =
           snd (build_count_query rq) @
             [JNum (Fin (requested_limit rq)),
              JNum (Fin ((requested_page rq - 1) * requested_limit rq))] \<and>
         snd (build_count_query rq) = filter_values rq \<and>
         dq_limit (fst (build_query P rq)) = length (snd (build_query P rq)) - 1 \<and>
         dq_offset (fst (build_query P rq)) = length (snd (build_query P rq)) \<and>
         (\<forall>env. list_tasks P tbl rq = Responded \<lparr>status = 200, body = ListJson env\<rparr> \<longrightarrow>
            pagination_page (env_pagination env) = Some (requested_page rq) \<and>
            pagination_limit (env_pagination env) = Some (requested_limit rq) \<and>
            pagination_total (env_pagination env) = Some (int (length (filter (selected rq) tbl))) \<and>
            pagination_pages (env_pagination env) =
              Some \<lceil>real (length (filter (selected rq) tbl)) / real_of_int (requested_limit rq)\<rceil> \<and>
            env_tasks env =
              take (nat (requested_limit rq))
                (drop (nat ((requested_page rq - 1) * requested_limit rq))
                   (order_by_created_desc P (filter (selected rq) tbl))) \<and>
            sorted (map (\<lambda>r. - task_created_at r) (order_by_created_desc P (filter (selected rq) tbl))) \<and>
            int (length (env_tasks env)) \<le> requested_limit rq \<and>
            (length (filter (selected rq) tbl) = 5 \<and> q_page rq = Some 1 \<and> q_limit rq = Some 2 \<longrightarrow>
               env_pagination env =
                 \<lparr>pagination_page = Some 1, pagination_limit = Some 2, pagination_total = Some 5,
                  pagination_pages = Some 3\<rparr>)) \<and>
         (\<not> nul_filter rq \<longrightarrow>
            (\<exists>env. list_tasks P tbl rq = Responded \<lparr>status = 200, body = ListJson env\<rparr>))"
proof (intro conjI allI impI)
  show "snd (build_query P rq) =
      snd (build_count_query rq) @
        [JNum (Fin (requested_limit rq)),
         JNum (Fin ((requested_page rq - 1) * requested_limit rq))]"
    by (simp add: build_exact [OF assms] build_values)
  show "snd (build_count_query rq) = filter_values rq"
    by (rule build_values)
  show "dq_limit (fst (build_query P rq)) = length (snd (build_query P rq)) - 1"
    and "dq_offset (fst (build_query P rq)) = length (snd (build_query P rq))"
    by (simp_all add: build_limit_offset build_same_params)
next
  assume "\<not> nul_filter rq"
  with assms show "\<exists>env. list_tasks P tbl rq = Responded \<lparr>status = 200, body = ListJson env\<rparr>"
    by (simp add: list_tasks_exact)
next
  fix env
  assume r: "list_tasks P tbl rq = Responded \<lparr>status = 200, body = ListJson env\<rparr>"
  from list_tasks_envelope [OF r] have n: "\<not> nul_filter rq" by simp
  from assms have l: "1 \<le> requested_limit rq" by (simp add: exact_range_def)
  from r have env: "env =
      \<lparr>env_tasks =
         take (nat (requested_limit rq))
           (drop (nat ((requested_page rq - 1) * requested_limit rq))
              (order_by_created_desc P (filter (selected rq) tbl))),
       env_pagination =
         \<lparr>pagination_page = Some (requested_page rq),
          pagination_limit = Some (requested_limit rq),
          pagination_total = Some (int (length (filter (selected rq) tbl))),
          pagination_pages =
            Some (- ((- int (length (filter (selected rq) tbl))) div requested_limit rq))\<rparr>\<rparr>"
    by (simp add: list_tasks_exact [OF assms n])
  show "pagination_page (env_pagination env) = Some (requested_page rq)"
    and "pagination_limit (env_pagination env) = Some (requested_limit rq)"
    and "pagination_total (env_pagination env) = Some (int (length (filter (selected rq) tbl)))"
    by (simp_all add: env)
  show "env_tasks env =
      take (nat (requested_limit rq))
        (drop (nat ((requested_page rq - 1) * requested_limit rq))
           (order_by_created_desc P (filter (selected rq) tbl)))"
    by (simp add: env)
  show "sorted (map (\<lambda>r. - task_created_at r) (order_by_created_desc P (filter (selected rq) tbl)))"
    by (rule order_sorted)
  show "int (length (env_tasks env)) \<le> requested_limit rq"
    using l by (simp add: env)
  from l have z: "requested_limit rq \<noteq> 0" by simp
  show "pagination_pages (env_pagination env) =
      Some \<lceil>real (length (filter (selected rq) tbl)) / real_of_int (requested_limit rq)\<rceil>"
    using ceiling_quotient [OF z, of "int (length (filter (selected rq) tbl))"]
    by (simp add: env)
  show "env_pagination env =
      \<lparr>pagination_page = Some 1, pagination_limit = Some 2, pagination_total = Some 5,
       pagination_pages = Some 3\<rparr>"
    if "length (filter (selected rq) tbl) = 5 \<and> q_page rq = Some 1 \<and> q_limit rq = Some 2"
    using that by (simp add: env requested_page_def requested_limit_def)
qed

lemma seed_order:
  "order_by_created_desc plain_platform seed_tasks =
     [seed_task 5 ''Completed Task'' ''medium'' True,
      seed_task 4 ''Another High Priority Task'' ''high'' True,
      seed_task 3 ''Low Priority Task'' ''low'' False,
      seed_task 2 ''Medium Priority Task'' ''medium'' True,
      seed_task 1 ''High Priority Task'' ''high'' False]"
  by (simp add: order_by_created_desc_def plain_platform_def seed_tasks_def seed_task_def)

theorem pagination_envelope_witness:
  "exact_range (no_filters\<lparr>q_page := Some 3, q_limit := Some 2\<rparr>) \<and>
   \<not> nul_filter (no_filters\<lparr>q_page := Some 3, q_limit := Some 2\<rparr>) \<and>
   snd (build_query plain_platform (no_filters\<lparr>q_page := Some 3, q_limit := Some 2\<rparr>)) =
     [JNum (Fin 2), JNum (Fin 4)] \<and>
   list_tasks plain_platform seed_tasks (no_filters\<lparr>q_page := Some 3, q_limit := Some 2\<rparr>) =
     Responded \<lparr>status = 200, body = ListJson
       \<lparr>env_tasks = [seed_task 1 ''High Priority Task'' ''high'' False],
        env_pagination =
          \<lparr>pagination_page = Some 3, pagination_limit = Some 2, pagination_total = Some 5,
           pagination_pages = Some 3\<rparr>\<rparr>\<rparr> \<and>
   exact_range (no_filters\<lparr>q_page := Some 1, q_limit := Some 2\<rparr>) \<and>
   (\<exists>env. list_tasks plain_platform seed_tasks (no_filters\<lparr>q_page := Some 1, q_limit := Some 2\<rparr>) =
            Responded \<lparr>status = 200, body = ListJson env\<rparr> \<and>
          length (env_tasks env) = 2 \<and>
          env_pagination env =
            \<lparr>pagination_page = Some 1, pagination_limit = Some 2, pagination_total = Some 5,
             pagination_pages = Some 3\<rparr>)"
proof -
  let ?rq = "no_filters\<lparr>q_page := Some 3, q_limit := Some 2\<rparr>"
  let ?r1 = "no_filters\<lparr>q_page := Some 1, q_limit := Some 2\<rparr>"
  have h: "exact_range ?rq" "\<not> nul_filter ?rq" "exact_range ?r1" "\<not> nul_filter ?r1"
    by (simp_all add: exact_range_def nul_filter_def no_filters_def requested_page_def
        requested_limit_def)
  have q: "requested_page ?rq = 3" "requested_limit ?rq = 2" "filter_values ?rq = []"
    "requested_page ?r1 = 1" "requested_limit ?r1 = 2"
    by (simp_all add: requested_page_def requested_limit_def filter_values_def no_filters_def)
  have f: "filter (selected ?rq) seed_tasks = seed_tasks" "filter (selected ?r1) seed_tasks = seed_tasks"
    by (simp_all add: selected_def no_filters_def)
  have five: "length seed_tasks = 5"
    by (simp add: seed_tasks_def)
  note t = pagination_envelope [OF h(1), of plain_platform seed_tasks]
  from t h(2) obtain env where
    e: "list_tasks plain_platform seed_tasks ?rq = Responded \<lparr>status = 200, body = ListJson env\<rparr>"
    by blast
  from t have b: "snd (build_query plain_platform ?rq) = [JNum (Fin 2), JNum (Fin 4)]"
    by (simp add: q)
  from t e have "pagination_page (env_pagination env) = Some 3"
    and "pagination_limit (env_pagination env) = Some 2"
    and "pagination_total (env_pagination env) = Some 5"
    and "pagination_pages (env_pagination env) = Some 3"
    and "env_tasks env = [seed_task 1 ''High Priority Task'' ''high'' False]"
    by (simp_all add: q f five seed_order)
  then have "env =
      \<lparr>env_tasks = [seed_task 1 ''High Priority Task'' ''high'' False],
       env_pagination =
         \<lparr>pagination_page = Some 3, pagination_limit = Some 2, pagination_total = Some 5,
          pagination_pages = Some 3\<rparr>\<rparr>"
    by (cases env, cases "env_pagination env") simp
  with e have a: "list_tasks plain_platform seed_tasks ?rq =
      Responded \<lparr>status = 200, body = ListJson
        \<lparr>env_tasks = [seed_task 1 ''High Priority Task'' ''high'' False],
         env_pagination =
           \<lparr>pagination_page = Some 3, pagination_limit = Some 2, pagination_total = Some 5,
            pagination_pages = Some 3\<rparr>\<rparr>\<rparr>"
    by simp
  note t1 = pagination_envelope [OF h(3), of plain_platform seed_tasks]
  from t1 h(4) obtain env1 where
    e1: "list_tasks plain_platform seed_tasks ?r1 = Responded \<lparr>status = 200, body = ListJson env1\<rparr>"
    by blast
  have s1: "length (filter (selected ?r1) seed_tasks) = 5 \<and> q_page ?r1 = Some 1 \<and> q_limit ?r1 = Some 2"
    by (simp add: f five)
  from t1 e1 s1 have p1: "env_pagination env1 =
      \<lparr>pagination_page = Some 1, pagination_limit = Some 2, pagination_total = Some 5,
       pagination_pages = Some 3\<rparr>"
    by blast
  from t1 e1 have "env_tasks env1 =
      take (nat (requested_limit ?r1))
        (drop (nat ((requested_page ?r1 - 1) * requested_limit ?r1))
           (order_by_created_desc plain_platform (filter (selected ?r1) seed_tasks)))"
    by blast
  then have "length (env_tasks env1) = 2"
    by (simp add: q f seed_order)
  with e1 p1 h a b show ?thesis by blast
qed

text \<open>
  With page \<open>2 ^ 53 + 1\<close> and limit 1 the value bound to OFFSET is not
  \<open>(page - 1) * limit\<close>, and the page echoed is not the page asked for: the text of the
  page is read as the nearest number, which is \<open>2 ^ 53\<close>.
\<close>

theorem pagination_offset_counterexample:
  "snd (build_query plain_platform (no_filters\<lparr>q_page := Some 9007199254740993, q_limit := Some 1\<rparr>)) =
     [JNum (Fin 1), JNum (Fin 9007199254740991)] \<and>
   (requested_page (no_filters\<lparr>q_page := Some 9007199254740993, q_limit := Some 1\<rparr>) - 1) *
     requested_limit (no_filters\<lparr>q_page := Some 9007199254740993, q_limit := Some 1\<rparr>) =
     9007199254740992 \<and>
   list_tasks plain_platform seed_tasks
     (no_filters\<lparr>q_page := Some 9007199254740993, q_limit := Some 1\<rparr>) =
     Responded \<lparr>status = 200, body = ListJson
       \<lparr>env_tasks = [],
        env_pagination =
          \<lparr>pagination_page = Some 9007199254740992, pagination_limit = Some 1,
           pagination_total = Some 5, pagination_pages = Some 5\<rparr>\<rparr>\<rparr>"
proof -
  let ?rq = "no_filters\<lparr>q_page := Some 9007199254740993, q_limit := Some 1\<rparr>"
  have bl: "bit_length 9007199254740993 = 54"
    by (simp add: bit_length.simps)
  have p: "page_of ?rq = Fin 9007199254740992"
    by (simp add: page_of_def no_filters_def to_double_def bl)
  have l: "limit_of ?rq = Fin 1"
    by (simp add: limit_of_def no_filters_def to_double_def)
  have o: "offset_of ?rq = Fin 9007199254740991"
    by (simp add: offset_of_def p l js_times_def to_double_def)
  have op: "offset_param plain_platform ?rq = Fin 9007199254740991"
    by (simp only: offset_param_def o) (simp add: parseInt_show to_double_exact)
  have fv: "filter_values ?rq = []"
    by (simp add: filter_values_def no_filters_def)
  have b: "snd (build_query plain_platform ?rq) = [JNum (Fin 1), JNum (Fin 9007199254740991)]"
    by (simp only: build_same_params build_values fv l op [unfolded offset_param_def] append_Nil)
  have n: "\<not> nul_filter ?rq"
    by (simp add: nul_filter_def no_filters_def)
  have f: "filter (selected ?rq) seed_tasks = seed_tasks"
    by (simp add: selected_def no_filters_def)
  have five: "length seed_tasks = 5"
    by (simp add: seed_tasks_def)
  have i: "pg_input plain_platform PgInt8 (JNum (Fin 1)) = Inr (VInt (Some 1))"
    "pg_input plain_platform PgInt8 (JNum (Fin 9007199254740991)) = Inr (VInt (Some 9007199254740991))"
    by (simp_all add: pg_input_int8)
  have d: "drop 9007199254740991 (order_by_created_desc plain_platform seed_tasks) = []"
    by (simp add: seed_order)
  have r: "(requested_page ?rq - 1) * requested_limit ?rq = 9007199254740992"
    by (simp add: requested_page_def requested_limit_def no_filters_def)
  have "list_tasks plain_platform seed_tasks ?rq =
     Responded \<lparr>status = 200, body = ListJson
       \<lparr>env_tasks = [],
        env_pagination =
          \<lparr>pagination_page = Some 9007199254740992, pagination_limit = Some 1,
           pagination_total = Some 5, pagination_pages = Some 5\<rparr>\<rparr>\<rparr>"
    by (simp add: list_tasks_closed n p l op i f five d)
  with b r show ?thesis by simp
qed

text \<open>
  C4 (amended). For a list request whose search string is not empty and contains none
  of the pattern characters \<open>%\<close>, \<open>_\<close> and backslash, the search predicate of the count
  query and of the data query selects exactly the rows in whose title or description
  the string occurs, letter case ignored; a row without a description is selected by
  its title alone.
\<close>

theorem search_filter_plain:
  assumes "q_search rq = Some s" and "s \<noteq> []" and "plain s"
  shows "where_holds (snd (build_count_query rq)) (fst (build_count_query rq)) r =
           (where_holds (snd (build_count_query (rq\<lparr>q_search := None\<rparr>)))
              (fst (build_count_query (rq\<lparr>q_search := None\<rparr>))) r \<and> occurs_in_row s r) \<and>
         where_holds (snd (build_query P rq)) (dq_where (fst (build_query P rq))) r =
           (where_holds (snd (build_query P (rq\<lparr>q_search := None\<rparr>)))
              (dq_where (fst (build_query P (rq\<lparr>q_search := None\<rparr>)))) r \<and> occurs_in_row s r)"
  using selected_search_plain [OF assms] by (simp add: count_where data_where)

lemma lower_eval: "lower_case ''High Priority Task'' = ''high priority task''"
  by (simp add: lower_case_def to_lower_def upper_letters_def lower_letters_def)

theorem search_filter_plain_witness:
  "q_search (no_filters\<lparr>q_search := Some ''High''\<rparr>) = Some ''High'' \<and> ''High'' \<noteq> [] \<and> plain ''High'' \<and>
   where_holds (snd (build_count_query (no_filters\<lparr>q_search := Some ''High''\<rparr>)))
     (fst (build_count_query (no_filters\<lparr>q_search := Some ''High''\<rparr>)))
     (seed_task 1 ''High Priority Task'' ''high'' False) \<and>
   \<not> where_holds (snd (build_query plain_platform (no_filters\<lparr>q_search := Some ''High''\<rparr>)))
     (dq_where (fst (build_query plain_platform (no_filters\<lparr>q_search := Some ''High''\<rparr>))))
     (seed_task 3 ''Low Priority Task'' ''low'' False)"
proof -
  let ?rq = "no_filters\<lparr>q_search := Some ''High''\<rparr>"
  have h: "q_search ?rq = Some ''High''" "''High'' \<noteq> []" "plain ''High''"
    by (simp_all add: plain_def wildcard_def backslash_def)
  have a: "occurs_in_row ''High'' (seed_task 1 ''High Priority Task'' ''high'' False)"
    by (simp add: occurs_in_row_def contains_ci_def seed_task_def lower_case_def to_lower_def
        upper_letters_def lower_letters_def sublist_code)
  have b: "\<not> occurs_in_row ''High'' (seed_task 3 ''Low Priority Task'' ''low'' False)"
    by (simp add: occurs_in_row_def contains_ci_def seed_task_def lower_case_def to_lower_def
        upper_letters_def lower_letters_def sublist_code)
  have c: "where_holds (snd (build_count_query (?rq\<lparr>q_search := None\<rparr>)))
      (fst (build_count_query (?rq\<lparr>q_search := None\<rparr>))) r" for r
    by (simp add: build_count_query_def no_filters_def where_holds_def)
  from search_filter_plain [OF h, of _ plain_platform] a b c h show ?thesis
    by (simp add: count_where data_where selected_search_plain [OF h])
qed

text \<open>
  The search string \<open>_\<close> selects a row titled \<open>abc\<close>, in which it does not occur: the
  string is bound as a pattern, and \<open>_\<close> stands for any character.
\<close>

theorem search_wildcard_counterexample:
  "list_tasks plain_platform [seed_task 1 ''abc'' ''low'' False] (no_filters\<lparr>q_search := Some ''_''\<rparr>) =
     Responded \<lparr>status = 200, body = ListJson
       \<lparr>env_tasks = [seed_task 1 ''abc'' ''low'' False],
        env_pagination = \<lparr>pagination_page = Some 1, pagination_limit = Some 10,
                          pagination_total = Some 1, pagination_pages = Some 1\<rparr>\<rparr>\<rparr> \<and>
   \<not> occurs_in_row ''_'' (seed_task 1 ''abc'' ''low'' False)"
proof -
  let ?rq = "no_filters\<lparr>q_search := Some ''_''\<rparr>"
  have h: "exact_range ?rq" "\<not> nul_filter ?rq"
    by (simp_all add: exact_range_def nul_filter_def no_filters_def requested_page_def
        requested_limit_def nul_def)
  have m: "selected ?rq (seed_task 1 ''abc'' ''low'' False)"
    by (simp add: selected_def no_filters_def seed_task_def ilike_def lower_case_def
        to_lower_def upper_letters_def lower_letters_def)
  have n: "\<not> occurs_in_row ''_'' (seed_task 1 ''abc'' ''low'' False)"
    by (simp add: occurs_in_row_def contains_ci_def seed_task_def lower_case_def to_lower_def
        upper_letters_def lower_letters_def sublist_code)
  have r: "requested_page ?rq = 1" "requested_limit ?rq = 10"
    by (simp_all add: requested_page_def requested_limit_def no_filters_def)
  from m n show ?thesis
    by (simp add: list_tasks_exact [OF h] r order_by_created_desc_def)
qed

subsection \<open>The completed filter\<close>

text \<open>
  C10. The completed predicate is part of both queries exactly when the \<open>completed\<close>
  parameter is present, and then both select the rows whose flag equals
  (parameter = "true"): any other value, such as "false", "yes" or "1", selects the rows
  that are not completed.
\<close>

theorem completed_filter:
  "(q_completed rq = None \<longrightarrow>
      ByCompleted \<notin> set (map cond_kind (fst (build_count_query rq))) \<and>
      ByCompleted \<notin> set (map cond_kind (dq_where (fst (build_query P rq))))) \<and>
   (\<forall>c. q_completed rq = Some c \<longrightarrow>
      ByCompleted \<in> set (map cond_kind (fst (build_count_query rq))) \<and>
      ByCompleted \<in> set (map cond_kind (dq_where (fst (build_query P rq)))) \<and>
      (\<forall>r. where_holds (snd (build_count_query rq)) (fst (build_count_query rq)) r =
             (where_holds (snd (build_count_query (rq\<lparr>q_completed := None\<rparr>)))
                (fst (build_count_query (rq\<lparr>q_completed := None\<rparr>))) r \<and>
              task_completed r = Some (c = ''true''))) \<and>
      (\<forall>r. where_holds (snd (build_query P rq)) (dq_where (fst (build_query P rq))) r =
             (where_holds (snd (build_query P (rq\<lparr>q_completed := None\<rparr>)))
                (dq_where (fst (build_query P (rq\<lparr>q_completed := None\<rparr>)))) r \<and>
              task_completed r = Some (c = ''true''))))"
  by (auto simp: data_kinds build_kinds applied_filters_def count_where data_where
      selected_completed)

theorem completed_filter_witness:
  "q_completed (no_filters\<lparr>q_completed := Some ''yes''\<rparr>) = Some ''yes'' \<and>
   fst (build_count_query (no_filters\<lparr>q_completed := Some ''yes''\<rparr>)) = [CompletedEq 1] \<and>
   snd (build_count_query (no_filters\<lparr>q_completed := Some ''yes''\<rparr>)) = [JBool False] \<and>
   where_holds (snd (build_count_query (no_filters\<lparr>q_completed := Some ''yes''\<rparr>)))
     (fst (build_count_query (no_filters\<lparr>q_completed := Some ''yes''\<rparr>)))
     (seed_task 1 ''High Priority Task'' ''high'' False) \<and>
   \<not> where_holds (snd (build_query plain_platform (no_filters\<lparr>q_completed := Some ''yes''\<rparr>)))
     (dq_where (fst (build_query plain_platform (no_filters\<lparr>q_completed := Some ''yes''\<rparr>))))
     (seed_task 2 ''Medium Priority Task'' ''medium'' True)"
  using completed_filter [of "no_filters\<lparr>q_completed := Some ''yes''\<rparr>" plain_platform]
  by (simp add: build_count_query_def build_query_def no_filters_def seed_task_def where_holds_def)

subsection \<open>POST /tasks\<close>

lemma trim_replicate: "\<not> is_space c \<Longrightarrow> trim (replicate n c) = replicate n c"
  by (cases n) (simp_all add: trim_def dropWhile_eq_self_iff del: replicate.simps)

lemma create_task_unfold:
  "create_task P d now b =
     (case validateRequest (createTaskSchema P) (fst (create_chains P b)) of
        Some res \<Rightarrow> (Responded res, d)
      | None \<Rightarrow>
          if snd (create_chains P b) \<noteq> [] then
            (Responded \<lparr>status = 400, body = ValidationJson (snd (create_chains P b))\<rparr>, d)
          else case insert_task P d now
                      [js_param (b_title (fst (create_chains P b))),
                       js_or (b_description (fst (create_chains P b))) JNull,
                       js_or (b_priority (fst (create_chains P b))) (JStr ''medium''),
                       js_or (b_dueDate (fst (create_chains P b))) JNull,
                       js_or (b_completed (fst (create_chains P b))) (JBool False)] of
            (Inl error, d') \<Rightarrow> (Forwarded error, d')
          | (Inr rows, d') \<Rightarrow>
              (case rows of
                 [] \<Rightarrow> (Responded \<lparr>status = 201, body = EmptyObjectJson\<rparr>, d')
               | r # rs \<Rightarrow> (Responded \<lparr>status = 201, body = TaskJson r\<rparr>, d')))"
  by (simp add: create_task_def split_beta)

lemma create_chains_body:
  "fst (create_chains P b) = b\<lparr>b_title := Some (JStr (trim (ev_string P (b_title b))))\<rparr>"
  by (simp add: create_chains_def Let_def)

lemma joi_description: "description_valid v \<Longrightarrow> joi_optional (joi_string None (Some 1000)) v"
  by (induction v rule: description_valid.induct) (simp_all add: joi_string_def)

lemma joi_description_empty:
  "v = Some (JStr []) \<or> v = Some JNull \<Longrightarrow> \<not> joi_optional (joi_string None (Some 1000)) v"
  by (auto simp: joi_string_def)

lemma joi_priority:
  "priority_valid v \<Longrightarrow> joi_optional (joi_valid [''low'', ''medium'', ''high'']) v"
  by (induction v rule: priority_valid.induct) (simp_all add: joi_valid_def)

lemma joi_completed: "completed_valid v \<Longrightarrow> joi_optional joi_boolean v"
  by (induction v rule: completed_valid.induct) (auto simp: joi_boolean_def lower_true lower_false)

lemma joi_due: "due_valid P v \<Longrightarrow> joi_optional (joi_date_iso P) v"
  by (cases v) simp_all

lemma joi_title:
  "joi_string (Some (Suc 0)) (Some 255) (JStr s) = (Suc 0 \<le> length s \<and> length s \<le> 255)"
  by (cases s) (simp_all add: joi_string_def)

lemma chain_description:
  "description_valid v \<Longrightarrow> optional P v (isLength 0 1000) msg = []"
  by (induction v rule: description_valid.induct) (simp_all add: checked_def isLength_def)

lemma chain_priority:
  "priority_valid v \<Longrightarrow> optional P v (isIn [''low'', ''medium'', ''high'']) msg = []"
  by (induction v rule: priority_valid.induct) (simp_all add: checked_def isIn_def)

lemma chain_completed: "completed_valid v \<Longrightarrow> optional P v isBoolean msg = []"
  by (induction v rule: completed_valid.induct) (auto simp: checked_def isBoolean_def)

lemma chain_due: "due_valid P v \<Longrightarrow> optional P v (isISO8601 P) msg = []"
  by (cases v) (simp_all add: checked_def)

lemma param_title: "nul \<notin> set s \<Longrightarrow> convert P Title (JStr s) = Inr (VText (Some s))"
  by (simp add: convert_def pg_input_text)

lemma param_description:
  "description_valid v \<Longrightarrow>
     convert P Description (js_or v JNull) = Inr (VText (stored_description v))"
  by (induction v rule: description_valid.induct) (simp_all add: convert_def pg_input_def)

lemma param_priority:
  "priority_valid v \<Longrightarrow>
     convert P Priority (js_or v (JStr ''medium'')) = Inr (VText (Some (stored_priority v))) \<and>
     stored_priority v \<in> set [''low'', ''medium'', ''high'']"
  by (induction v rule: priority_valid.induct) (auto simp: convert_def pg_input_def nul_def)

lemma param_completed:
  "completed_valid v \<Longrightarrow>
     convert P Completed (js_or v (JBool False)) = Inr (VBool (Some (stored_completed v)))"
  by (induction v rule: completed_valid.induct)
     (auto simp: convert_def pg_input_def nul_def parse_bool_true parse_bool_false)

lemma param_due:
  "due_valid P v \<Longrightarrow> convert P DueDate (js_or v JNull) = Inr (VTime (stored_due P v))"
proof (cases v)
  case None
  then show ?thesis by (simp add: stored_due_def convert_def pg_input_def)
next
  case (Some x)
  assume "due_valid P v"
  with Some have "is_time (convert P DueDate (js_or (Some x) JNull))" by simp
  then obtain t where "convert P DueDate (js_or (Some x) JNull) = Inr (VTime t)"
    by (cases "convert P DueDate (js_or (Some x) JNull)" rule: is_time.cases) simp_all
  with Some show ?thesis by (simp add: stored_due_def)
qed

lemma store_priority:
  "p \<in> set [''low'', ''medium'', ''high''] \<Longrightarrow>
     store Priority (VText (Some p)) r = Inr (r\<lparr>task_priority := Some p\<rparr>)"
  by (auto simp: varchar_def)

lemma store_title:
  "length s \<le> 255 \<Longrightarrow> store Title (VText (Some s)) r = Inr (r\<lparr>task_title := s\<rparr>)"
  by (simp add: varchar_def)

lemma create_rejects_long_title:
  assumes "255 < length (trim (ev_string P (b_title b)))"
  shows "create_task P d now b =
           (Responded \<lparr>status = 400, body = ValidationJson [JoiMessage ''title'']\<rparr>, d)"
  using assms
  by (simp add: create_task_unfold create_chains_body validateRequest_def createTaskSchema_def
      joi_object_def joi_string_def)

lemma create_rejects_description:
  assumes t: "b_title b = Some (JStr t)" "1 \<le> length (trim t)" "length (trim t) \<le> 255"
    and e: "b_description b = Some (JStr []) \<or> b_description b = Some JNull"
  shows "create_task P d now b =
           (Responded \<lparr>status = 400, body = ValidationJson [JoiMessage ''description'']\<rparr>, d)"
proof -
  have "\<not> joi_optional (joi_string None (Some 1000)) (b_description b)"
    using e by (rule joi_description_empty)
  then show ?thesis
    using t
    by (simp add: create_task_unfold create_chains_body validateRequest_def createTaskSchema_def
        joi_object_def joi_title)
qed

lemma create_passes_validation:
  assumes t: "b_title b = Some (JStr t)" "1 \<le> length (trim t)" "length (trim t) \<le> 255"
    and d: "description_valid (b_description b)"
    and r: "rest_valid P b"
  shows "create_task P d now b =
     (case insert_task P d now
             [JStr (trim t), js_or (b_description b) JNull,
              js_or (b_priority b) (JStr ''medium''), js_or (b_dueDate b) JNull,
              js_or (b_completed b) (JBool False)] of
        (Inl error, d') \<Rightarrow> (Forwarded error, d')
      | (Inr rows, d') \<Rightarrow>
          (case rows of
             [] \<Rightarrow> (Responded \<lparr>status = 201, body = EmptyObjectJson\<rparr>, d')
           | r # rs \<Rightarrow> (Responded \<lparr>status = 201, body = TaskJson r\<rparr>, d')))"
proof -
  from r have p: "priority_valid (b_priority b)" and c: "completed_valid (b_completed b)"
    and due: "due_valid P (b_dueDate b)" and unk: "b_unknown b = []"
    by (simp_all add: rest_valid_def)
  have chains: "snd (create_chains P b) = []"
    using t by (simp add: create_chains_def Let_def isLength_def chain_description [OF d]
        chain_priority [OF p] chain_completed [OF c] chain_due [OF due])
  have bd: "fst (create_chains P b) = b\<lparr>b_title := Some (JStr (trim t))\<rparr>"
    using t(1) by (simp add: create_chains_body)
  have joi: "validateRequest (createTaskSchema P) (b\<lparr>b_title := Some (JStr (trim t))\<rparr>) = None"
    using t unk
    by (simp add: validateRequest_def createTaskSchema_def joi_object_def
        joi_title joi_description [OF d] joi_priority [OF p] joi_completed [OF c] joi_due [OF due])
  show ?thesis
    by (simp add: create_task_unfold chains bd joi)
qed

lemma insert_valid:
  assumes t: "length s \<le> 255" "nul \<notin> set s"
    and d: "description_valid (b_description b)"
    and r: "rest_valid P b"
    and s: "can_insert d"
  shows "insert_task P d now
      [JStr s, js_or (b_description b) JNull, js_or (b_priority b) (JStr ''medium''),
       js_or (b_dueDate b) JNull, js_or (b_completed b) (JBool False)] =
      (Inr [\<lparr>task_id = of_int (db_next_id d), task_title = s,
             task_description = stored_description (b_description b),
             task_priority = Some (stored_priority (b_priority b)),
             task_due_date = stored_due P (b_dueDate b),
             task_completed = Some (stored_completed (b_completed b)),
             task_created_at = now, task_updated_at = now\<rparr>],
       \<lparr>db_tasks = db_tasks d @
          [\<lparr>task_id = of_int (db_next_id d), task_title = s,
            task_description = stored_description (b_description b),
            task_priority = Some (stored_priority (b_priority b)),
            task_due_date = stored_due P (b_dueDate b),
            task_completed = Some (stored_completed (b_completed b)),
            task_created_at = now, task_updated_at = now\<rparr>],
        db_next_id = db_next_id d + 1\<rparr>)"
proof -
  from r have p: "priority_valid (b_priority b)" and c: "completed_valid (b_completed b)"
    and due: "due_valid P (b_dueDate b)"
    by (simp_all add: rest_valid_def)
  have conv: "convert_all P
      [(Title, JStr s), (Description, js_or (b_description b) JNull),
       (Priority, js_or (b_priority b) (JStr ''medium'')), (DueDate, js_or (b_dueDate b) JNull),
       (Completed, js_or (b_completed b) (JBool False))] =
      Inr [(Title, VText (Some s)), (Description, VText (stored_description (b_description b))),
           (Priority, VText (Some (stored_priority (b_priority b)))),
           (DueDate, VTime (stored_due P (b_dueDate b))),
           (Completed, VBool (Some (stored_completed (b_completed b))))]"
    by (simp add: param_title [OF t(2)] param_description [OF d] param_priority [OF p]
        param_due [OF due] param_completed [OF c])
  from s have q: "\<not> db_next_id d < 1" "\<not> 2147483647 < db_next_id d"
    and f: "\<not> list_ex (\<lambda>r. task_id r = of_int (db_next_id d)) (db_tasks d)"
    by (auto simp: can_insert_def list_all_iff list_ex_iff)
  show ?thesis
    using t(1) param_priority [OF p] q f
    by (simp add: insert_task_def conv store_title store_priority
        del: convert_all.simps store.simps(2) store.simps(5))
qed

lemma create_valid:
  assumes t: "b_title b = Some (JStr t)" "title_valid t"
    and d: "description_valid (b_description b)"
    and r: "rest_valid P b"
    and s: "can_insert d"
  shows "create_task P d now b =
           (Responded \<lparr>status = 201, body = TaskJson (created_row P d now t b)\<rparr>,
            \<lparr>db_tasks = db_tasks d @ [created_row P d now t b], db_next_id = db_next_id d + 1\<rparr>)"
proof -
  from t(2) have v: "1 \<le> length (trim t)" "length (trim t) \<le> 255" "nul \<notin> set (trim t)"
    by (simp_all add: title_valid_def)
  show ?thesis
    by (simp add: create_passes_validation [OF t(1) v(1,2) d r]
        insert_valid [OF v(2,3) d r s] created_row_def)
qed

lemma trim_task: "trim ''Task'' = ''Task''"
  by (simp add: trim_def is_space_def)

lemma title_only_valid:
  "description_valid (b_description (title_only t))" "rest_valid P (title_only t)"
  by (simp_all add: title_only_def rest_valid_def)

text \<open>
  C6 (amended). While the table can take a new row, POST /tasks with body
  \<open>{title: "Task"}\<close> is answered 201 with a task of priority \<open>medium\<close> that is not
  completed, which is then in the table; and POST /tasks with a title that is longer
  than 255 characters once white space is trimmed from its ends, such as
  \<open>"a".repeat(256)\<close>, is answered 400 with a validation error and leaves the table as it
  was.
\<close>

theorem create_defaults_and_long_title:
  "(can_insert d \<longrightarrow>
      create_task P d now (title_only ''Task'') =
        (Responded \<lparr>status = 201, body = TaskJson
           \<lparr>task_id = of_int (db_next_id d), task_title = ''Task'', task_description = None,
            task_priority = Some ''medium'', task_due_date = None, task_completed = Some False,
            task_created_at = now, task_updated_at = now\<rparr>\<rparr>,
         \<lparr>db_tasks = db_tasks d @
            [\<lparr>task_id = of_int (db_next_id d), task_title = ''Task'', task_description = None,
              task_priority = Some ''medium'', task_due_date = None, task_completed = Some False,
              task_created_at = now, task_updated_at = now\<rparr>],
          db_next_id = db_next_id d + 1\<rparr>)) \<and>
   (\<forall>b :: task_body. 255 < length (trim (ev_string P (b_title b))) \<longrightarrow>
      create_task P d now b =
        (Responded \<lparr>status = 400, body = ValidationJson [JoiMessage ''title'']\<rparr>, d)) \<and>
   create_task P d now (title_only (replicate 256 CHR ''a'')) =
     (Responded \<lparr>status = 400, body = ValidationJson [JoiMessage ''title'']\<rparr>, d)"
proof (intro conjI allI impI)
  assume s: "can_insert d"
  have "create_task P d now (title_only ''Task'') =
      (Responded \<lparr>status = 201, body = TaskJson (created_row P d now ''Task'' (title_only ''Task''))\<rparr>,
       \<lparr>db_tasks = db_tasks d @ [created_row P d now ''Task'' (title_only ''Task'')],
        db_next_id = db_next_id d + 1\<rparr>)"
    by (rule create_valid [OF _ _ title_only_valid s])
       (simp_all add: title_only_def title_valid_def trim_task nul_def)
  then show "create_task P d now (title_only ''Task'') =
     (Responded \<lparr>status = 201, body = TaskJson
        \<lparr>task_id = of_int (db_next_id d), task_title = ''Task'', task_description = None,
         task_priority = Some ''medium'', task_due_date = None, task_completed = Some False,
         task_created_at = now, task_updated_at = now\<rparr>\<rparr>,
      \<lparr>db_tasks = db_tasks d @
         [\<lparr>task_id = of_int (db_next_id d), task_title = ''Task'', task_description = None,
           task_priority = Some ''medium'', task_due_date = None, task_completed = Some False,
           task_created_at = now, task_updated_at = now\<rparr>],
       db_next_id = db_next_id d + 1\<rparr>)"
    by (simp add: created_row_def title_only_def trim_task stored_due_def convert_def pg_input_def)
next
  fix b :: task_body
  assume "255 < length (trim (ev_string P (b_title b)))"
  then show "create_task P d now b =
      (Responded \<lparr>status = 400, body = ValidationJson [JoiMessage ''title'']\<rparr>, d)"
    by (rule create_rejects_long_title)
next
  have "\<not> is_space CHR ''a''"
    by (simp add: is_space_def)
  then have "trim (replicate 256 CHR ''a'') = replicate 256 CHR ''a''"
    by (rule trim_replicate)
  then have "255 < length (trim (ev_string P (b_title (title_only (replicate 256 CHR ''a'')))))"
    by (simp add: title_only_def)
  then show "create_task P d now (title_only (replicate 256 CHR ''a'')) =
     (Responded \<lparr>status = 400, body = ValidationJson [JoiMessage ''title'']\<rparr>, d)"
    by (rule create_rejects_long_title)
qed

lemma empty_db_can_insert: "can_insert empty_db"
  by (simp add: can_insert_def empty_db_def)

theorem create_defaults_and_long_title_witness:
  "can_insert empty_db \<and>
   fst (create_task plain_platform empty_db 7 (title_only ''Task'')) =
     Responded \<lparr>status = 201, body = TaskJson
        \<lparr>task_id = 1, task_title = ''Task'', task_description = None,
         task_priority = Some ''medium'', task_due_date = None, task_completed = Some False,
         task_created_at = 7, task_updated_at = 7\<rparr>\<rparr> \<and>
   255 < length (trim (ev_string plain_platform (b_title (title_only (replicate 300 CHR ''b''))))) \<and>
   create_task plain_platform empty_db 7 (title_only (replicate 300 CHR ''b'')) =
     (Responded \<lparr>status = 400, body = ValidationJson [JoiMessage ''title'']\<rparr>, empty_db) \<and>
   create_task plain_platform empty_db 7 (title_only (replicate 256 CHR ''a'')) =
     (Responded \<lparr>status = 400, body = ValidationJson [JoiMessage ''title'']\<rparr>, empty_db)"
proof -
  have "\<not> is_space CHR ''b''"
    by (simp add: is_space_def)
  then have "trim (replicate 300 CHR ''b'') = replicate 300 CHR ''b''"
    by (rule trim_replicate)
  then have l: "255 < length (trim (ev_string plain_platform (b_title (title_only (replicate 300 CHR ''b'')))))"
    by (simp add: title_only_def)
  from create_defaults_and_long_title [of empty_db plain_platform 7] empty_db_can_insert l
  show ?thesis
    by (simp add: empty_db_def)
qed

text \<open>
  The title of 255 letters \<open>a\<close> and a space has 256 characters; the sanitizer trims it
  to 255 and the task is created. And when the sequence of identifiers is exhausted,
  the request with the title \<open>Task\<close> is not answered 201: the database raises an error,
  which the handler passes on.
\<close>

theorem create_trimmed_title_counterexample:
  "length (replicate 255 CHR ''a'' @ '' '') = 256 \<and>
   create_task plain_platform empty_db 7 (title_only (replicate 255 CHR ''a'' @ '' '')) =
     (Responded \<lparr>status = 201, body = TaskJson
        \<lparr>task_id = 1, task_title = replicate 255 CHR ''a'', task_description = None,
         task_priority = Some ''medium'', task_due_date = None, task_completed = Some False,
         task_created_at = 7, task_updated_at = 7\<rparr>\<rparr>,
      \<lparr>db_tasks =
         [\<lparr>task_id = 1, task_title = replicate 255 CHR ''a'', task_description = None,
           task_priority = Some ''medium'', task_due_date = None, task_completed = Some False,
           task_created_at = 7, task_updated_at = 7\<rparr>],
       db_next_id = 2\<rparr>) \<and>
   create_task plain_platform \<lparr>db_tasks = [], db_next_id = 2147483648\<rparr> 7 (title_only ''Task'') =
     (Forwarded (DbError ''2200H''), \<lparr>db_tasks = [], db_next_id = 2147483648\<rparr>)"
proof -
  have a: "\<not> is_space CHR ''a''" and sp: "is_space CHR '' ''"
    by (simp_all add: is_space_def)
  have n: "nul \<noteq> CHR ''a''"
    by (simp add: nul_def)
  from a have d: "dropWhile is_space (replicate 255 CHR ''a'' @ '' '') = replicate 255 CHR ''a'' @ '' ''"
    by (simp add: dropWhile_eq_self_iff hd_append hd_replicate del: replicate.simps)
  from a have e: "dropWhile is_space (replicate 255 CHR ''a'') = replicate 255 CHR ''a''"
    by (simp add: dropWhile_eq_self_iff hd_replicate del: replicate.simps)
  have tr: "trim (replicate 255 CHR ''a'' @ '' '') = replicate 255 CHR ''a''"
    using a by (simp add: trim_def d sp e del: replicate.simps)
  have v: "title_valid (replicate 255 CHR ''a'' @ '' '')"
    using n by (simp add: title_valid_def tr del: replicate.simps)
  have "create_task plain_platform empty_db 7 (title_only (replicate 255 CHR ''a'' @ '' '')) =
      (Responded \<lparr>status = 201, body = TaskJson
         (created_row plain_platform empty_db 7 (replicate 255 CHR ''a'' @ '' '')
            (title_only (replicate 255 CHR ''a'' @ '' '')))\<rparr>,
       \<lparr>db_tasks = db_tasks empty_db @
          [created_row plain_platform empty_db 7 (replicate 255 CHR ''a'' @ '' '')
             (title_only (replicate 255 CHR ''a'' @ '' ''))],
        db_next_id = db_next_id empty_db + 1\<rparr>)"
    by (rule create_valid [OF _ v title_only_valid empty_db_can_insert]) (simp add: title_only_def)
  then have one: "create_task plain_platform empty_db 7 (title_only (replicate 255 CHR ''a'' @ '' '')) =
     (Responded \<lparr>status = 201, body = TaskJson
        \<lparr>task_id = 1, task_title = replicate 255 CHR ''a'', task_description = None,
         task_priority = Some ''medium'', task_due_date = None, task_completed = Some False,
         task_created_at = 7, task_updated_at = 7\<rparr>\<rparr>,
      \<lparr>db_tasks =
         [\<lparr>task_id = 1, task_title = replicate 255 CHR ''a'', task_description = None,
           task_priority = Some ''medium'', task_due_date = None, task_completed = Some False,
           task_created_at = 7, task_updated_at = 7\<rparr>],
       db_next_id = 2\<rparr>)"
    by (simp add: created_row_def tr title_only_def empty_db_def stored_due_def convert_def
        pg_input_def del: replicate.simps)
  have conv: "convert_all plain_platform
      [(Title, JStr ''Task''), (Description, JNull), (Priority, JStr ''medium''), (DueDate, JNull),
       (Completed, JBool False)] =
      Inr [(Title, VText (Some ''Task'')), (Description, VText None),
           (Priority, VText (Some ''medium'')), (DueDate, VTime None), (Completed, VBool (Some False))]"
    by (simp add: convert_def pg_input_def nul_def parse_bool_false)
  have "create_task plain_platform \<lparr>db_tasks = [], db_next_id = 2147483648\<rparr> 7 (title_only ''Task'') =
      (case insert_task plain_platform \<lparr>db_tasks = [], db_next_id = 2147483648\<rparr> 7
              [JStr (trim ''Task''), js_or (b_description (title_only ''Task'')) JNull,
               js_or (b_priority (title_only ''Task'')) (JStr ''medium''),
               js_or (b_dueDate (title_only ''Task'')) JNull,
               js_or (b_completed (title_only ''Task'')) (JBool False)] of
         (Inl error, d') \<Rightarrow> (Forwarded error, d')
       | (Inr rows, d') \<Rightarrow>
           (case rows of
              [] \<Rightarrow> (Responded \<lparr>status = 201, body = EmptyObjectJson\<rparr>, d')
            | r # rs \<Rightarrow> (Responded \<lparr>status = 201, body = TaskJson r\<rparr>, d')))"
    by (rule create_passes_validation [OF _ _ _ title_only_valid])
       (simp_all add: title_only_def trim_task)
  then have two: "create_task plain_platform \<lparr>db_tasks = [], db_next_id = 2147483648\<rparr> 7
      (title_only ''Task'') =
      (Forwarded (DbError ''2200H''), \<lparr>db_tasks = [], db_next_id = 2147483648\<rparr>)"
    by (simp add: title_only_def trim_task insert_task_def conv del: convert_all.simps)
  from one two show ?thesis by simp
qed

text \<open>
  C7 (amended). For every create request with a valid title (1 to 255 characters once
  trimmed, none of them U+0000) whose other fields are absent or valid: while the table
  can take a new row, a description that is absent or is a string of 1 to 1000 characters
  without the character U+0000 passes validation and the task is created with 201, the
  description stored as given, or as NULL when absent; a description that is the empty
  string or null is rejected with 400 and nothing is stored.
\<close>

theorem create_description:
  assumes "b_title b = Some (JStr t)" and "title_valid t" and "rest_valid P b"
  shows "(description_valid (b_description b) \<and> can_insert d \<longrightarrow>
            create_task P d now b =
              (Responded \<lparr>status = 201, body = TaskJson (created_row P d now t b)\<rparr>,
               \<lparr>db_tasks = db_tasks d @ [created_row P d now t b], db_next_id = db_next_id d + 1\<rparr>) \<and>
            task_description (created_row P d now t b) = stored_description (b_description b)) \<and>
         (b_description b = Some (JStr []) \<or> b_description b = Some JNull \<longrightarrow>
            create_task P d now b =
              (Responded \<lparr>status = 400, body = ValidationJson [JoiMessage ''description'']\<rparr>, d))"
proof (intro conjI impI)
  assume a: "description_valid (b_description b) \<and> can_insert d"
  then show "create_task P d now b =
      (Responded \<lparr>status = 201, body = TaskJson (created_row P d now t b)\<rparr>,
       \<lparr>db_tasks = db_tasks d @ [created_row P d now t b], db_next_id = db_next_id d + 1\<rparr>)"
    using create_valid [OF assms(1,2) _ assms(3)] by simp
  show "task_description (created_row P d now t b) = stored_description (b_description b)"
    by (simp add: created_row_def)
next
  assume e: "b_description b = Some (JStr []) \<or> b_description b = Some JNull"
  from assms(2) have "1 \<le> length (trim t)" "length (trim t) \<le> 255"
    by (simp_all add: title_valid_def)
  from create_rejects_description [OF assms(1) this e]
  show "create_task P d now b =
      (Responded \<lparr>status = 400, body = ValidationJson [JoiMessage ''description'']\<rparr>, d)" .
qed

lemma title_task_valid: "title_valid ''Task''"
  by (simp add: title_valid_def trim_task nul_def)

theorem create_description_witness:
  "b_title ((title_only ''Task'')\<lparr>b_description := Some (JStr ''x''), b_completed := Some (JStr ''true'')\<rparr>) =
     Some (JStr ''Task'') \<and>
   title_valid ''Task'' \<and>
   rest_valid plain_platform
     ((title_only ''Task'')\<lparr>b_description := Some (JStr ''x''), b_completed := Some (JStr ''true'')\<rparr>) \<and>
   description_valid (Some (JStr ''x'')) \<and> can_insert empty_db \<and>
   fst (create_task plain_platform empty_db 7
     ((title_only ''Task'')\<lparr>b_description := Some (JStr ''x''), b_completed := Some (JStr ''true'')\<rparr>)) =
     Responded \<lparr>status = 201, body = TaskJson
        \<lparr>task_id = 1, task_title = ''Task'', task_description = Some ''x'',
         task_priority = Some ''medium'', task_due_date = None, task_completed = Some True,
         task_created_at = 7, task_updated_at = 7\<rparr>\<rparr> \<and>
   fst (create_task plain_platform empty_db 7 (title_only ''Task'')) =
     Responded \<lparr>status = 201, body = TaskJson
        \<lparr>task_id = 1, task_title = ''Task'', task_description = None,
         task_priority = Some ''medium'', task_due_date = None, task_completed = Some False,
         task_created_at = 7, task_updated_at = 7\<rparr>\<rparr>"
proof -
  let ?b = "(title_only ''Task'')\<lparr>b_description := Some (JStr ''x''), b_completed := Some (JStr ''true'')\<rparr>"
  have a: "b_title ?b = Some (JStr ''Task'')" "rest_valid plain_platform ?b"
    "b_title (title_only ''Task'') = Some (JStr ''Task'')"
    "rest_valid plain_platform (title_only ''Task'')"
    by (simp_all add: title_only_def rest_valid_def)
  have v: "description_valid (b_description ?b)" "description_valid (Some (JStr ''x''))"
    "description_valid (b_description (title_only ''Task''))"
    by (simp_all add: title_only_def nul_def)
  have n: "stored_due plain_platform None = None"
    by (simp add: stored_due_def convert_def pg_input_def)
  from create_description [OF a(1) title_task_valid a(2), of empty_db 7]
    create_description [OF a(3) title_task_valid a(4), of empty_db 7]
    v empty_db_can_insert a title_task_valid
  show ?thesis
    by (simp add: created_row_def empty_db_def title_only_def trim_task n)
qed

text \<open>
  A create request with the title \<open>Task\<close> and the empty string, or null, as its
  description is answered 400; and with a description that is the one character U+0000,
  which passes validation, the database refuses the text and no task is created.
\<close>

theorem create_empty_description_counterexample:
  "create_task plain_platform empty_db 7 ((title_only ''Task'')\<lparr>b_description := Some (JStr [])\<rparr>) =
     (Responded \<lparr>status = 400, body = ValidationJson [JoiMessage ''description'']\<rparr>, empty_db) \<and>
   create_task plain_platform empty_db 7 ((title_only ''Task'')\<lparr>b_description := Some JNull\<rparr>) =
     (Responded \<lparr>status = 400, body = ValidationJson [JoiMessage ''description'']\<rparr>, empty_db) \<and>
   create_task plain_platform empty_db 7 ((title_only ''Task'')\<lparr>b_description := Some (JStr [nul])\<rparr>) =
     (Forwarded (DbError ''22021''), empty_db)"
proof -
  have a: "b_title ((title_only ''Task'')\<lparr>b_description := v\<rparr>) = Some (JStr ''Task'')"
    "1 \<le> length (trim ''Task'')" "length (trim ''Task'') \<le> 255" for v
    by (simp_all add: title_only_def trim_task)
  have one: "create_task plain_platform empty_db 7 ((title_only ''Task'')\<lparr>b_description := Some (JStr [])\<rparr>) =
     (Responded \<lparr>status = 400, body = ValidationJson [JoiMessage ''description'']\<rparr>, empty_db)"
    by (rule create_rejects_description [OF a]) simp
  have two: "create_task plain_platform empty_db 7 ((title_only ''Task'')\<lparr>b_description := Some JNull\<rparr>) =
     (Responded \<lparr>status = 400, body = ValidationJson [JoiMessage ''description'']\<rparr>, empty_db)"
    by (rule create_rejects_description [OF a]) simp
  let ?b = "(title_only ''Task'')\<lparr>b_description := Some (JStr [nul])\<rparr>"
  have chains: "snd (create_chains plain_platform ?b) = []"
    by (simp add: create_chains_def title_only_def trim_task isLength_def checked_def)
  have bd: "fst (create_chains plain_platform ?b) = ?b"
    by (simp add: create_chains_body title_only_def trim_task)
  have joi: "validateRequest (createTaskSchema plain_platform) ?b = None"
    by (simp add: validateRequest_def createTaskSchema_def joi_object_def title_only_def
        joi_string_def)
  have conv: "convert_all plain_platform
      [(Title, JStr ''Task''), (Description, JStr [nul]), (Priority, JStr ''medium''),
       (DueDate, JNull), (Completed, JBool False)] = Inl (DbError ''22021'')"
    by (simp add: convert_def pg_input_def nul_def)
  have three: "create_task plain_platform empty_db 7 ?b = (Forwarded (DbError ''22021''), empty_db)"
    by (simp add: create_task_unfold chains bd joi)
       (simp add: title_only_def insert_task_def conv del: convert_all.simps)
  from one two three show ?thesis by simp
qed

subsection \<open>The error handler\<close>

lemma errorHandler_status: "er_statusCode (snd (errorHandler env now path method err)) =
    fst (errorHandler env now path method err)"
  by (simp add: errorHandler_def Let_def split_beta)

text \<open>
  C9. For an error that is not named ValidationError or CastError, the error handler
  answers by its code: 23505 with 409, 23503 with 400, 23502 with 400, ECONNREFUSED with
  503; and a signal it does not recognise with 500 and the message
  \<open>Internal Server Error\<close>, without details, and without the stack unless
  \<open>NODE_ENV\<close> is \<open>development\<close>.
\<close>

theorem error_status_lookup:
  assumes "err_name err \<noteq> ''ValidationError''" and "err_name err \<noteq> ''CastError''"
  shows "(err_code err = Some ''23505'' \<longrightarrow>
            fst (errorHandler env now path method err) = 409 \<and>
            er_error (snd (errorHandler env now path method err)) = ''Resource already exists'') \<and>
         (err_code err = Some ''23503'' \<longrightarrow>
            fst (errorHandler env now path method err) = 400 \<and>
            er_error (snd (errorHandler env now path method err)) =
              ''Referenced resource does not exist'') \<and>
         (err_code err = Some ''23502'' \<longrightarrow>
            fst (errorHandler env now path method err) = 400 \<and>
            er_error (snd (errorHandler env now path method err)) = ''Required field is missing'') \<and>
         (err_code err = Some ''ECONNREFUSED'' \<longrightarrow>
            fst (errorHandler env now path method err) = 503 \<and>
            er_error (snd (errorHandler env now path method err)) = ''Database connection failed'') \<and>
         (unrecognized err \<longrightarrow>
            fst (errorHandler env now path method err) = 500 \<and>
            er_error (snd (errorHandler env now path method err)) = ''Internal Server Error'' \<and>
            er_details (snd (errorHandler env now path method err)) = None \<and>
            (env \<noteq> Some ''development'' \<longrightarrow>
               er_stack (snd (errorHandler env now path method err)) = None)) \<and>
         er_statusCode (snd (errorHandler env now path method err)) =
           fst (errorHandler env now path method err)"
proof (intro conjI impI)
  assume "unrecognized err"
  then have u: "err_code err \<noteq> Some ''23505''" "err_code err \<noteq> Some ''23503''"
    "err_code err \<noteq> Some ''23502''" "err_code err \<noteq> Some ''42P01''"
    "err_code err \<noteq> Some ''ECONNREFUSED''"
    "err_statusCode err = None \<or> err_statusCode err = Some 0"
    by (auto simp: unrecognized_def)
  from u(6) assms u(1-5) show "fst (errorHandler env now path method err) = 500"
    by (auto simp: errorHandler_def)
  from u(6) assms u(1-5)
  show "er_error (snd (errorHandler env now path method err)) = ''Internal Server Error''"
    by (auto simp: errorHandler_def)
  from u(6) assms u(1-5) show "er_details (snd (errorHandler env now path method err)) = None"
    by (auto simp: errorHandler_def)
  assume "env \<noteq> Some ''development''"
  with u(6) assms u(1-5) show "er_stack (snd (errorHandler env now path method err)) = None"
    by (auto simp: errorHandler_def)
next
  show "er_statusCode (snd (errorHandler env now path method err)) =
      fst (errorHandler env now path method err)"
    by (rule errorHandler_status)
qed (use assms in \<open>simp_all add: errorHandler_def\<close>)

theorem error_status_lookup_witness:
  "err_name (driver_error ''23505'') \<noteq> ''ValidationError'' \<and>
   err_name (driver_error ''23505'') \<noteq> ''CastError'' \<and>
   fst (errorHandler (Some ''production'') 7 ''/tasks'' ''POST'' (driver_error ''23505'')) = 409 \<and>
   unrecognized (driver_error ''22003'') \<and>
   errorHandler (Some ''production'') 7 ''/tasks'' ''GET'' (driver_error ''22003'') =
     (500, \<lparr>er_error = ''Internal Server Error'', er_statusCode = 500, er_timestamp = 7,
            er_path = ''/tasks'', er_method = ''GET'', er_details = None, er_stack = None\<rparr>)"
proof -
  have n: "err_name (driver_error c) \<noteq> ''ValidationError''" "err_name (driver_error c) \<noteq> ''CastError''"
    for c by (simp_all add: driver_error_def)
  have c: "err_code (driver_error ''23505'') = Some ''23505''"
    by (simp add: driver_error_def)
  have u: "unrecognized (driver_error ''22003'')"
    by (simp add: unrecognized_def driver_error_def)
  have e: "errorHandler (Some ''production'') 7 ''/tasks'' ''GET'' (driver_error ''22003'') =
     (500, \<lparr>er_error = ''Internal Server Error'', er_statusCode = 500, er_timestamp = 7,
            er_path = ''/tasks'', er_method = ''GET'', er_details = None, er_stack = None\<rparr>)"
    by (simp add: errorHandler_def driver_error_def)
  from error_status_lookup [OF n, of "''23505''" "Some ''production''" 7 "''/tasks''" "''POST''"] c n u e
  show ?thesis by simp
qed

subsection \<open>Identifiers in the path\<close>

lemma int4_sint: "int4_range i \<Longrightarrow> sint (of_int i :: int4) = i"
  by (simp add: int4_range_def signed_of_int signed_take_bit_int_eq_self)

lemma int4_eq: "int4_range i \<Longrightarrow> (w = (of_int i :: int4)) = (sint w = i)"
  using int4_sint [of i] by auto

lemma int4_eq2: "int4_range i \<Longrightarrow> ((of_int i :: int4) = w) = (sint w = i)"
  using int4_sint [of i] by auto

lemma sint_int4_range: "int4_range (sint (w :: int4))"
  using sint_ge [of w] sint_lt [of w] by (simp add: int4_range_def)

lemma digit_value_digit: "digit_value c = Some v \<Longrightarrow> c \<in> set digits"
proof -
  assume "digit_value c = Some v"
  then have "(c, v) \<in> set (zip digits [0 ..< 10])"
    unfolding digit_value_def by (rule map_of_SomeD)
  then show "c \<in> set digits" by (rule set_zip_leftD)
qed

lemma digits_value_digits: "digits_value acc s = Some n \<Longrightarrow> set s \<subseteq> set digits"
  by (induction s arbitrary: acc) (auto split: option.splits dest: digit_value_digit)

lemma parse_int_chars:
  assumes "parse_int s = Some i"
  shows "set s \<subseteq> insert CHR ''-'' (insert CHR ''+'' (set digits))"
proof (cases s)
  case Nil
  with assms show ?thesis by (simp add: parse_int_def)
next
  case (Cons c cs)
  show ?thesis
  proof (cases "c = CHR ''-'' \<or> c = CHR ''+''")
    case True
    with assms Cons obtain n where "digits_value 0 cs = Some n"
      by (auto simp: parse_int_def split: if_splits)
    then have "set cs \<subseteq> set digits" by (rule digits_value_digits)
    with True Cons show ?thesis by auto
  next
    case False
    with assms Cons obtain n where "digits_value 0 s = Some n"
      by (auto simp: parse_int_def)
    then have "set s \<subseteq> set digits" by (rule digits_value_digits)
    then show ?thesis by auto
  qed
qed

lemma sign_or_digit:
  "c \<in> insert CHR ''-'' (insert CHR ''+'' (set digits)) \<Longrightarrow>
     \<not> pg_space c \<and> \<not> is_space c \<and> c \<noteq> nul"
  by (auto simp: digits_def pg_space_def is_space_def nul_def)

lemma parse_int_nul: "parse_int s = Some i \<Longrightarrow> nul \<notin> set s"
  using parse_int_chars [of s i] sign_or_digit [of nul] by auto

lemma pg_trim_no_space:
  assumes "list_all (\<lambda>c. \<not> pg_space c) s"
  shows "pg_trim s = s"
proof (cases "s = []")
  case True
  then show ?thesis by (simp add: pg_trim_def)
next
  case False
  with assms have "\<not> pg_space (hd s)" "\<not> pg_space (last s)"
    by (simp_all add: list_all_iff)
  with False have a: "dropWhile pg_space s = s" and b: "dropWhile pg_space (rev s) = rev s"
    by (simp_all add: dropWhile_eq_self_iff hd_rev)
  show ?thesis by (simp add: pg_trim_def a b)
qed

lemma trim_no_space:
  assumes "list_all (\<lambda>c. \<not> is_space c) s"
  shows "trim s = s"
proof (cases "s = []")
  case True
  then show ?thesis by (simp add: trim_def)
next
  case False
  with assms have "\<not> is_space (hd s)" "\<not> is_space (last s)"
    by (simp_all add: list_all_iff)
  with False have a: "dropWhile is_space s = s" and b: "dropWhile is_space (rev s) = rev s"
    by (simp_all add: dropWhile_eq_self_iff hd_rev)
  show ?thesis by (simp add: trim_def a b)
qed

lemma parse_int_pg_trim: "parse_int s = Some i \<Longrightarrow> pg_trim s = s"
  using parse_int_chars [of s i] sign_or_digit
  by (intro pg_trim_no_space) (auto simp: list_all_iff)

lemma id_in_valid:
  assumes "parse_int ident = Some i"
  shows "id_in P (JStr ident) =
           (if int4_range i then Inr (Some (of_int i)) else Inl (DbError ''22003''))"
  using assms parse_int_nul [OF assms]
  by (simp add: id_in_def pg_input_def int_in_def parse_int_pg_trim [OF assms] int4_range_def)

lemma isInt_parse: "isInt lo ident \<Longrightarrow> \<exists>i. parse_int ident = Some i \<and> lo \<le> i"
  by (simp add: isInt_def split: option.splits)

lemma id_chain_valid: "isInt 1 ident \<Longrightarrow> id_chain ident = []"
  by (simp add: id_chain_def)

lemma filter_none_id:
  "int4_range i \<Longrightarrow>
     filter (id_is (Some (of_int i))) rs = [] \<longleftrightarrow> list_all (\<lambda>r. sint (task_id r) \<noteq> i) rs"
  by (induction rs) (auto simp: id_is_def int4_eq int4_eq2)

lemma filter_not_id_absent:
  "int4_range i \<Longrightarrow>
     list_all (\<lambda>r. sint (task_id r) \<noteq> i) (filter (\<lambda>r. \<not> id_is (Some (of_int i)) r) rs)"
  by (induction rs) (auto simp: id_is_def int4_eq int4_eq2)





subsection \<open>What an update statement leaves alone\<close>

lemma same_except_refl: "same_except S r r"
  by (simp add: same_except_def)

lemma same_except_mono: "same_except S r r' \<Longrightarrow> S \<subseteq> T \<Longrightarrow> same_except T r r'"
  by (auto simp: same_except_def)

lemma same_except_trans:
  "same_except S r r' \<Longrightarrow> same_except T r' r'' \<Longrightarrow> same_except (S \<union> T) r r''"
  by (auto simp: same_except_def)

lemma column_value_updated: "column_value c (r\<lparr>task_updated_at := t\<rparr>) = column_value c r"
  by (cases c) simp_all

lemma store_fixed:
  "store c x r = Inr r' \<Longrightarrow>
     task_id r' = task_id r \<and> task_created_at r' = task_created_at r \<and>
     task_updated_at r' = task_updated_at r"
  by (induction c x r rule: store.induct) (auto split: sum.splits if_splits)

lemma store_other: "store c x r = Inr r' \<Longrightarrow> c' \<noteq> c \<Longrightarrow> column_value c' r' = column_value c' r"
  by (induction c x r rule: store.induct; cases c') (auto split: sum.splits if_splits)

lemma store_same_except:
  assumes "store c x r = Inr r'"
  shows "same_except {c} r r' \<and> task_updated_at r' = task_updated_at r"
  using store_fixed [OF assms] store_other [OF assms] by (simp add: same_except_def)

lemma store_all_same_except:
  "store_all xs r = Inr r' \<Longrightarrow>
     same_except (fst ` set xs) r r' \<and> task_updated_at r' = task_updated_at r"
proof (induction xs arbitrary: r)
  case Nil
  then show ?case by (simp add: same_except_refl)
next
  case (Cons cx xs)
  obtain c x where cx: "cx = (c, x)" by (cases cx)
  with Cons.prems obtain r1 where s1: "store c x r = Inr r1" and s2: "store_all xs r1 = Inr r'"
    by (auto split: sum.splits)
  from store_same_except [OF s1] Cons.IH [OF s2]
  have a: "same_except {c} r r1" and b: "same_except (fst ` set xs) r1 r'"
    and u: "task_updated_at r' = task_updated_at r"
    by simp_all
  from same_except_trans [OF a b] have "same_except ({c} \<union> fst ` set xs) r r'" .
  with cx u show ?case by simp
qed

lemma update_row_same_except:
  assumes "update_row xs now r = Inr r'"
  shows "same_except (fst ` set xs) r r' \<and> task_updated_at r' = now"
proof -
  from assms obtain r1 where s: "store_all xs r = Inr r1" and r': "r' = r1\<lparr>task_updated_at := now\<rparr>"
    by (auto simp: update_row_def split: sum.splits)
  from store_all_same_except [OF s] have "same_except (fst ` set xs) r r1" by simp
  with r' show ?thesis
    by (simp add: same_except_def column_value_updated)
qed

lemma update_rows_rel:
  "update_rows xs now i rs = Inr rs' \<Longrightarrow> list_all2 (row_updated xs now i) rs rs'"
  by (induction rs arbitrary: rs') (auto simp: row_updated_def split: sum.splits if_splits)

lemma row_updated_frame:
  assumes "row_updated xs now i r r'"
  shows "same_except (fst ` set xs) r r' \<and> (id_is i r' \<longrightarrow> task_updated_at r' = now) \<and>
         (\<not> id_is i r \<longrightarrow> r' = r) \<and> id_is i r' = id_is i r"
proof (cases "id_is i r")
  case True
  with assms have "update_row xs now r = Inr r'" by (simp add: row_updated_def)
  from update_row_same_except [OF this] True show ?thesis
    by (auto simp: id_is_def same_except_def)
next
  case False
  with assms show ?thesis by (simp add: row_updated_def same_except_refl)
qed

lemma bound_sets_columns:
  "c \<in> fst ` set (bound_sets ps as) \<Longrightarrow> \<exists>n. SetParam c n \<in> set as"
proof (induction as)
  case Nil
  then show ?case by simp
next
  case (Cons a as)
  then show ?case
    by (cases a) (auto split: option.splits)
qed

lemma convert_all_columns: "convert_all P cvs = Inr xs \<Longrightarrow> map fst xs = map fst cvs"
  by (induction cvs arbitrary: xs) (auto split: sum.splits)

lemma update_tasks_rel:
  assumes "update_tasks P d now u ps = Inr (rows, d')"
  shows "\<exists>i. db_next_id d' = db_next_id d \<and> rows = filter (id_is i) (db_tasks d') \<and>
           bound ps (us_id u) \<noteq> None \<and> id_in P (the (bound ps (us_id u))) = Inr i \<and>
           list_all2 (\<lambda>r r'. same_except (set_columns (us_set u)) r r' \<and>
                        (id_is i r' \<longrightarrow> task_updated_at r' = now) \<and>
                        (\<not> id_is i r \<longrightarrow> r' = r) \<and> id_is i r' = id_is i r)
             (db_tasks d) (db_tasks d')"
proof -
  from assms obtain v i xs rs where
    v: "bound ps (us_id u) = Some v" and i: "id_in P v = Inr i"
    and xs: "convert_all P (bound_sets ps (us_set u)) = Inr xs"
    and rs: "update_rows xs now i (db_tasks d) = Inr rs"
    and res: "rows = filter (id_is i) rs" "d' = d\<lparr>db_tasks := rs\<rparr>"
    by (auto simp: update_tasks_def split: if_splits option.splits sum.splits)
  have cols: "fst ` set xs \<subseteq> set_columns (us_set u)"
  proof -
    have "fst ` set xs = set (map fst xs)" by simp
    also have "\<dots> = fst ` set (bound_sets ps (us_set u))"
      using convert_all_columns [OF xs] by simp
    also have "\<dots> \<subseteq> set_columns (us_set u)"
      by (auto simp: set_columns_def dest: bound_sets_columns [OF imageI])
    finally show ?thesis .
  qed
  have "list_all2 (row_updated xs now i) (db_tasks d) rs"
    using rs by (rule update_rows_rel)
  then have "list_all2 (\<lambda>r r'. same_except (set_columns (us_set u)) r r' \<and>
                        (id_is i r' \<longrightarrow> task_updated_at r' = now) \<and>
                        (\<not> id_is i r \<longrightarrow> r' = r) \<and> id_is i r' = id_is i r) (db_tasks d) rs"
    by (rule list_all2_mono) (use cols in \<open>auto dest!: row_updated_frame intro: same_except_mono\<close>)
  with v i res show ?thesis by auto
qed

subsection \<open>DELETE /tasks/:id and the identifiers of the table\<close>

















subsection \<open>PUT /tasks/:id\<close>

lemma update_chains_fields:
  "(body_field c (fst (update_chains P ident b)) = None) = (body_field c b = None)"
  by (cases c; cases "b_title b") (simp_all add: update_chains_def)

lemma specified_chains: "specified (fst (update_chains P ident b)) = specified b"
  by (simp add: specified_def update_chains_fields)

lemma build_update_count: "length (fst (snd (build_update b))) = snd (snd (build_update b))"
  by (simp add: build_update_def split: option.splits)

lemma build_update_columns: "set_columns (fst (build_update b)) = specified b"
proof -
  have "(\<exists>n. SetParam c n \<in> set (fst (build_update b))) = (body_field c b \<noteq> None)" for c
    by (cases c; cases "b_title b"; cases "b_description b"; cases "b_priority b";
        cases "b_dueDate b"; cases "b_completed b")
      (simp_all add: build_update_def)
  then show ?thesis by (simp add: set_columns_def specified_def)
qed

lemma build_update_empty: "(fst (build_update b) = []) = (specified b = {})"
proof
  assume "fst (build_update b) = []"
  then have "set_columns (fst (build_update b)) = {}" by (simp add: set_columns_def)
  then show "specified b = {}" by (simp add: build_update_columns)
next
  assume "specified b = {}"
  then have "body_field c b = None" for c by (auto simp: specified_def)
  from this [of Title] this [of Description] this [of Priority] this [of DueDate] this [of Completed]
  show "fst (build_update b) = []" by (simp add: build_update_def)
qed

lemma set_columns_now: "set_columns (as @ [SetUpdatedNow]) = set_columns as"
  by (auto simp: set_columns_def)

lemma update_task_unfold:
  "update_task P d now ident b =
     (case validateRequest (updateTaskSchema P) (fst (update_chains P ident b)) of
        Some res \<Rightarrow> (Responded res, d)
      | None \<Rightarrow>
          if snd (update_chains P ident b) \<noteq> [] then
            (Responded \<lparr>status = 400, body = ValidationJson (snd (update_chains P ident b))\<rparr>, d)
          else case select_by_id P (db_tasks d) [JStr ident] of
            Inl error \<Rightarrow> (Forwarded error, d)
          | Inr existingTask \<Rightarrow>
              if existingTask = [] then
                (Responded \<lparr>status = 404, body = ErrorJson ''Task not found''\<rparr>, d)
              else if fst (build_update (fst (update_chains P ident b))) = [] then
                (Responded \<lparr>status = 400, body = ErrorJson ''No fields to update''\<rparr>, d)
              else case update_tasks P d now
                          \<lparr>us_set = fst (build_update (fst (update_chains P ident b))) @ [SetUpdatedNow],
                           us_id = snd (snd (build_update (fst (update_chains P ident b)))) + 1\<rparr>
                          (fst (snd (build_update (fst (update_chains P ident b)))) @ [JStr ident]) of
                Inl error \<Rightarrow> (Forwarded error, d)
              | Inr (rows, d') \<Rightarrow>
                  (case rows of
                     [] \<Rightarrow> (Responded \<lparr>status = 200, body = EmptyObjectJson\<rparr>, d')
                   | r # rs \<Rightarrow> (Responded \<lparr>status = 200, body = TaskJson r\<rparr>, d')))"
  unfolding update_task_def Let_def split_beta by (rule refl)

lemma validateRequest_status: "validateRequest schema b = Some res \<Longrightarrow> status res = 400"
  by (auto simp: validateRequest_def split: option.splits)

lemma update_chains_id: "snd (update_chains P ident b) = [] \<Longrightarrow> isInt 1 ident"
  by (simp add: update_chains_def Let_def id_chain_def split: if_splits)

lemma update_task_cases:
  assumes "update_task P d now ident b = (out, d')"
  shows "(d' = d \<and> (\<forall>t. out \<noteq> Responded \<lparr>status = 200, body = TaskJson t\<rparr>)) \<or>
         (isInt 1 ident \<and>
          (\<exists>rows. update_tasks P d now
                    \<lparr>us_set = fst (build_update (fst (update_chains P ident b))) @ [SetUpdatedNow],
                     us_id = snd (snd (build_update (fst (update_chains P ident b)))) + 1\<rparr>
                    (fst (snd (build_update (fst (update_chains P ident b)))) @ [JStr ident]) =
                   Inr (rows, d') \<and>
                  out = (case rows of
                           [] \<Rightarrow> Responded \<lparr>status = 200, body = EmptyObjectJson\<rparr>
                         | r # rs \<Rightarrow> Responded \<lparr>status = 200, body = TaskJson r\<rparr>)))"
proof (cases "validateRequest (updateTaskSchema P) (fst (update_chains P ident b))")
  case (Some res)
  from validateRequest_status [OF Some] have "res \<noteq> \<lparr>status = 200, body = TaskJson t\<rparr>" for t
    by auto
  with assms Some show ?thesis
    by (auto simp: update_task_unfold)
next
  case None
  note joi = this
  show ?thesis
  proof (cases "snd (update_chains P ident b) = []")
    case False
    with assms joi show ?thesis
      by (auto simp: update_task_unfold)
  next
    case True
    note ok = this
    then have v: "isInt 1 ident" by (rule update_chains_id)
    show ?thesis
    proof (cases "select_by_id P (db_tasks d) [JStr ident]")
      case (Inl e)
      with assms joi ok show ?thesis
        by (auto simp: update_task_unfold)
    next
      case (Inr existing)
      note sel = this
      show ?thesis
      proof (cases "existing = [] \<or> fst (build_update (fst (update_chains P ident b))) = []")
        case True
        with assms joi ok sel show ?thesis
          by (auto simp: update_task_unfold split: if_splits)
      next
        case False
        note go = this
        show ?thesis
        proof (cases "update_tasks P d now
                    \<lparr>us_set = fst (build_update (fst (update_chains P ident b))) @ [SetUpdatedNow],
                     us_id = snd (snd (build_update (fst (update_chains P ident b)))) + 1\<rparr>
                    (fst (snd (build_update (fst (update_chains P ident b)))) @ [JStr ident])")
          case (Inl e)
          with assms joi ok sel go show ?thesis
            by (auto simp: update_task_unfold)
        next
          case (Inr res)
          obtain rows d2 where res: "res = (rows, d2)" by (cases res)
          from assms joi ok sel go Inr res
          have "d' = d2" and "out = (case rows of
                           [] \<Rightarrow> Responded \<lparr>status = 200, body = EmptyObjectJson\<rparr>
                         | r # rs \<Rightarrow> Responded \<lparr>status = 200, body = TaskJson r\<rparr>)"
            by (auto simp: update_task_unfold split: list.splits)
          with Inr res v show ?thesis by auto
        qed
      qed
    qed
  qed
qed

lemma list_all2_same: "(\<And>r. R r r) \<Longrightarrow> list_all2 R rs rs"
  by (induction rs) simp_all

lemma update_task_frame:
  assumes "update_task P d now ident b = (out, d')"
  shows "db_next_id d' = db_next_id d \<and>
         list_all2 (\<lambda>r r'. same_except (specified b) r r' \<and>
                      (Some (sint (task_id r)) \<noteq> parse_int ident \<longrightarrow> r' = r))
           (db_tasks d) (db_tasks d') \<and>
         (\<forall>t. out = Responded \<lparr>status = 200, body = TaskJson t\<rparr> \<longrightarrow>
              t \<in> set (db_tasks d') \<and> Some (sint (task_id t)) = parse_int ident \<and>
              task_updated_at t = now)"
proof -
  let ?b = "fst (update_chains P ident b)"
  let ?u = "\<lparr>us_set = fst (build_update ?b) @ [SetUpdatedNow],
             us_id = snd (snd (build_update ?b)) + 1\<rparr>"
  let ?ps = "fst (snd (build_update ?b)) @ [JStr ident]"
  from update_task_cases [OF assms] consider
    (same) "d' = d" "\<forall>t. out \<noteq> Responded \<lparr>status = 200, body = TaskJson t\<rparr>"
    | (upd) rows where "isInt 1 ident" "update_tasks P d now ?u ?ps = Inr (rows, d')"
        "out = (case rows of
                  [] \<Rightarrow> Responded \<lparr>status = 200, body = EmptyObjectJson\<rparr>
                | r # rs \<Rightarrow> Responded \<lparr>status = 200, body = TaskJson r\<rparr>)"
    by blast
  then show ?thesis
  proof cases
    case same
    then show ?thesis
      by (simp add: same_except_refl list_all2_same)
  next
    case upd
    from upd(1) obtain i where i: "parse_int ident = Some i"
      by (auto dest: isInt_parse)
    have b: "bound ?ps (us_id ?u) = Some (JStr ident)"
      by (simp add: bound_def build_update_count nth_append)
    from update_tasks_rel [OF upd(2)] b obtain j where
      j: "id_in P (JStr ident) = Inr j"
      and n: "db_next_id d' = db_next_id d" and rows: "rows = filter (id_is j) (db_tasks d')"
      and l: "list_all2 (\<lambda>r r'. same_except (set_columns (us_set ?u)) r r' \<and>
                        (id_is j r' \<longrightarrow> task_updated_at r' = now) \<and>
                        (\<not> id_is j r \<longrightarrow> r' = r) \<and> id_is j r' = id_is j r)
             (db_tasks d) (db_tasks d')"
      by auto
    from j id_in_valid [OF i, of P] have r: "int4_range i" and jj: "j = Some (of_int i)"
      by (auto split: if_splits)
    have idj: "id_is j x = (sint (task_id x) = i)" for x
      by (auto simp: jj id_is_def int4_eq [OF r] int4_eq2 [OF r])
    have cols: "set_columns (fst (build_update ?b) @ [SetUpdatedNow]) = specified b"
      by (simp add: set_columns_now build_update_columns specified_chains)
    from l have l1: "list_all2 (\<lambda>r r'. same_except (specified b) r r' \<and>
                      (Some (sint (task_id r)) \<noteq> parse_int ident \<longrightarrow> r' = r))
           (db_tasks d) (db_tasks d')"
      by (rule list_all2_mono) (auto simp: cols i idj)
    from l have l2: "\<forall>r' \<in> set (db_tasks d'). id_is j r' \<longrightarrow> task_updated_at r' = now"
      by (auto simp: list_all2_conv_all_nth in_set_conv_nth)
    have "t \<in> set (db_tasks d') \<and> Some (sint (task_id t)) = parse_int ident \<and> task_updated_at t = now"
      if "out = Responded \<lparr>status = 200, body = TaskJson t\<rparr>" for t
    proof -
      from that upd(3) obtain rs where "rows = t # rs"
        by (auto split: list.splits)
      with rows have "t \<in> set (filter (id_is j) (db_tasks d'))"
        by (metis list.set_intros(1))
      with l2 i show ?thesis by (auto simp: idj)
    qed
    with n l1 show ?thesis by blast
  qed
qed

lemma update_task_no_fields:
  assumes "specified b = {}" and "parse_int ident = Some i" and "1 \<le> i" and "\<not> absent i d"
  shows "update_task P d now ident b =
           (Responded \<lparr>status = 400,
              body = (case b_unknown b of [] \<Rightarrow> ErrorJson ''No fields to update''
                      | k # ks \<Rightarrow> ValidationJson [JoiMessage k])\<rparr>, d)"
proof -
  from assms(1) have f: "body_field c b = None" for c
    by (auto simp: specified_def)
  from f [of Title] f [of Description] f [of Priority] f [of DueDate] f [of Completed]
  have n: "b_title b = None" "b_description b = None" "b_priority b = None" "b_dueDate b = None"
    "b_completed b = None" by simp_all
  from assms(2,3) have v: "isInt 1 ident" by (simp add: isInt_def)
  from n v have ch: "update_chains P ident b = (b, [])"
    by (simp add: update_chains_def id_chain_def)
  from n have joi: "updateTaskSchema P b = (case b_unknown b of [] \<Rightarrow> None | k # ks \<Rightarrow> Some k)"
    by (simp add: updateTaskSchema_def joi_object_def)
  from assms(4) obtain x where "x \<in> set (db_tasks d)" "sint (task_id x) = i"
    by (auto simp: absent_def list_all_iff)
  with sint_int4_range [of "task_id x"] have r: "int4_range i" by simp
  from assms(4) have ex: "filter (id_is (Some (of_int i))) (db_tasks d) \<noteq> []"
    by (simp add: absent_def filter_none_id [OF r])
  from n have bu: "build_update b = ([], [], 0)"
    by (simp add: build_update_def)
  show ?thesis
    using ex r
    by (cases "b_unknown b")
      (simp_all add: update_task_unfold ch validateRequest_def joi select_by_id_def
        id_in_valid [OF assms(2)] bu)
qed

text \<open>
  C5. For every PUT /tasks/:id request, whatever its outcome: each row of the table
  keeps its identifier, its creation time and the value of every column that the body
  does not specify, and a row with another identifier is not changed at all; when the
  answer is 200, the task returned is the row with the identifier of the request and its
  \<open>updated_at\<close> is the time of the update. A request on an existing task that specifies
  none of the updatable fields is answered 400 and leaves the table as it was.
\<close>

theorem update_keeps_unspecified:
  "db_next_id (snd (update_task P d now ident b)) = db_next_id d \<and>
   list_all2 (\<lambda>r r'. same_except (specified b) r r' \<and>
                (Some (sint (task_id r)) \<noteq> parse_int ident \<longrightarrow> r' = r))
     (db_tasks d) (db_tasks (snd (update_task P d now ident b))) \<and>
   (\<forall>t. fst (update_task P d now ident b) = Responded \<lparr>status = 200, body = TaskJson t\<rparr> \<longrightarrow>
        t \<in> set (db_tasks (snd (update_task P d now ident b))) \<and>
        Some (sint (task_id t)) = parse_int ident \<and> task_updated_at t = now) \<and>
   (specified b = {} \<and> isInt 1 ident \<and>
    list_ex (\<lambda>r. Some (sint (task_id r)) = parse_int ident) (db_tasks d) \<longrightarrow>
      status_400 (fst (update_task P d now ident b)) \<and> snd (update_task P d now ident b) = d)"
proof -
  have "update_task P d now ident b =
      (fst (update_task P d now ident b), snd (update_task P d now ident b))" by simp
  from update_task_frame [OF this] have frame:
    "db_next_id (snd (update_task P d now ident b)) = db_next_id d \<and>
     list_all2 (\<lambda>r r'. same_except (specified b) r r' \<and>
                (Some (sint (task_id r)) \<noteq> parse_int ident \<longrightarrow> r' = r))
       (db_tasks d) (db_tasks (snd (update_task P d now ident b))) \<and>
     (\<forall>t. fst (update_task P d now ident b) = Responded \<lparr>status = 200, body = TaskJson t\<rparr> \<longrightarrow>
        t \<in> set (db_tasks (snd (update_task P d now ident b))) \<and>
        Some (sint (task_id t)) = parse_int ident \<and> task_updated_at t = now)" .
  have none: "status_400 (fst (update_task P d now ident b)) \<and> snd (update_task P d now ident b) = d"
    if s: "specified b = {}" and v: "isInt 1 ident"
      and e: "list_ex (\<lambda>r. Some (sint (task_id r)) = parse_int ident) (db_tasks d)"
  proof -
    from v obtain i where i: "parse_int ident = Some i" "1 \<le> i"
      by (auto dest: isInt_parse)
    with e have "\<not> absent i d"
      by (auto simp: absent_def list_all_iff list_ex_iff)
    from update_task_no_fields [OF s i this] show ?thesis
      by simp
  qed
  from frame none show ?thesis by blast
qed

lemma digit_values: "zip digits [0 ..< 10] =
    [(CHR ''0'', 0), (CHR ''1'', 1), (CHR ''2'', 2), (CHR ''3'', 3), (CHR ''4'', 4),
     (CHR ''5'', 5), (CHR ''6'', 6), (CHR ''7'', 7), (CHR ''8'', 8), (CHR ''9'', 9)]"
  by (simp add: digits_def upt_conv_Cons)

lemma parse_int_2: "parse_int ''2'' = Some 2"
  by (simp add: parse_int_def digit_value_def digit_values)



lemma trim_renamed: "trim ''  Renamed '' = ''Renamed''"
  by (simp add: trim_def is_space_def)

lemma seed_ids:
  "map (\<lambda>r. sint (task_id r)) seed_tasks = [1, 2, 3, 4, 5]"
  by (simp add: seed_tasks_def seed_task_def)

lemma id_in_two: "id_in P (JStr ''2'') = Inr (Some 2)"
  using id_in_valid [OF parse_int_2, of P] by (simp add: int4_range_def)

lemma seed_update:
  "update_task plain_platform seed_db 9 ''2'' (empty_body\<lparr>b_title := Some (JStr ''  Renamed '')\<rparr>) =
     (Responded \<lparr>status = 200, body = TaskJson
        ((seed_task 2 ''Renamed'' ''medium'' True)\<lparr>task_updated_at := 9\<rparr>)\<rparr>,
      \<lparr>db_tasks =
         [seed_task 1 ''High Priority Task'' ''high'' False,
          (seed_task 2 ''Renamed'' ''medium'' True)\<lparr>task_updated_at := 9\<rparr>,
          seed_task 3 ''Low Priority Task'' ''low'' False,
          seed_task 4 ''Another High Priority Task'' ''high'' True,
          seed_task 5 ''Completed Task'' ''medium'' True],
       db_next_id = 6\<rparr>)"
proof -
  let ?b = "empty_body\<lparr>b_title := Some (JStr ''  Renamed '')\<rparr>"
  have ch: "update_chains plain_platform ''2'' ?b = (empty_body\<lparr>b_title := Some (JStr ''Renamed'')\<rparr>, [])"
    by (simp add: update_chains_def empty_body_def trim_renamed id_chain_def isInt_def parse_int_2
        checked_def isLength_def)
  have joi: "validateRequest (updateTaskSchema plain_platform)
      (empty_body\<lparr>b_title := Some (JStr ''Renamed'')\<rparr>) = None"
    by (simp add: validateRequest_def updateTaskSchema_def joi_object_def joi_string_def empty_body_def)
  have sel: "select_by_id plain_platform (db_tasks seed_db) [JStr ''2''] =
      Inr [seed_task 2 ''Medium Priority Task'' ''medium'' True]"
    by (simp add: select_by_id_def id_in_two seed_db_def seed_tasks_def id_is_def seed_task_def)
  have bu: "build_update (empty_body\<lparr>b_title := Some (JStr ''Renamed'')\<rparr>) =
      ([SetParam Title 1], [JStr ''Renamed''], 1)"
    by (simp add: build_update_def empty_body_def)
  have b1: "bound [JStr ''Renamed'', JStr ''2''] (Suc 0) = Some (JStr ''Renamed'')"
    and b2: "bound [JStr ''Renamed'', JStr ''2''] (Suc (Suc 0)) = Some (JStr ''2'')"
    by (simp_all add: bound_def)
  have ba: "binds_all
      (update_placeholders
        \<lparr>us_set = [SetParam Title (Suc 0), SetUpdatedNow], us_id = Suc (Suc 0)\<rparr>)
      [JStr ''Renamed'', JStr ''2'']"
    by (auto simp: binds_all_def update_placeholders_def)
  have cv: "convert plain_platform Title (JStr ''Renamed'') = Inr (VText (Some ''Renamed''))"
    by (simp add: convert_def pg_input_def nul_def)
  have up: "update_tasks plain_platform seed_db 9
      \<lparr>us_set = [SetParam Title (Suc 0), SetUpdatedNow], us_id = Suc (Suc 0)\<rparr>
      [JStr ''Renamed'', JStr ''2''] =
      Inr ([(seed_task 2 ''Renamed'' ''medium'' True)\<lparr>task_updated_at := 9\<rparr>],
        \<lparr>db_tasks =
         [seed_task 1 ''High Priority Task'' ''high'' False,
          (seed_task 2 ''Renamed'' ''medium'' True)\<lparr>task_updated_at := 9\<rparr>,
          seed_task 3 ''Low Priority Task'' ''low'' False,
          seed_task 4 ''Another High Priority Task'' ''high'' True,
          seed_task 5 ''Completed Task'' ''medium'' True],
         db_next_id = 6\<rparr>)"
    by (simp add: update_tasks_def ba b1 b2 cv id_in_two seed_db_def seed_tasks_def
        id_is_def seed_task_def update_row_def varchar_def)
  show ?thesis
    by (simp add: update_task_unfold ch joi sel bu up)
qed

theorem update_keeps_unspecified_witness:
  "fst (update_task plain_platform seed_db 9 ''2'' (empty_body\<lparr>b_title := Some (JStr ''  Renamed '')\<rparr>)) =
     Responded \<lparr>status = 200, body = TaskJson
       ((seed_task 2 ''Renamed'' ''medium'' True)\<lparr>task_updated_at := 9\<rparr>)\<rparr> \<and>
   (seed_task 2 ''Renamed'' ''medium'' True)\<lparr>task_updated_at := 9\<rparr> \<in>
     set (db_tasks (snd (update_task plain_platform seed_db 9 ''2''
            (empty_body\<lparr>b_title := Some (JStr ''  Renamed '')\<rparr>)))) \<and>
   specified empty_body = {} \<and> isInt 1 ''2'' \<and>
   list_ex (\<lambda>r. Some (sint (task_id r)) = parse_int ''2'') (db_tasks seed_db) \<and>
   status_400 (fst (update_task plain_platform seed_db 9 ''2'' empty_body)) \<and>
   snd (update_task plain_platform seed_db 9 ''2'' empty_body) = seed_db"
proof -
  have s: "specified empty_body = {}"
  proof -
    have "body_field c empty_body = None" for c
      by (cases c) (simp_all add: empty_body_def)
    then show ?thesis by (simp add: specified_def)
  qed
  have v: "isInt 1 ''2''"
    by (simp add: isInt_def parse_int_2)
  have e: "list_ex (\<lambda>r. Some (sint (task_id r)) = parse_int ''2'') (db_tasks seed_db)"
    by (simp add: parse_int_2 seed_db_def seed_tasks_def seed_task_def)
  from update_keeps_unspecified [of plain_platform seed_db 9 "''2''" empty_body] s v e
  have a: "status_400 (fst (update_task plain_platform seed_db 9 ''2'' empty_body)) \<and>
      snd (update_task plain_platform seed_db 9 ''2'' empty_body) = seed_db"
    by blast
  from update_keeps_unspecified [of plain_platform seed_db 9 "''2''"
      "empty_body\<lparr>b_title := Some (JStr ''  Renamed '')\<rparr>"]
  have b: "(seed_task 2 ''Renamed'' ''medium'' True)\<lparr>task_updated_at := 9\<rparr> \<in>
     set (db_tasks (snd (update_task plain_platform seed_db 9 ''2''
            (empty_body\<lparr>b_title := Some (JStr ''  Renamed '')\<rparr>))))"
    by (simp add: seed_update)
  from a b s v e show ?thesis
    by (simp add: seed_update)
qed



end
